theory Spec2Isabelle
  imports Complex_Main "HOL-Library.Word" "HOL-Library.Char_ord" "HOL-Library.List_Lexorder"
begin

section \<open>Python values and types\<close>

text \<open>
  The serializer and the deserializer of strong_typing work on Python objects. A JSON
  value is itself a Python object (None, bool, int, float, str, list, dict), so one
  datatype \<open>pyval\<close> holds both the in-memory values and the JSON trees. A type given to
  the factories (a class, a generic alias such as List[int], a special form) is a
  \<open>pytype\<close>.

  Calendar values: a date is (year, month, day); a time of day is (hour, minute, second,
  microsecond, tzinfo), where tzinfo is the fixed UTC offset in microseconds of a
  datetime.timezone, or None for a naive value; a datetime is a date together with a
  time of day. Floats are idealised as reals.
\<close>

record pydate =
  year :: nat
  month :: nat
  day :: nat

record pytime =
  hour :: nat
  minute :: nat
  second :: nat
  microsecond :: nat
  tzinfo :: "int option"

text \<open>Where a dataclass field takes its value from when the input has none.\<close>

datatype 'v default_src = NoDefault | DefaultValue 'v | DefaultFactory nat

text \<open>
  What a user class is: a plain class, a dataclass (with its frozen parameter), a named
  tuple (with its _fields) or an enumeration (with its members, name and value, in
  definition order).
\<close>

datatype 'v class_kind =
    PlainClass
  | DataClass bool
  | NamedTupleClass "string list"
  | EnumClass "(string \<times> 'v) list"

text \<open>Metadata of Annotated[T, ...]: the rename marker, or a constraint opaque to the codec.\<close>

datatype annotation = Alias string | Constraint nat

text \<open>
  \<open>TClass (PyClass name kind hints to_json from_json)\<close> is a user class: \<open>hints\<close> are its annotated
  fields in the order get_type_hints and dataclasses.fields give them (name, declared
  type, default), \<open>to_json\<close> and \<open>from_json\<close> name the conversion hooks of the class when
  it has them. \<open>TBareList\<close> .. \<open>TBareTuple\<close> are list, dict, set, tuple without parameters.
  \<open>TSpecial\<close> is any other special form: not a class, no annotations.
\<close>

datatype pytype =
    TNoneType | TBool | TInt | TFloat | TStr | TBytes | TDateTime | TDate | TTime | TUUID
  | TBareList | TBareDict | TBareSet | TBareTuple
  | TList pytype
  | TDict pytype pytype
  | TSet pytype
  | TTuple "pytype list"
  | TUnion "pytype list"
  | TLiteral "pyval list"
  | TAnnotated pytype "annotation list"
  | TFunctionType | TModuleType | TType | TMethodType
  | TClass pyclass
  | TSpecial string
and pyclass =
    PyClass string "pyval class_kind" "(string \<times> pytype \<times> pyval default_src) list"
      "nat option" "nat option"
and pyval =
    VNone
  | VBool bool
  | VInt int
  | VFloat real
  | VStr string
  | VBytes "8 word list"
  | VDateTime pydate pytime
  | VDate pydate
  | VTime pytime
  | VUUID "128 word"
  | VList "pyval list"
  | VDict "(pyval \<times> pyval) list"
  | VSet "pyval list"
  | VTuple "pyval list"
  | VEnum pyclass string pyval
  | VObject pyclass "(string \<times> pyval) list"
  | VFunction | VModule | VMethod
  | VType pytype

text \<open>
  Exceptions. A message is the f-string of the source: its literal text and the objects
  it interpolates.
\<close>

datatype part =
    Txt string
  | Str string
  | Obj pyval
  | Ty pytype
  | Tys "pytype list"
  | Num nat

datatype error =
    JsonKeyError "part list"
  | JsonTypeError "part list"
  | JsonValueError "part list"
  | TypeError "part list"
  | ValueError "part list"
  | AttributeError string
  | FrozenInstanceError "part list"
  | UserError nat

text \<open>
  What the code takes from the Python runtime and from user code: the standard library's
  text codecs (base64, fromisoformat, UUID), the builtin str, the to_json and from_json
  hooks of user classes and the default factories of dataclass fields.
\<close>

record pylib =
  b64encode :: "8 word list \<Rightarrow> string"
  b64decode :: "string \<Rightarrow> error + 8 word list"
  datetime_fromisoformat :: "string \<Rightarrow> error + pydate \<times> pytime"
  date_fromisoformat :: "string \<Rightarrow> error + pydate"
  time_fromisoformat :: "string \<Rightarrow> error + pytime"
  uuid_parse :: "string \<Rightarrow> error + 128 word"
  py_str :: "pyval \<Rightarrow> string"
  call_to_json :: "nat \<Rightarrow> pyval \<Rightarrow> error + pyval"
  call_from_json :: "nat \<Rightarrow> pyval \<Rightarrow> error + pyval"
  call_factory :: "nat \<Rightarrow> pyval"

section \<open>Builtins\<close>

text \<open>type(obj).\<close>

fun type_of :: "pyval \<Rightarrow> pytype" where
  "type_of VNone = TNoneType"
| "type_of (VBool _) = TBool"
| "type_of (VInt _) = TInt"
| "type_of (VFloat _) = TFloat"
| "type_of (VStr _) = TStr"
| "type_of (VBytes _) = TBytes"
| "type_of (VDateTime _ _) = TDateTime"
| "type_of (VDate _) = TDate"
| "type_of (VTime _) = TTime"
| "type_of (VUUID _) = TUUID"
| "type_of (VList _) = TBareList"
| "type_of (VDict _) = TBareDict"
| "type_of (VSet _) = TBareSet"
| "type_of (VTuple _) = TBareTuple"
| "type_of (VEnum c _ _) = TClass c"
| "type_of (VObject c _) = TClass c"
| "type_of VFunction = TFunctionType"
| "type_of VModule = TModuleType"
| "type_of VMethod = TMethodType"
| "type_of (VType _) = TType"

text \<open>
  Equality of dictionary keys and of enumeration values: bool, int and float compare
  by their number (True == 1 == 1.0), everything else structurally.
\<close>

fun num_of :: "pyval \<Rightarrow> real option" where
  "num_of (VBool b) = Some (if b then 1 else 0)"
| "num_of (VInt i) = Some (of_int i)"
| "num_of (VFloat r) = Some r"
| "num_of _ = None"

definition py_eq :: "pyval \<Rightarrow> pyval \<Rightarrow> bool" where
  "py_eq a b =
     (case num_of a of
        Some x \<Rightarrow> (case num_of b of Some y \<Rightarrow> x = y | None \<Rightarrow> False)
      | None \<Rightarrow> (case num_of b of Some y \<Rightarrow> False | None \<Rightarrow> a = b))"

text \<open>Truth value of an object.\<close>

fun truthy :: "pyval \<Rightarrow> bool" where
  "truthy VNone = False"
| "truthy (VBool b) = b"
| "truthy (VInt i) = (i \<noteq> 0)"
| "truthy (VFloat r) = (r \<noteq> 0)"
| "truthy (VStr s) = (s \<noteq> [])"
| "truthy (VBytes b) = (b \<noteq> [])"
| "truthy (VList xs) = (xs \<noteq> [])"
| "truthy (VDict kvs) = (kvs \<noteq> [])"
| "truthy (VSet xs) = (xs \<noteq> [])"
| "truthy (VTuple xs) = (xs \<noteq> [])"
| "truthy _ = True"

text \<open>str(obj): a str is itself, every other object goes through the builtin.\<close>

definition str_of :: "pylib \<Rightarrow> pyval \<Rightarrow> string" where
  "str_of L v = (case v of VStr s \<Rightarrow> s | _ \<Rightarrow> py_str L v)"

text \<open>
  Dictionaries keep insertion order: d.get(k), k in d, d[k] = v (a key already there
  keeps its place) and dict(pairs).
\<close>

fun dict_get :: "(pyval \<times> pyval) list \<Rightarrow> pyval \<Rightarrow> pyval option" where
  "dict_get [] k = None"
| "dict_get ((k', v) # d) k = (if py_eq k' k then Some v else dict_get d k)"

definition dict_has :: "(pyval \<times> pyval) list \<Rightarrow> pyval \<Rightarrow> bool" where
  "dict_has d k = (dict_get d k \<noteq> None)"

fun dict_set :: "(pyval \<times> pyval) list \<Rightarrow> pyval \<Rightarrow> pyval \<Rightarrow> (pyval \<times> pyval) list" where
  "dict_set [] k v = [(k, v)]"
| "dict_set ((k', v') # d) k v =
     (if py_eq k' k then (k', v) # d else (k', v') # dict_set d k v)"

definition dict_of :: "(pyval \<times> pyval) list \<Rightarrow> (pyval \<times> pyval) list" where
  "dict_of kvs = foldl (\<lambda>d (k, v). dict_set d k v) [] kvs"

text \<open>set(items): one of each, in the order first seen.\<close>

fun set_add :: "pyval list \<Rightarrow> pyval \<Rightarrow> pyval list" where
  "set_add [] x = [x]"
| "set_add (y # ys) x = (if py_eq y x then y # ys else y # set_add ys x)"

definition set_of :: "pyval list \<Rightarrow> pyval list" where
  "set_of xs = foldl set_add [] xs"

text \<open>Attributes of an instance, set by name: setattr and keyword construction.\<close>

fun attr_get :: "(string \<times> pyval) list \<Rightarrow> string \<Rightarrow> pyval option" where
  "attr_get [] n = None"
| "attr_get ((n', v) # a) n = (if n' = n then Some v else attr_get a n)"

fun attr_set :: "(string \<times> pyval) list \<Rightarrow> string \<Rightarrow> pyval \<Rightarrow> (string \<times> pyval) list" where
  "attr_set [] n v = [(n, v)]"
| "attr_set ((n', v') # a) n v =
     (if n' = n then (n', v) # a else (n', v') # attr_set a n v)"

text \<open>
  getattr(obj, name): the instance attributes of an object of a user class, and the
  name and value of an enumeration member.
\<close>

definition getattr :: "pyval \<Rightarrow> string \<Rightarrow> error + pyval" where
  "getattr obj n =
     (case obj of
        VObject c a \<Rightarrow> (case attr_get a n of Some v \<Rightarrow> Inr v | None \<Rightarrow> Inl (AttributeError n))
      | VEnum c name v \<Rightarrow>
          if n = ''value'' then Inr v
          else if n = ''name'' then Inr (VStr name)
          else Inl (AttributeError n)
      | _ \<Rightarrow> Inl (AttributeError n))"

text \<open>
  Iterating an object (for item in obj): the items of a list, tuple or set, the keys of
  a dictionary, the characters of a str, the bytes of a bytes object, the field values
  of a named tuple.
\<close>

definition iter_of :: "pyval \<Rightarrow> error + pyval list" where
  "iter_of obj =
     (case obj of
        VList xs \<Rightarrow> Inr xs
      | VTuple xs \<Rightarrow> Inr xs
      | VSet xs \<Rightarrow> Inr xs
      | VDict kvs \<Rightarrow> Inr (map fst kvs)
      | VStr s \<Rightarrow> Inr (map (\<lambda>c. VStr [c]) s)
      | VBytes bs \<Rightarrow> Inr (map (\<lambda>b. VInt (uint b)) bs)
      | VObject (PyClass n (NamedTupleClass fs) h tj fj) a \<Rightarrow> Inr (map snd a)
      | _ \<Rightarrow> Inl (TypeError [Obj obj, Txt '' object is not iterable'']))"

text \<open>obj.items().\<close>

definition items_of :: "pyval \<Rightarrow> error + (pyval \<times> pyval) list" where
  "items_of obj = (case obj of VDict kvs \<Rightarrow> Inr kvs | _ \<Rightarrow> Inl (AttributeError ''items''))"

section \<open>ISO 8601 text of dates and times\<close>

text \<open>
  isoformat() of the standard library, for datetime.date, datetime.time and
  datetime.datetime with a fixed-offset time zone. Numbers print in decimal, padded
  with zeros to a least width (the format %02d).
\<close>

definition digit :: "nat \<Rightarrow> char" where
  "digit d = ''0123456789'' ! d"

fun dec :: "nat \<Rightarrow> string" where
  "dec n = (if n < 10 then [digit n] else dec (n div 10) @ [digit (n mod 10)])"

declare dec.simps [simp del]

definition zpad :: "nat \<Rightarrow> nat \<Rightarrow> string" where
  "zpad w n = replicate (w - length (dec n)) (CHR ''0'') @ dec n"

definition format_time :: "pytime \<Rightarrow> string" where
  "format_time t =
     zpad 2 (hour t) @ '':'' @ zpad 2 (minute t) @ '':'' @ zpad 2 (second t)
     @ (if microsecond t = 0 then [] else ''.'' @ zpad 6 (microsecond t))"

definition format_offset :: "int option \<Rightarrow> string" where
  "format_offset off =
     (case off of
        None \<Rightarrow> []
      | Some us \<Rightarrow>
          (let a = nat \<bar>us\<bar>;
               hh = a div 3600000000;
               r = a mod 3600000000;
               mm = r div 60000000;
               ss = r mod 60000000
           in (if us < 0 then ''-'' else ''+'') @ zpad 2 hh @ '':'' @ zpad 2 mm
              @ (if ss = 0 then []
                 else '':'' @ zpad 2 (ss div 1000000)
                      @ (if ss mod 1000000 = 0 then [] else ''.'' @ zpad 6 (ss mod 1000000)))))"

definition date_isoformat :: "pydate \<Rightarrow> string" where
  "date_isoformat d = zpad 4 (year d) @ ''-'' @ zpad 2 (month d) @ ''-'' @ zpad 2 (day d)"

definition time_isoformat :: "pytime \<Rightarrow> string" where
  "time_isoformat t = format_time t @ format_offset (tzinfo t)"

definition datetime_isoformat :: "pydate \<Rightarrow> pytime \<Rightarrow> string" where
  "datetime_isoformat d t = date_isoformat d @ ''T'' @ time_isoformat t"

text \<open>obj.isoformat(): dates, times and datetimes have the method.\<close>

definition isoformat :: "pyval \<Rightarrow> error + string" where
  "isoformat obj =
     (case obj of
        VDateTime d t \<Rightarrow> Inr (datetime_isoformat d t)
      | VDate d \<Rightarrow> Inr (date_isoformat d)
      | VTime t \<Rightarrow> Inr (time_isoformat t)
      | _ \<Rightarrow> Inl (AttributeError ''isoformat''))"

text \<open>s.endswith(suffix), s[:-n].\<close>

definition endswith :: "string \<Rightarrow> string \<Rightarrow> bool" where
  "endswith s suf = (length suf \<le> length s \<and> drop (length s - length suf) s = suf)"

definition drop_last :: "nat \<Rightarrow> string \<Rightarrow> string" where
  "drop_last n s = take (length s - n) s"

section \<open>Loops that may raise\<close>

text \<open>
  A comprehension or a for loop whose body may raise stops at the first exception:
  \<open>mapE\<close> is [f(x) for x in xs], \<open>foldE\<close> a loop that updates a state.
\<close>

fun mapE :: "('a \<Rightarrow> error + 'b) \<Rightarrow> 'a list \<Rightarrow> error + 'b list" where
  "mapE f [] = Inr []"
| "mapE f (x # xs) =
     (case f x of
        Inl e \<Rightarrow> Inl e
      | Inr y \<Rightarrow> (case mapE f xs of Inl e \<Rightarrow> Inl e | Inr ys \<Rightarrow> Inr (y # ys)))"

fun foldE :: "('a \<Rightarrow> 's \<Rightarrow> error + 's) \<Rightarrow> 'a list \<Rightarrow> 's \<Rightarrow> error + 's" where
  "foldE f [] s = Inr s"
| "foldE f (x # xs) s = (case f x s of Inl e \<Rightarrow> Inl e | Inr s' \<Rightarrow> foldE f xs s')"

lemma mapE_cong [fundef_cong]:
  "xs = ys \<Longrightarrow> (\<And>x. x \<in> set ys \<Longrightarrow> f x = g x) \<Longrightarrow> mapE f xs = mapE g ys"
  by (induction ys arbitrary: xs) (auto split: sum.splits)

lemma foldE_cong [fundef_cong]:
  "xs = ys \<Longrightarrow> s = t \<Longrightarrow> (\<And>x u. x \<in> set ys \<Longrightarrow> f x u = g x u)
    \<Longrightarrow> foldE f xs s = foldE g ys t"
  by (induction ys arbitrary: xs s t) (auto split: sum.splits)

section \<open>Type inspection\<close>

text \<open>inspect.isclass(typ): generic aliases and special forms are not classes.\<close>

fun is_class :: "pytype \<Rightarrow> bool" where
  "is_class (TList _) = False"
| "is_class (TDict _ _) = False"
| "is_class (TSet _) = False"
| "is_class (TTuple _) = False"
| "is_class (TUnion _) = False"
| "is_class (TLiteral _) = False"
| "is_class (TAnnotated _ _) = False"
| "is_class (TSpecial _) = False"
| "is_class _ = True"

definition is_type_annotated :: "pytype \<Rightarrow> bool" where
  "is_type_annotated t = (case t of TAnnotated u m \<Rightarrow> True | _ \<Rightarrow> False)"

definition unwrap_annotated_type :: "pytype \<Rightarrow> pytype" where
  "unwrap_annotated_type t = (case t of TAnnotated u m \<Rightarrow> u | _ \<Rightarrow> t)"

text \<open>get_annotation(data_type, Alias): the first Alias of the metadata.\<close>

fun first_alias :: "annotation list \<Rightarrow> string option" where
  "first_alias [] = None"
| "first_alias (Alias a # m) = Some a"
| "first_alias (_ # m) = first_alias m"

definition get_annotation_Alias :: "pytype \<Rightarrow> string option" where
  "get_annotation_Alias t = (case t of TAnnotated u m \<Rightarrow> first_alias m | _ \<Rightarrow> None)"

text \<open>
  Modelled from the spec: python_field_to_json_property of mapping.py, which is not
  among the sources. The external name of a field is the name of its alias annotation
  when the field's type carries one, and the field's own name otherwise.
\<close>

definition python_field_to_json_property :: "string \<Rightarrow> pytype option \<Rightarrow> string" where
  "python_field_to_json_property python_id python_type =
     (case python_type of
        None \<Rightarrow> python_id
      | Some t \<Rightarrow> (case get_annotation_Alias t of Some a \<Rightarrow> a | None \<Rightarrow> python_id))"

definition is_union_like :: "pytype \<Rightarrow> bool" where
  "is_union_like t = (case t of TUnion args \<Rightarrow> True | _ \<Rightarrow> False)"

definition is_type_optional :: "pytype \<Rightarrow> bool" where
  "is_type_optional t =
     (case unwrap_annotated_type t of TUnion args \<Rightarrow> TNoneType \<in> set args | _ \<Rightarrow> False)"

text \<open>Union[args]: a union of one type is that type, a union of none is refused.\<close>

definition make_union :: "pytype list \<Rightarrow> error + pytype" where
  "make_union args =
     (case args of
        [] \<Rightarrow> Inl (TypeError [Txt ''Cannot take a Union of no types.''])
      | [t] \<Rightarrow> Inr t
      | _ \<Rightarrow> Inr (TUnion args))"

definition unwrap_optional_type_inner :: "pytype \<Rightarrow> error + pytype" where
  "unwrap_optional_type_inner t =
     (case t of
        TUnion args \<Rightarrow> make_union (filter (\<lambda>item. item \<noteq> TNoneType) args)
      | _ \<Rightarrow> Inl (TypeError [Txt ''optional type must have un-subscripted type of Union'']))"

text \<open>rewrap_annotated_type(_unwrap_optional_type, typ).\<close>

definition unwrap_optional_type :: "pytype \<Rightarrow> error + pytype" where
  "unwrap_optional_type t =
     (case t of
        TAnnotated u m \<Rightarrow>
          (case unwrap_optional_type_inner u of Inl e \<Rightarrow> Inl e | Inr u' \<Rightarrow> Inr (TAnnotated u' m))
      | _ \<Rightarrow> unwrap_optional_type_inner t)"

definition is_type_enum :: "pytype \<Rightarrow> bool" where
  "is_type_enum t =
     (case unwrap_annotated_type t of TClass (PyClass n (EnumClass ms) h tj fj) \<Rightarrow> True | _ \<Rightarrow> False)"

definition is_dataclass_type :: "pytype \<Rightarrow> bool" where
  "is_dataclass_type t =
     (case unwrap_annotated_type t of TClass (PyClass n (DataClass fz) h tj fj) \<Rightarrow> True | _ \<Rightarrow> False)"

definition is_named_tuple_type :: "pytype \<Rightarrow> bool" where
  "is_named_tuple_type t =
     (case unwrap_annotated_type t of TClass (PyClass n (NamedTupleClass fs) h tj fj) \<Rightarrow> True | _ \<Rightarrow> False)"

text \<open>issubclass(typ, enum.Enum): raises for an argument that is not a class.\<close>

definition issubclass_Enum :: "pytype \<Rightarrow> error + bool" where
  "issubclass_Enum t =
     (if \<not> is_class t then Inl (TypeError [Txt ''issubclass() arg 1 must be a class''])
      else Inr (case t of TClass (PyClass n (EnumClass ms) h tj fj) \<Rightarrow> True | _ \<Rightarrow> False))"

text \<open>Unique items of a list, in the order first seen (list(dict.fromkeys(xs))).\<close>

definition uniq :: "'a list \<Rightarrow> 'a list" where
  "uniq xs = foldl (\<lambda>acc x. if x \<in> set acc then acc else acc @ [x]) [] xs"

definition class_members :: "pyclass \<Rightarrow> (string \<times> pyval) list" where
  "class_members c = (case c of PyClass n (EnumClass ms) h tj fj \<Rightarrow> ms | _ \<Rightarrow> [])"

definition enum_members :: "pytype \<Rightarrow> (string \<times> pyval) list" where
  "enum_members t = (case t of TClass c \<Rightarrow> class_members c | _ \<Rightarrow> [])"

definition enum_value_types :: "pytype \<Rightarrow> pytype list" where
  "enum_value_types enum_type = uniq (map (\<lambda>(n, v). type_of v) (enum_members enum_type))"

text \<open>
  typing.get_type_hints: the annotated fields of a class (none for a builtin class);
  a generic alias or a special form is refused.
\<close>

definition get_resolved_hints :: "pytype \<Rightarrow> error + (string \<times> pytype) list" where
  "get_resolved_hints t =
     (case t of
        TClass (PyClass n k h tj fj) \<Rightarrow> Inr (map (\<lambda>(f, ft, d). (f, ft)) h)
      | _ \<Rightarrow> if is_class t then Inr []
             else Inl (TypeError [Ty t, Txt '' is not a module, class, method, or function.'']))"

text \<open>
  get_class_properties: dataclasses.fields for a dataclass, the resolved hints
  otherwise. Both are the class's annotated fields here.
\<close>

definition get_class_properties :: "pytype \<Rightarrow> error + (string \<times> pytype) list" where
  "get_class_properties t = get_resolved_hints t"

text \<open>The to_json and from_json attributes of a type, when callable.\<close>

definition to_json_hook :: "pytype \<Rightarrow> nat option" where
  "to_json_hook t = (case t of TClass (PyClass n k h tj fj) \<Rightarrow> tj | _ \<Rightarrow> None)"

definition from_json_hook :: "pytype \<Rightarrow> nat option" where
  "from_json_hook t = (case t of TClass (PyClass n k h tj fj) \<Rightarrow> fj | _ \<Rightarrow> None)"

text \<open>is_reserved_property: names of the form __x__, and _abc_impl.\<close>

definition is_reserved_property :: "string \<Rightarrow> bool" where
  "is_reserved_property name =
     ((length name \<ge> 5 \<and> take 2 name = ''__'' \<and> drop (length name - 2) name = ''__'')
      \<or> name = ''_abc_impl'')"

section \<open>Serializer nodes\<close>

text \<open>
  The classes of serializer.py. TypedNamedTupleSerializer and DataclassSerializer
  inherit generate from TypedClassSerializer; all three hold the field serializers.
  A FieldSerializer is (field_name, property_name, generator).
\<close>

datatype serializer =
    NoneSerializer | BoolSerializer | IntSerializer | FloatSerializer | StringSerializer
  | BytesSerializer | DateTimeSerializer | DateSerializer | TimeSerializer | UUIDSerializer
  | EnumSerializer
  | UntypedListSerializer | UntypedDictSerializer | UntypedSetSerializer | UntypedTupleSerializer
  | TypedListSerializer serializer
  | TypedStringDictSerializer serializer
  | TypedEnumDictSerializer serializer
  | TypedSetSerializer serializer
  | TypedTupleSerializer "serializer list"
  | CustomSerializer nat
  | TypedClassSerializer "field_serializer list"
  | TypedNamedTupleSerializer "field_serializer list"
  | DataclassSerializer "field_serializer list"
  | UnionSerializer
  | LiteralSerializer serializer
  | UntypedNamedTupleSerializer "(string \<times> string) list"
  | UntypedClassSerializer
and field_serializer = FieldSerializer string string serializer

lemma size_type_of: "size (type_of v) \<le> size v"
  by (cases v) auto

lemma set_uniq_aux:
  "set (foldl (\<lambda>acc x. if x \<in> set acc then acc else acc @ [x]) a xs) = set a \<union> set xs"
  by (induction xs arbitrary: a) auto

lemma set_uniq: "set (uniq xs) = set xs"
  by (simp add: uniq_def set_uniq_aux)

lemma size_item: "x \<in> set xs \<Longrightarrow> size (x :: pytype) < Suc (size_list size xs)"
  using size_list_estimation'[of x xs "size x" size] by simp

lemma size_literal_type:
  assumes "uniq (map type_of vs) = [t]"
  shows "size t < Suc (size_list size vs)"
proof -
  have "t \<in> set (uniq (map type_of vs))"
    using assms by simp
  then have "t \<in> set (map type_of vs)"
    by (simp only: set_uniq)
  then obtain v where v: "v \<in> set vs" "t = type_of v" by auto
  have "size t \<le> size v" using v size_type_of by simp
  also have "size v \<le> size_list size vs"
    using size_list_estimation'[of v vs "size v" size] v by simp
  finally show ?thesis by simp
qed

lemma size_hint_le:
  "(f, t, d) \<in> set h \<Longrightarrow>
   size (t :: pytype)
     \<le> size_list (size_prod (\<lambda>x. 0) (size_prod size (size_default_src size))) h"
  using size_list_estimation'[of "(f, t, d)" h "size t"
      "size_prod (\<lambda>x. 0) (size_prod size (size_default_src size))"]
  by simp

lemma size_hint:
  "(f, t, d) \<in> set h \<Longrightarrow>
   size (t :: pytype)
     < Suc (Suc (Suc (size_list (size_prod (\<lambda>x. 0) (size_prod size (size_default_src size))) h)))"
  using size_hint_le[of f t d h] by simp

text \<open>
  create_serializer. The cache of _fetch_serializer returns what _create_serializer
  builds, so the two are one function here.
\<close>

function create_serializer :: "pytype \<Rightarrow> error + serializer" where
  "create_serializer TNoneType = Inr NoneSerializer"
| "create_serializer TBool = Inr BoolSerializer"
| "create_serializer TInt = Inr IntSerializer"
| "create_serializer TFloat = Inr FloatSerializer"
| "create_serializer TStr = Inr StringSerializer"
| "create_serializer TBytes = Inr BytesSerializer"
| "create_serializer TDateTime = Inr DateTimeSerializer"
| "create_serializer TDate = Inr DateSerializer"
| "create_serializer TTime = Inr TimeSerializer"
| "create_serializer TUUID = Inr UUIDSerializer"
| "create_serializer TBareList = Inr UntypedListSerializer"
| "create_serializer TBareDict = Inr UntypedDictSerializer"
| "create_serializer TBareSet = Inr UntypedSetSerializer"
| "create_serializer TBareTuple = Inr UntypedTupleSerializer"
| "create_serializer (TList list_item_type) =
     (case create_serializer list_item_type of
        Inl e \<Rightarrow> Inl e
      | Inr g \<Rightarrow> Inr (TypedListSerializer g))"
| "create_serializer (TDict key_type value_type) =
     (if key_type = TStr then
        (case create_serializer value_type of
           Inl e \<Rightarrow> Inl e
         | Inr g \<Rightarrow> Inr (TypedStringDictSerializer g))
      else
        (case issubclass_Enum key_type of
           Inl e \<Rightarrow> Inl e
         | Inr True \<Rightarrow>
             (case create_serializer value_type of
                Inl e \<Rightarrow> Inl e
              | Inr g \<Rightarrow>
                  (case enum_value_types key_type of
                     [t] \<Rightarrow>
                       if t \<noteq> TStr then
                         Inl (JsonTypeError
                           [Txt ''invalid enumeration key type, expected `enum.Enum` with string values''])
                       else Inr (TypedEnumDictSerializer g)
                   | value_types \<Rightarrow>
                       Inl (JsonTypeError
                         [Txt ''invalid key type, enumerations must have a consistent member value type but several types found: '',
                          Tys value_types])))
         | Inr False \<Rightarrow>
             (case get_resolved_hints (TDict key_type value_type) of
                Inl e \<Rightarrow> Inl e
              | Inr h \<Rightarrow> Inr UntypedClassSerializer)))"
| "create_serializer (TSet set_member_type) =
     (case create_serializer set_member_type of
        Inl e \<Rightarrow> Inl e
      | Inr g \<Rightarrow> Inr (TypedSetSerializer g))"
| "create_serializer (TTuple item_types) =
     (case mapE create_serializer item_types of
        Inl e \<Rightarrow> Inl e
      | Inr gs \<Rightarrow> Inr (TypedTupleSerializer gs))"
| "create_serializer (TUnion member_types) = Inr UnionSerializer"
| "create_serializer (TLiteral values) =
     (case uniq (map type_of values) of
        [literal_type] \<Rightarrow>
          (case create_serializer literal_type of
             Inl e \<Rightarrow> Inl e
           | Inr g \<Rightarrow> Inr (LiteralSerializer g))
      | literal_types \<Rightarrow>
          Inl (TypeError
            [Txt ''type `Literal['', Obj (VTuple values),
             Txt '']` expects consistent literal value types but got: '',
             Tys (map type_of values)]))"
| "create_serializer (TAnnotated t m) = create_serializer t"
| "create_serializer (TClass (PyClass n k h tj fj)) =
     (case tj of
        Some convert_func \<Rightarrow> Inr (CustomSerializer convert_func)
      | None \<Rightarrow>
          (case k of
             EnumClass ms \<Rightarrow> Inr EnumSerializer
           | DataClass fz \<Rightarrow>
               (case mapE (\<lambda>(field_name, field_type, d).
                        case create_serializer field_type of
                          Inl e \<Rightarrow> Inl e
                        | Inr g \<Rightarrow>
                            Inr (FieldSerializer field_name
                                  (python_field_to_json_property field_name (Some field_type)) g)) h of
                  Inl e \<Rightarrow> Inl e
                | Inr gs \<Rightarrow> Inr (DataclassSerializer gs))
           | NamedTupleClass fs \<Rightarrow>
               if h \<noteq> [] then
                 (case mapE (\<lambda>(field_name, field_type, d).
                          case create_serializer field_type of
                            Inl e \<Rightarrow> Inl e
                          | Inr g \<Rightarrow>
                              Inr (FieldSerializer field_name
                                    (python_field_to_json_property field_name (Some field_type)) g)) h of
                    Inl e \<Rightarrow> Inl e
                  | Inr gs \<Rightarrow> Inr (TypedNamedTupleSerializer gs))
               else
                 Inr (UntypedNamedTupleSerializer
                       (map (\<lambda>field_name. (field_name, python_field_to_json_property field_name None)) fs))
           | PlainClass \<Rightarrow>
               if h \<noteq> [] then
                 (case mapE (\<lambda>(field_name, field_type, d).
                          case create_serializer field_type of
                            Inl e \<Rightarrow> Inl e
                          | Inr g \<Rightarrow>
                              Inr (FieldSerializer field_name
                                    (python_field_to_json_property field_name (Some field_type)) g)) h of
                    Inl e \<Rightarrow> Inl e
                  | Inr gs \<Rightarrow> Inr (TypedClassSerializer gs))
               else Inr UntypedClassSerializer))"
| "create_serializer TFunctionType =
     Inl (TypeError [Txt ''object of type '', Ty TFunctionType, Txt '' cannot be represented in JSON''])"
| "create_serializer TModuleType =
     Inl (TypeError [Txt ''object of type '', Ty TModuleType, Txt '' cannot be represented in JSON''])"
| "create_serializer TType =
     Inl (TypeError [Txt ''object of type '', Ty TType, Txt '' cannot be represented in JSON''])"
| "create_serializer TMethodType =
     Inl (TypeError [Txt ''object of type '', Ty TMethodType, Txt '' cannot be represented in JSON''])"
| "create_serializer (TSpecial s) =
     (case get_resolved_hints (TSpecial s) of
        Inl e \<Rightarrow> Inl e
      | Inr h \<Rightarrow> Inr UntypedClassSerializer)"
  by pat_completeness auto
termination
  by (relation "measure size") (auto intro: size_item size_literal_type size_hint)

section \<open>Serializing\<close>

text \<open>
  The generate methods call each other through the nodes they hold, and through
  object_to_json for a value whose type is known only at run time. The pieces that
  recur below are first written over the function \<open>gen\<close> that serializes a child.
\<close>

text \<open>object_to_json: build (or fetch) the serializer of type(obj) and apply it.\<close>

definition object_to_json_with ::
  "(serializer \<Rightarrow> pyval \<Rightarrow> error + pyval) \<Rightarrow> pyval \<Rightarrow> error + pyval" where
  "object_to_json_with gen obj =
     (case create_serializer (type_of obj) of
        Inl e \<Rightarrow> Inl e
      | Inr generator \<Rightarrow> gen generator obj)"

text \<open>FieldSerializer.generate_field: a field whose value is None writes nothing.\<close>

definition generate_field_with ::
  "(serializer \<Rightarrow> pyval \<Rightarrow> error + pyval) \<Rightarrow> field_serializer \<Rightarrow> pyval
    \<Rightarrow> (pyval \<times> pyval) list \<Rightarrow> error + (pyval \<times> pyval) list" where
  "generate_field_with gen pg obj object_dict =
     (case pg of FieldSerializer field_name property_name generator \<Rightarrow>
        (case getattr obj field_name of
           Inl e \<Rightarrow> Inl e
         | Inr v \<Rightarrow>
             if v \<noteq> VNone then
               (case gen generator v of
                  Inl e \<Rightarrow> Inl e
                | Inr j \<Rightarrow> Inr (dict_set object_dict (VStr property_name) j))
             else Inr object_dict))"

text \<open>TypedClassSerializer.generate.\<close>

definition typed_class_generate_with ::
  "(serializer \<Rightarrow> pyval \<Rightarrow> error + pyval) \<Rightarrow> field_serializer list \<Rightarrow> pyval
    \<Rightarrow> error + pyval" where
  "typed_class_generate_with gen property_generators obj =
     (case foldE (\<lambda>property_generator object_dict.
                    generate_field_with gen property_generator obj object_dict)
             property_generators [] of
        Inl e \<Rightarrow> Inl e
      | Inr object_dict \<Rightarrow> Inr (VDict object_dict))"

lemma object_to_json_with_cong [fundef_cong]:
  "obj = obj' \<Longrightarrow>
   (\<And>g. create_serializer (type_of obj') = Inr g \<Longrightarrow> gen g obj' = gen' g obj') \<Longrightarrow>
   object_to_json_with gen obj = object_to_json_with gen' obj'"
  by (auto simp: object_to_json_with_def split: sum.splits)

lemma generate_field_with_cong:
  "(\<And>fn pn g v. pg = FieldSerializer fn pn g \<Longrightarrow> getattr obj fn = Inr v \<Longrightarrow> gen g v = gen' g v) \<Longrightarrow>
   generate_field_with gen pg obj d = generate_field_with gen' pg obj d"
  by (auto simp: generate_field_with_def split: sum.splits field_serializer.splits)

lemma foldE_generate_field_with_cong:
  "(\<And>fn pn g v. FieldSerializer fn pn g \<in> set pgs \<Longrightarrow> getattr obj fn = Inr v \<Longrightarrow> gen g v = gen' g v) \<Longrightarrow>
   foldE (\<lambda>pg d. generate_field_with gen pg obj d) pgs d0
   = foldE (\<lambda>pg d. generate_field_with gen' pg obj d) pgs d0"
proof (induction pgs arbitrary: d0)
  case Nil
  then show ?case by simp
next
  case (Cons pg pgs)
  have "generate_field_with gen pg obj d0 = generate_field_with gen' pg obj d0"
  proof (rule generate_field_with_cong)
    fix fn pn g v
    assume "pg = FieldSerializer fn pn g" "getattr obj fn = Inr v"
    then show "gen g v = gen' g v" using Cons.prems[of fn pn g v] by simp
  qed
  moreover have "foldE (\<lambda>pg d. generate_field_with gen pg obj d) pgs d
      = foldE (\<lambda>pg d. generate_field_with gen' pg obj d) pgs d" for d
  proof (rule Cons.IH)
    fix fn pn g v
    assume "FieldSerializer fn pn g \<in> set pgs" "getattr obj fn = Inr v"
    then show "gen g v = gen' g v" using Cons.prems[of fn pn g v] by simp
  qed
  ultimately show ?case by (simp split: sum.splits)
qed

lemma typed_class_generate_with_cong [fundef_cong]:
  "pgs = pgs' \<Longrightarrow> obj = obj' \<Longrightarrow>
   (\<And>fn pn g v. FieldSerializer fn pn g \<in> set pgs' \<Longrightarrow> getattr obj' fn = Inr v
      \<Longrightarrow> gen g v = gen' g v) \<Longrightarrow>
   typed_class_generate_with gen pgs obj = typed_class_generate_with gen' pgs' obj'"
  using foldE_generate_field_with_cong[of pgs' obj' gen gen' "[]"]
  by (simp add: typed_class_generate_with_def)

text \<open>obj.tzinfo.\<close>

definition tzinfo_of :: "pyval \<Rightarrow> error + int option" where
  "tzinfo_of obj =
     (case obj of
        VDateTime d t \<Rightarrow> Inr (tzinfo t)
      | VTime t \<Rightarrow> Inr (tzinfo t)
      | _ \<Rightarrow> Inl (AttributeError ''tzinfo''))"

text \<open>dir(obj): the names of the attributes, sorted.\<close>

definition dir_of :: "pyval \<Rightarrow> string list" where
  "dir_of obj =
     (case obj of
        VObject c a \<Rightarrow> sort (uniq (map fst a))
      | VEnum c name v \<Rightarrow> [''name'', ''value'']
      | _ \<Rightarrow> [])"

definition ismethod :: "pyval \<Rightarrow> bool" where
  "ismethod v = (v = VMethod)"

definition is_enum_instance :: "pyval \<Rightarrow> bool" where
  "is_enum_instance v = (case v of VEnum c n x \<Rightarrow> True | _ \<Rightarrow> False)"

text \<open>
  Termination of generate: a call goes to a smaller value, or keeps the value and goes
  from a node that was not chosen by the value's own type to one that was, or to a
  smaller node.
\<close>

definition gen_measure :: "pylib \<times> serializer \<times> pyval \<Rightarrow> nat \<times> nat \<times> nat" where
  "gen_measure = (\<lambda>(L, s, v).
     (size v, if create_serializer (type_of v) = Inr s then 0 else 1, size s))"

definition gen_rel :: "((pylib \<times> serializer \<times> pyval) \<times> (pylib \<times> serializer \<times> pyval)) set" where
  "gen_rel = inv_image (less_than <*lex*> less_than <*lex*> less_than) gen_measure"

lemma wf_gen_rel: "wf gen_rel"
  unfolding gen_rel_def by (intro wf_inv_image wf_lex_prod wf_less_than)

lemma gen_rel_smaller: "size x < size obj \<Longrightarrow> ((L, g, x), (L, S, obj)) \<in> gen_rel"
  by (simp add: gen_rel_def gen_measure_def)

lemma gen_rel_dynamic:
  "create_serializer (type_of x) = Inr g \<Longrightarrow> size x \<le> size obj \<Longrightarrow>
   create_serializer (type_of obj) \<noteq> Inr S \<Longrightarrow> ((L, g, x), (L, S, obj)) \<in> gen_rel"
  by (auto simp: gen_rel_def gen_measure_def)

lemma gen_rel_child:
  "size x \<le> size obj \<Longrightarrow> size g < size S \<Longrightarrow>
   create_serializer (type_of obj) \<noteq> Inr S \<Longrightarrow> ((L, g, x), (L, S, obj)) \<in> gen_rel"
  by (auto simp: gen_rel_def gen_measure_def)

text \<open>The nodes object_to_json can choose: those built for a class, not for a generic alias.\<close>

fun dynamic_node :: "serializer \<Rightarrow> bool" where
  "dynamic_node (TypedListSerializer g) = False"
| "dynamic_node (TypedStringDictSerializer g) = False"
| "dynamic_node (TypedEnumDictSerializer g) = False"
| "dynamic_node (TypedSetSerializer g) = False"
| "dynamic_node (TypedTupleSerializer gs) = False"
| "dynamic_node UnionSerializer = False"
| "dynamic_node (LiteralSerializer g) = False"
| "dynamic_node _ = True"

lemma create_serializer_class_dynamic:
  "create_serializer (TClass c) = Inr s \<Longrightarrow> dynamic_node s"
  by (cases c) (auto split: option.splits class_kind.splits sum.splits if_splits)

lemma create_serializer_type_of_dynamic:
  "create_serializer (type_of obj) = Inr s \<Longrightarrow> dynamic_node s"
  by (cases obj) (auto dest: create_serializer_class_dynamic)

lemma size_in_values: "x \<in> set xs \<Longrightarrow> size (x :: pyval) \<le> size_list size xs"
  using size_list_estimation'[of x xs "size x" size] by simp

lemma size_in_items:
  "(k, v) \<in> set kvs \<Longrightarrow> size (k :: pyval) + size (v :: pyval) \<le> size_list (size_prod size size) kvs"
  using size_list_estimation'[of "(k, v)" kvs "size k + size v" "size_prod size size"] by simp

lemma size_in_attrs:
  "(n, v) \<in> set a \<Longrightarrow> size (v :: pyval) \<le> size_list (size_prod (\<lambda>x. 0) size) a"
  using size_list_estimation'[of "(n, v)" a "size v" "size_prod (\<lambda>x. 0) size"] by simp

lemma attr_get_mem: "attr_get a n = Some v \<Longrightarrow> (n, v) \<in> set a"
  by (induction a) (auto split: if_splits)

lemma getattr_size: "getattr obj n = Inr v \<Longrightarrow> size v < size obj"
  by (cases obj)
    (auto simp: getattr_def split: option.splits if_splits dest!: attr_get_mem size_in_attrs)

lemma items_of_size: "items_of obj = Inr b \<Longrightarrow> (k, v) \<in> set b \<Longrightarrow> size v < size obj"
  by (cases obj) (auto simp: items_of_def dest!: size_in_items)

lemma iter_of_size:
  assumes "iter_of obj = Inr b" "x \<in> set b"
  shows "size x < size obj \<or> (size x \<le> size obj \<and> (type_of obj = TStr \<or> type_of obj = TBytes))"
proof (cases obj)
  case (VList xs)
  then show ?thesis using assms size_in_values[of x xs] by (simp add: iter_of_def)
next
  case (VTuple xs)
  then show ?thesis using assms size_in_values[of x xs] by (simp add: iter_of_def)
next
  case (VSet xs)
  then show ?thesis using assms size_in_values[of x xs] by (simp add: iter_of_def)
next
  case (VDict kvs)
  then obtain v where "(x, v) \<in> set kvs" using assms by (auto simp: iter_of_def)
  then show ?thesis using VDict size_in_items[of x v kvs] by simp
next
  case (VStr s)
  then show ?thesis using assms by (auto simp: iter_of_def)
next
  case (VBytes bs)
  then show ?thesis using assms by (auto simp: iter_of_def)
next
  case (VObject c a)
  then obtain n where "(n, x) \<in> set a"
    using assms by (cases c) (auto simp: iter_of_def split: class_kind.splits)
  then show ?thesis using VObject size_in_attrs[of n x a] by simp
qed (use assms in \<open>auto simp: iter_of_def\<close>)

lemma term_untyped_iter:
  assumes "iter_of obj = Inr b" "x \<in> set b" "create_serializer (type_of x) = Inr g"
    and "S = UntypedListSerializer \<or> S = UntypedSetSerializer \<or> S = UntypedTupleSerializer"
  shows "((L, g, x), (L, S, obj)) \<in> gen_rel"
proof -
  consider "size x < size obj"
    | "size x \<le> size obj" "type_of obj = TStr \<or> type_of obj = TBytes"
    using iter_of_size[OF assms(1,2)] by blast
  then show ?thesis
  proof cases
    case 1
    then show ?thesis by (rule gen_rel_smaller)
  next
    case 2
    have "create_serializer (type_of obj) \<noteq> Inr S" using 2(2) assms(4) by auto
    then show ?thesis using gen_rel_dynamic[OF assms(3) 2(1)] by simp
  qed
qed

lemma term_typed_iter:
  assumes "iter_of obj = Inr b" "x \<in> set b" "size g < size S" "\<not> dynamic_node S"
  shows "((L, g, x), (L, S, obj)) \<in> gen_rel"
proof -
  have "size x \<le> size obj" using iter_of_size[OF assms(1,2)] by auto
  moreover have "create_serializer (type_of obj) \<noteq> Inr S"
    using assms(4) create_serializer_type_of_dynamic by blast
  ultimately show ?thesis using gen_rel_child assms(3) by simp
qed

lemma term_typed_items:
  "items_of obj = Inr b \<Longrightarrow> (k, v) \<in> set b \<Longrightarrow> ((L, g, v), (L, S, obj)) \<in> gen_rel"
  by (rule gen_rel_smaller) (rule items_of_size)

lemma term_getattr:
  "getattr obj n = Inr v \<Longrightarrow> ((L, g, v), (L, S, obj)) \<in> gen_rel"
  by (rule gen_rel_smaller) (rule getattr_size)

lemma size_in_generators:
  "g \<in> set gs \<Longrightarrow> size (g :: serializer) < size (TypedTupleSerializer gs)"
  using size_list_estimation'[of g gs "size g" size] by simp

function generate :: "pylib \<Rightarrow> serializer \<Rightarrow> pyval \<Rightarrow> error + pyval" where
  "generate L NoneSerializer data = Inr VNone"
| "generate L BoolSerializer data = Inr data"
| "generate L IntSerializer data = Inr data"
| "generate L FloatSerializer data = Inr data"
| "generate L StringSerializer data = Inr data"
| "generate L BytesSerializer data =
     (case data of
        VBytes bs \<Rightarrow> Inr (VStr (b64encode L bs))
      | _ \<Rightarrow> Inl (TypeError [Txt ''a bytes-like object is required, not '', Ty (type_of data)]))"
| "generate L DateTimeSerializer obj =
     (case tzinfo_of obj of
        Inl e \<Rightarrow> Inl e
      | Inr None \<Rightarrow>
          Inl (JsonValueError [Txt ''timestamp lacks explicit time zone designator: '', Obj obj])
      | Inr (Some off) \<Rightarrow>
          (case isoformat obj of
             Inl e \<Rightarrow> Inl e
           | Inr fmt \<Rightarrow>
               Inr (VStr (if endswith fmt ''+00:00'' then drop_last 6 fmt @ ''Z'' else fmt))))"
| "generate L DateSerializer obj =
     (case isoformat obj of Inl e \<Rightarrow> Inl e | Inr fmt \<Rightarrow> Inr (VStr fmt))"
| "generate L TimeSerializer obj =
     (case isoformat obj of Inl e \<Rightarrow> Inl e | Inr fmt \<Rightarrow> Inr (VStr fmt))"
| "generate L UUIDSerializer obj = Inr (VStr (str_of L obj))"
| "generate L EnumSerializer obj = getattr obj ''value''"
| "generate L UntypedListSerializer obj =
     (case iter_of obj of
        Inl e \<Rightarrow> Inl e
      | Inr items \<Rightarrow>
          (case mapE (\<lambda>item. object_to_json_with (generate L) item) items of
             Inl e \<Rightarrow> Inl e
           | Inr js \<Rightarrow> Inr (VList js)))"
| "generate L UntypedDictSerializer obj =
     (case obj of
        VDict kvs \<Rightarrow>
          if kvs \<noteq> [] \<and> is_enum_instance (fst (hd kvs)) then
            (case mapE (\<lambda>(key, v).
                     case getattr key ''value'' of
                       Inl e \<Rightarrow> Inl e
                     | Inr kv \<Rightarrow>
                         (case object_to_json_with (generate L) v of
                            Inl e \<Rightarrow> Inl e
                          | Inr j \<Rightarrow> Inr (kv, j))) kvs of
               Inl e \<Rightarrow> Inl e
             | Inr ps \<Rightarrow> Inr (VDict (dict_of ps)))
          else
            (case mapE (\<lambda>(key, v).
                     case object_to_json_with (generate L) v of
                       Inl e \<Rightarrow> Inl e
                     | Inr j \<Rightarrow> Inr (VStr (str_of L key), j)) kvs of
               Inl e \<Rightarrow> Inl e
             | Inr ps \<Rightarrow> Inr (VDict (dict_of ps)))
      | _ \<Rightarrow> Inl (AttributeError (if truthy obj then ''keys'' else ''items'')))"
| "generate L UntypedSetSerializer obj =
     (case iter_of obj of
        Inl e \<Rightarrow> Inl e
      | Inr items \<Rightarrow>
          (case mapE (\<lambda>item. object_to_json_with (generate L) item) items of
             Inl e \<Rightarrow> Inl e
           | Inr js \<Rightarrow> Inr (VList js)))"
| "generate L UntypedTupleSerializer obj =
     (case iter_of obj of
        Inl e \<Rightarrow> Inl e
      | Inr items \<Rightarrow>
          (case mapE (\<lambda>item. object_to_json_with (generate L) item) items of
             Inl e \<Rightarrow> Inl e
           | Inr js \<Rightarrow> Inr (VList js)))"
| "generate L (TypedListSerializer generator) obj =
     (case iter_of obj of
        Inl e \<Rightarrow> Inl e
      | Inr items \<Rightarrow>
          (case mapE (\<lambda>item. generate L generator item) items of
             Inl e \<Rightarrow> Inl e
           | Inr js \<Rightarrow> Inr (VList js)))"
| "generate L (TypedStringDictSerializer generator) obj =
     (case items_of obj of
        Inl e \<Rightarrow> Inl e
      | Inr kvs \<Rightarrow>
          (case mapE (\<lambda>(key, v).
                   case generate L generator v of
                     Inl e \<Rightarrow> Inl e
                   | Inr j \<Rightarrow> Inr (key, j)) kvs of
             Inl e \<Rightarrow> Inl e
           | Inr ps \<Rightarrow> Inr (VDict (dict_of ps))))"
| "generate L (TypedEnumDictSerializer generator) obj =
     (case items_of obj of
        Inl e \<Rightarrow> Inl e
      | Inr kvs \<Rightarrow>
          (case mapE (\<lambda>(key, v).
                   case getattr key ''value'' of
                     Inl e \<Rightarrow> Inl e
                   | Inr kv \<Rightarrow>
                       (case generate L generator v of
                          Inl e \<Rightarrow> Inl e
                        | Inr j \<Rightarrow> Inr (kv, j))) kvs of
             Inl e \<Rightarrow> Inl e
           | Inr ps \<Rightarrow> Inr (VDict (dict_of ps))))"
| "generate L (TypedSetSerializer generator) obj =
     (case iter_of obj of
        Inl e \<Rightarrow> Inl e
      | Inr items \<Rightarrow>
          (case mapE (\<lambda>item. generate L generator item) items of
             Inl e \<Rightarrow> Inl e
           | Inr js \<Rightarrow> Inr (VList js)))"
| "generate L (TypedTupleSerializer item_generators) obj =
     (case iter_of obj of
        Inl e \<Rightarrow> Inl e
      | Inr items \<Rightarrow>
          (case mapE (\<lambda>(item_generator, item). generate L item_generator item)
                  (zip item_generators items) of
             Inl e \<Rightarrow> Inl e
           | Inr js \<Rightarrow> Inr (VList js)))"
| "generate L (CustomSerializer converter) obj = call_to_json L converter obj"
| "generate L (TypedClassSerializer property_generators) obj =
     typed_class_generate_with (generate L) property_generators obj"
| "generate L (TypedNamedTupleSerializer property_generators) obj =
     typed_class_generate_with (generate L) property_generators obj"
| "generate L (DataclassSerializer property_generators) obj =
     typed_class_generate_with (generate L) property_generators obj"
| "generate L UnionSerializer obj = object_to_json_with (generate L) obj"
| "generate L (LiteralSerializer generator) obj = generate L generator obj"
| "generate L (UntypedNamedTupleSerializer flds) obj =
     (case foldE (\<lambda>(field_name, property_name) object_dict.
                    case getattr obj field_name of
                      Inl e \<Rightarrow> Inl e
                    | Inr v \<Rightarrow>
                        (case object_to_json_with (generate L) v of
                           Inl e \<Rightarrow> Inl e
                         | Inr j \<Rightarrow> Inr (dict_set object_dict (VStr property_name) j)))
             flds [] of
        Inl e \<Rightarrow> Inl e
      | Inr object_dict \<Rightarrow> Inr (VDict object_dict))"
| "generate L UntypedClassSerializer obj =
     (case foldE (\<lambda>name object_dict.
                    if is_reserved_property name then Inr object_dict
                    else
                      (case getattr obj name of
                         Inl e \<Rightarrow> Inl e
                       | Inr v \<Rightarrow>
                           if v = VNone then Inr object_dict
                           else if ismethod v then Inr object_dict
                           else
                             (case object_to_json_with (generate L) v of
                                Inl e \<Rightarrow> Inl e
                              | Inr j \<Rightarrow>
                                  Inr (dict_set object_dict
                                        (VStr (python_field_to_json_property name None)) j))))
             (dir_of obj) [] of
        Inl e \<Rightarrow> Inl e
      | Inr object_dict \<Rightarrow> Inr (VDict object_dict))"
  by pat_completeness auto
termination
proof (relation gen_rel, goal_cases)
  case 1
  show ?case by (rule wf_gen_rel)
next
  case 2
  then show ?case by (intro term_untyped_iter) auto
next
  case 3
  then show ?case by (intro gen_rel_smaller) (auto dest!: size_in_items)
next
  case 4
  then show ?case by (intro gen_rel_smaller) (auto dest!: size_in_items)
next
  case 5
  then show ?case by (intro term_untyped_iter) auto
next
  case 6
  then show ?case by (intro term_untyped_iter) auto
next
  case 7
  then show ?case by (intro term_typed_iter) auto
next
  case 8
  then show ?case by (auto intro: term_typed_items)
next
  case 9
  then show ?case by (auto intro: term_typed_items)
next
  case 10
  then show ?case by (intro term_typed_iter) auto
next
  case (11 L item_generators obj b x g y)
  then have "g \<in> set item_generators" "y \<in> set b"
    by (auto dest: set_zip_leftD set_zip_rightD)
  then show ?case
    using 11(1) size_in_generators[of g item_generators] by (intro term_typed_iter) auto
next
  case 12
  then show ?case by (auto intro: term_getattr)
next
  case 13
  then show ?case by (auto intro: term_getattr)
next
  case 14
  then show ?case by (auto intro: term_getattr)
next
  case 15
  then show ?case
    by (intro gen_rel_dynamic) (auto dest: create_serializer_type_of_dynamic)
next
  case 16
  then show ?case
    by (intro gen_rel_child) (auto dest: create_serializer_type_of_dynamic)
next
  case 17
  then show ?case by (auto intro: term_getattr)
next
  case 18
  then show ?case by (auto intro: term_getattr)
qed

text \<open>object_to_json and generate_field, as the source names them.\<close>

definition object_to_json :: "pylib \<Rightarrow> pyval \<Rightarrow> error + pyval" where
  "object_to_json L obj = object_to_json_with (generate L) obj"

definition generate_field ::
  "pylib \<Rightarrow> field_serializer \<Rightarrow> pyval \<Rightarrow> (pyval \<times> pyval) list \<Rightarrow> error + (pyval \<times> pyval) list" where
  "generate_field L pg obj object_dict = generate_field_with (generate L) pg obj object_dict"

section \<open>Deserializer nodes\<close>

text \<open>
  The classes of deserializer.py. A field deserializer is (property_name, field_name,
  parser) and, for the two kinds with a default, the default value or factory.
  NamedTupleDeserializer, DataclassDeserializer and TypedClassDeserializer inherit
  parse from ClassDeserializer and hold (class_type, property_parsers).
\<close>

datatype deserializer =
    NoneDeserializer | BoolDeserializer | IntDeserializer | FloatDeserializer
  | StringDeserializer | BytesDeserializer | DateTimeDeserializer | DateDeserializer
  | TimeDeserializer | UUIDDeserializer
  | ListDeserializer pytype deserializer
  | DictDeserializer pytype pytype deserializer
  | SetDeserializer pytype deserializer
  | TupleDeserializer "pytype list" "deserializer list"
  | UnionDeserializer "pytype list" "deserializer list"
  | EnumDeserializer pytype
  | CustomDeserializer nat
  | NamedTupleDeserializer pytype "field_deserializer list"
  | DataclassDeserializer pytype "field_deserializer list"
  | TypedClassDeserializer pytype "field_deserializer list"
and field_deserializer =
    RequiredFieldDeserializer string string deserializer
  | OptionalFieldDeserializer string string deserializer
  | DefaultFieldDeserializer string string deserializer pyval
  | DefaultFactoryFieldDeserializer string string deserializer nat

fun property_name :: "field_deserializer \<Rightarrow> string" where
  "property_name (RequiredFieldDeserializer pn fn p) = pn"
| "property_name (OptionalFieldDeserializer pn fn p) = pn"
| "property_name (DefaultFieldDeserializer pn fn p d) = pn"
| "property_name (DefaultFactoryFieldDeserializer pn fn p f) = pn"

fun field_name :: "field_deserializer \<Rightarrow> string" where
  "field_name (RequiredFieldDeserializer pn fn p) = fn"
| "field_name (OptionalFieldDeserializer pn fn p) = fn"
| "field_name (DefaultFieldDeserializer pn fn p d) = fn"
| "field_name (DefaultFactoryFieldDeserializer pn fn p f) = fn"

fun parser :: "field_deserializer \<Rightarrow> deserializer" where
  "parser (RequiredFieldDeserializer pn fn p) = p"
| "parser (OptionalFieldDeserializer pn fn p) = p"
| "parser (DefaultFieldDeserializer pn fn p d) = p"
| "parser (DefaultFactoryFieldDeserializer pn fn p f) = p"

text \<open>
  DictDeserializer._check_key_type. For an enumeration with one member value type the
  source builds a message when that type is not str, and returns without raising it.
\<close>

definition check_key_type :: "pytype \<Rightarrow> pytype \<Rightarrow> error + unit" where
  "check_key_type key_type value_type =
     (if key_type = TStr then Inr ()
      else
        (case issubclass_Enum key_type of
           Inl e \<Rightarrow> Inl e
         | Inr True \<Rightarrow>
             (case enum_value_types key_type of
                [t] \<Rightarrow> (if t \<noteq> TStr then Inr () else Inr ())
              | value_types \<Rightarrow>
                  Inl (JsonTypeError
                    [Txt ''type `Dict['', Ty key_type, Txt '', '', Ty value_type,
                     Txt '']` has invalid key type, enumerations must have a consistent member value type but several types found: '',
                     Tys value_types]))
         | Inr False \<Rightarrow>
             Inl (JsonTypeError
               [Txt ''`type `Dict['', Ty key_type, Txt '', '', Ty value_type,
                Txt '']` has invalid key type, expected `str` or `enum.Enum` with string values''])))"

lemma unwrap_optional_type_inner_size:
  assumes "unwrap_optional_type_inner t = Inr r"
  shows "size r \<le> size t"
proof (cases t)
  case (TUnion args)
  let ?xs = "filter (\<lambda>item. item \<noteq> TNoneType) args"
  have le: "size_list size ?xs \<le> size_list size args"
    by (induction args) auto
  show ?thesis
  proof (cases ?xs)
    case Nil
    then show ?thesis using assms TUnion
      by (simp add: unwrap_optional_type_inner_def make_union_def)
  next
    case (Cons a as)
    show ?thesis
    proof (cases as)
      case Nil
      then have "r = a" using assms TUnion Cons
        by (simp add: unwrap_optional_type_inner_def make_union_def)
      moreover have "size a \<le> size_list size ?xs" using Cons by simp
      ultimately show ?thesis using TUnion le by simp
    next
      case (Cons b bs)
      then have "r = TUnion ?xs" using assms TUnion \<open>?xs = a # as\<close>
        by (simp add: unwrap_optional_type_inner_def make_union_def)
      then show ?thesis using TUnion le by simp
    qed
  qed
qed (use assms in \<open>auto simp: unwrap_optional_type_inner_def\<close>)

lemma unwrap_optional_type_size:
  "unwrap_optional_type t = Inr r \<Longrightarrow> size r \<le> size t"
  by (cases t)
    (auto simp: unwrap_optional_type_def split: sum.splits
          dest!: unwrap_optional_type_inner_size)

text \<open>
  The required type of a field: an optional type loses its None, any other type is
  taken as it is.
\<close>

definition required_type_of :: "pytype \<Rightarrow> error + pytype" where
  "required_type_of field_type =
     (if is_type_optional field_type then unwrap_optional_type field_type else Inr field_type)"

lemma required_type_of_size: "required_type_of t = Inr r \<Longrightarrow> size r \<le> size t"
  by (auto simp: required_type_of_def split: if_splits dest: unwrap_optional_type_size)

lemma size_required_hint:
  assumes "(f, t, d) \<in> set h" "required_type_of t = Inr r"
  shows "size r
     < Suc (Suc (Suc (size_list (size_prod (\<lambda>x. 0) (size_prod size (size_default_src size))) h)))"
  using size_hint_le[OF assms(1)] required_type_of_size[OF assms(2)] by simp

text \<open>
  create_deserializer; as for the serializer, the cache of _fetch_deserializer is not
  seen in the result.
\<close>

function create_deserializer :: "pytype \<Rightarrow> error + deserializer" where
  "create_deserializer TNoneType = Inr NoneDeserializer"
| "create_deserializer TBool = Inr BoolDeserializer"
| "create_deserializer TInt = Inr IntDeserializer"
| "create_deserializer TFloat = Inr FloatDeserializer"
| "create_deserializer TStr = Inr StringDeserializer"
| "create_deserializer TBytes = Inr BytesDeserializer"
| "create_deserializer TDateTime = Inr DateTimeDeserializer"
| "create_deserializer TDate = Inr DateDeserializer"
| "create_deserializer TTime = Inr TimeDeserializer"
| "create_deserializer TUUID = Inr UUIDDeserializer"
| "create_deserializer TBareList =
     Inl (TypeError [Txt ''explicit item type required: use `List[T]` instead of `list`''])"
| "create_deserializer TBareDict =
     Inl (TypeError [Txt ''explicit key and value types required: use `Dict[K, V]` instead of `dict`''])"
| "create_deserializer TBareSet =
     Inl (TypeError [Txt ''explicit member type required: use `Set[T]` instead of `set`''])"
| "create_deserializer TBareTuple =
     Inl (TypeError [Txt ''explicit item type list required: use `Tuple[T, ...]` instead of `tuple`''])"
| "create_deserializer (TList list_item_type) =
     (case create_deserializer list_item_type of
        Inl e \<Rightarrow> Inl e
      | Inr p \<Rightarrow> Inr (ListDeserializer list_item_type p))"
| "create_deserializer (TDict key_type value_type) =
     (case check_key_type key_type value_type of
        Inl e \<Rightarrow> Inl e
      | Inr u \<Rightarrow>
          (case create_deserializer value_type of
             Inl e \<Rightarrow> Inl e
           | Inr p \<Rightarrow> Inr (DictDeserializer key_type value_type p)))"
| "create_deserializer (TSet set_member_type) =
     (case create_deserializer set_member_type of
        Inl e \<Rightarrow> Inl e
      | Inr p \<Rightarrow> Inr (SetDeserializer set_member_type p))"
| "create_deserializer (TTuple item_types) =
     (case mapE create_deserializer item_types of
        Inl e \<Rightarrow> Inl e
      | Inr ps \<Rightarrow> Inr (TupleDeserializer item_types ps))"
| "create_deserializer (TUnion member_types) =
     (case mapE create_deserializer member_types of
        Inl e \<Rightarrow> Inl e
      | Inr ps \<Rightarrow> Inr (UnionDeserializer member_types ps))"
| "create_deserializer (TAnnotated t m) = create_deserializer t"
| "create_deserializer (TLiteral vs) =
     Inl (TypeError [Txt ''unable to de-serialize unrecognized type: '', Ty (TLiteral vs)])"
| "create_deserializer (TSpecial s) =
     Inl (TypeError [Txt ''unable to de-serialize unrecognized type: '', Ty (TSpecial s)])"
| "create_deserializer (TClass (PyClass n k h tj fj)) =
     (case k of
        EnumClass ms \<Rightarrow> Inr (EnumDeserializer (TClass (PyClass n k h tj fj)))
      | NamedTupleClass fs \<Rightarrow>
          (case mapE (\<lambda>(field_name, field_type, d).
                   case create_deserializer field_type of
                     Inl e \<Rightarrow> Inl e
                   | Inr p \<Rightarrow> Inr (RequiredFieldDeserializer field_name field_name p)) h of
             Inl e \<Rightarrow> Inl e
           | Inr pps \<Rightarrow> Inr (NamedTupleDeserializer (TClass (PyClass n k h tj fj)) pps))
      | _ \<Rightarrow>
          (case fj of
             Some convert_func \<Rightarrow> Inr (CustomDeserializer convert_func)
           | None \<Rightarrow>
               (case k of
                  DataClass fz \<Rightarrow>
                    (case mapE (\<lambda>(field_name, field_type, d).
                             case required_type_of field_type of
                               Inl e \<Rightarrow> Inl e
                             | Inr required_type \<Rightarrow>
                                 (case create_deserializer required_type of
                                    Inl e \<Rightarrow> Inl e
                                  | Inr p \<Rightarrow>
                                      (let pn = python_field_to_json_property field_name (Some field_type)
                                       in Inr (case d of
                                                 DefaultValue dv \<Rightarrow>
                                                   DefaultFieldDeserializer pn field_name p dv
                                               | DefaultFactory f \<Rightarrow>
                                                   DefaultFactoryFieldDeserializer pn field_name p f
                                               | NoDefault \<Rightarrow>
                                                   if is_type_optional field_type
                                                   then OptionalFieldDeserializer pn field_name p
                                                   else RequiredFieldDeserializer pn field_name p)))) h of
                       Inl e \<Rightarrow> Inl e
                     | Inr pps \<Rightarrow> Inr (DataclassDeserializer (TClass (PyClass n k h tj fj)) pps))
                | _ \<Rightarrow>
                    (case mapE (\<lambda>(field_name, field_type, d).
                             case required_type_of field_type of
                               Inl e \<Rightarrow> Inl e
                             | Inr required_type \<Rightarrow>
                                 (case create_deserializer required_type of
                                    Inl e \<Rightarrow> Inl e
                                  | Inr p \<Rightarrow>
                                      (let pn = python_field_to_json_property field_name (Some field_type)
                                       in Inr (if is_type_optional field_type
                                               then OptionalFieldDeserializer pn field_name p
                                               else RequiredFieldDeserializer pn field_name p)))) h of
                       Inl e \<Rightarrow> Inl e
                     | Inr pps \<Rightarrow> Inr (TypedClassDeserializer (TClass (PyClass n k h tj fj)) pps)))))"
| "create_deserializer TFunctionType = Inr (TypedClassDeserializer TFunctionType [])"
| "create_deserializer TModuleType = Inr (TypedClassDeserializer TModuleType [])"
| "create_deserializer TType = Inr (TypedClassDeserializer TType [])"
| "create_deserializer TMethodType = Inr (TypedClassDeserializer TMethodType [])"
  by pat_completeness auto
termination
  by (relation "measure size") (auto intro: size_item size_hint size_required_hint)

section \<open>Parsing\<close>

text \<open>d.get(k): None for a missing key.\<close>

definition dict_get_default :: "(pyval \<times> pyval) list \<Rightarrow> pyval \<Rightarrow> pyval" where
  "dict_get_default d k = (case dict_get d k of Some v \<Rightarrow> v | None \<Rightarrow> VNone)"

text \<open>
  Calling a type on a value, as DictDeserializer does with its key type and
  EnumDeserializer with its enumeration: str(x), or the member of the enumeration
  whose value is x (ValueError when there is none).
\<close>

fun find_member :: "(string \<times> pyval) list \<Rightarrow> pyval \<Rightarrow> (string \<times> pyval) option" where
  "find_member [] x = None"
| "find_member ((n, v) # ms) x = (if py_eq v x then Some (n, v) else find_member ms x)"

definition call_type :: "pylib \<Rightarrow> pytype \<Rightarrow> pyval \<Rightarrow> error + pyval" where
  "call_type L t x =
     (case t of
        TStr \<Rightarrow> Inr (VStr (str_of L x))
      | TClass (PyClass n (EnumClass ms) h tj fj) \<Rightarrow>
          (case find_member ms x of
             Some (name, v) \<Rightarrow> Inr (VEnum (PyClass n (EnumClass ms) h tj fj) name v)
           | None \<Rightarrow> Inl (ValueError [Obj x, Txt '' is not a valid '', Ty t]))
      | _ \<Rightarrow> Inl (TypeError [Txt ''cannot construct '', Ty t, Txt '' from '', Obj x]))"

text \<open>The exceptions UnionDeserializer.parse catches.\<close>

definition caught_by_union :: "error \<Rightarrow> bool" where
  "caught_by_union e =
     (case e of JsonKeyError m \<Rightarrow> True | JsonTypeError m \<Rightarrow> True | _ \<Rightarrow> False)"

text \<open>
  The loop of UnionDeserializer.parse over the member parsers: \<open>par\<close> applies a member
  parser to the data, \<open>no_match\<close> is the exception raised after the loop.
\<close>

fun union_loop :: "('p \<Rightarrow> error + 'a) \<Rightarrow> 'p list \<Rightarrow> error \<Rightarrow> error + 'a" where
  "union_loop par [] no_match = Inl no_match"
| "union_loop par (member_parser # rest) no_match =
     (case par member_parser of
        Inr v \<Rightarrow> Inr v
      | Inl e \<Rightarrow> if caught_by_union e then union_loop par rest no_match else Inl e)"

lemma union_loop_cong [fundef_cong]:
  "ps = qs \<Longrightarrow> e = e' \<Longrightarrow> (\<And>p. p \<in> set qs \<Longrightarrow> f p = g p)
    \<Longrightarrow> union_loop f ps e = union_loop g qs e'"
  by (induction qs arbitrary: ps) (auto split: sum.splits)

text \<open>The parse_field methods of the four field deserializers.\<close>

definition parse_field_with ::
  "(deserializer \<Rightarrow> pyval \<Rightarrow> error + pyval) \<Rightarrow> pylib \<Rightarrow> field_deserializer
    \<Rightarrow> (pyval \<times> pyval) list \<Rightarrow> error + pyval" where
  "parse_field_with par L fd data =
     (case fd of
        RequiredFieldDeserializer pn fn p \<Rightarrow>
          (case dict_get data (VStr pn) of
             None \<Rightarrow>
               Inl (JsonKeyError [Txt ''missing required property `'', Str pn,
                                  Txt ''` from JSON object: '', Obj (VDict data)])
           | Some v \<Rightarrow> par p v)
      | OptionalFieldDeserializer pn fn p \<Rightarrow>
          (let v = dict_get_default data (VStr pn)
           in if v \<noteq> VNone then par p v else Inr VNone)
      | DefaultFieldDeserializer pn fn p default_value \<Rightarrow>
          (let v = dict_get_default data (VStr pn)
           in if v \<noteq> VNone then par p v else Inr default_value)
      | DefaultFactoryFieldDeserializer pn fn p default_factory \<Rightarrow>
          (let v = dict_get_default data (VStr pn)
           in if v \<noteq> VNone then par p v else Inr (call_factory L default_factory)))"

text \<open>
  A frozen dataclass: its __setattr__ raises FrozenInstanceError for every name.
\<close>

fun is_frozen :: "pyclass \<Rightarrow> bool" where
  "is_frozen (PyClass n (DataClass fz) h tj fj) = fz"
| "is_frozen (PyClass n k h tj fj) = False"

text \<open>
  ClassDeserializer.create: create_object and one setattr for each field value, in the
  order of the field values. object.__new__ refuses the builtin classes; the first
  setattr on an instance of a frozen dataclass raises, so such an instance is returned
  only when there is no field value to set.
\<close>

definition create_instance :: "pytype \<Rightarrow> (string \<times> pyval) list \<Rightarrow> error + pyval" where
  "create_instance class_type field_values =
     (case class_type of
        TClass c \<Rightarrow>
          (case field_values of
             [] \<Rightarrow> Inr (VObject c [])
           | (first_name, first_value) # rest \<Rightarrow>
               if is_frozen c then
                 Inl (FrozenInstanceError [Txt ''cannot assign to field '', Obj (VStr first_name)])
               else Inr (VObject c (foldl (\<lambda>a (n, v). attr_set a n v) [] field_values)))
      | _ \<Rightarrow> Inl (TypeError [Txt ''object.__new__('', Ty class_type, Txt '') is not safe'']))"

text \<open>
  NamedTupleDeserializer.create: class_type(**field_values). The keywords must be the
  fields of the tuple; the instance holds them in the order of _fields.
\<close>

definition create_named_tuple :: "pytype \<Rightarrow> (string \<times> pyval) list \<Rightarrow> error + pyval" where
  "create_named_tuple class_type field_values =
     (case class_type of
        TClass (PyClass n (NamedTupleClass fs) h tj fj) \<Rightarrow>
          if set (map fst field_values) = set fs then
            Inr (VObject (PyClass n (NamedTupleClass fs) h tj fj)
                  (map (\<lambda>f. (f, case attr_get field_values f of Some v \<Rightarrow> v | None \<Rightarrow> VNone)) fs))
          else Inl (TypeError [Ty class_type, Txt ''.__new__() got unexpected or missing arguments''])
      | _ \<Rightarrow> create_instance class_type field_values)"

text \<open>The keys of the object that no property parser has read, in the object's order.\<close>

definition unassigned_names :: "string list \<Rightarrow> (pyval \<times> pyval) list \<Rightarrow> pyval list" where
  "unassigned_names parsed_properties object_data =
     filter (\<lambda>name. name \<notin> set (map VStr parsed_properties)) (map fst object_data)"

text \<open>
  ClassDeserializer.parse: every property parser reads its field from the object, then
  any key of the object that no parser has read is refused, then the instance is made.
\<close>

definition class_parse_with ::
  "(deserializer \<Rightarrow> pyval \<Rightarrow> error + pyval) \<Rightarrow> pylib
    \<Rightarrow> (pytype \<Rightarrow> (string \<times> pyval) list \<Rightarrow> error + pyval)
    \<Rightarrow> pytype \<Rightarrow> field_deserializer list \<Rightarrow> pyval \<Rightarrow> error + pyval" where
  "class_parse_with par L create class_type property_parsers data =
     (case data of
        VDict object_data \<Rightarrow>
          (case foldE (\<lambda>property_parser (field_values, parsed_properties).
                         case parse_field_with par L property_parser object_data of
                           Inl e \<Rightarrow> Inl e
                         | Inr v \<Rightarrow>
                             Inr (attr_set field_values (field_name property_parser) v,
                                  parsed_properties @ [property_name property_parser]))
                  property_parsers ([], []) of
             Inl e \<Rightarrow> Inl e
           | Inr (field_values, parsed_properties) \<Rightarrow>
               (let names = unassigned_names parsed_properties object_data
                in if names \<noteq> [] then
                     Inl (JsonKeyError [Txt ''unrecognized fields in JSON object: '',
                                        Obj (VList names)])
                   else create class_type field_values))
      | _ \<Rightarrow>
          Inl (JsonTypeError [Txt ''`type `'', Ty class_type,
                 Txt ''` expects JSON `object` data but instead received: '', Obj data]))"

lemma parse_field_with_cong:
  "(\<And>v. par (parser fd) v = par' (parser fd) v) \<Longrightarrow>
   parse_field_with par L fd data = parse_field_with par' L fd data"
  by (cases fd) (auto simp: parse_field_with_def Let_def split: option.splits)

lemma foldE_parse_field_with_cong:
  "(\<And>fd v. fd \<in> set pps \<Longrightarrow> par (parser fd) v = par' (parser fd) v) \<Longrightarrow>
   foldE (\<lambda>pp (fv, pr). case parse_field_with par L pp od of
                           Inl e \<Rightarrow> Inl e
                         | Inr v \<Rightarrow> Inr (attr_set fv (field_name pp) v, pr @ [property_name pp]))
         pps st
   = foldE (\<lambda>pp (fv, pr). case parse_field_with par' L pp od of
                           Inl e \<Rightarrow> Inl e
                         | Inr v \<Rightarrow> Inr (attr_set fv (field_name pp) v, pr @ [property_name pp]))
         pps st"
proof (induction pps arbitrary: st)
  case Nil
  then show ?case by simp
next
  case (Cons pp pps)
  have a: "parse_field_with par L pp od = parse_field_with par' L pp od"
    by (rule parse_field_with_cong) (simp add: Cons.prems)
  have b: "foldE (\<lambda>pp (fv, pr). case parse_field_with par L pp od of
                           Inl e \<Rightarrow> Inl e
                         | Inr v \<Rightarrow> Inr (attr_set fv (field_name pp) v, pr @ [property_name pp]))
         pps st'
   = foldE (\<lambda>pp (fv, pr). case parse_field_with par' L pp od of
                           Inl e \<Rightarrow> Inl e
                         | Inr v \<Rightarrow> Inr (attr_set fv (field_name pp) v, pr @ [property_name pp]))
         pps st'" for st'
    by (rule Cons.IH) (simp add: Cons.prems)
  show ?case by (simp add: a b split: sum.splits prod.splits)
qed

lemma class_parse_with_cong [fundef_cong]:
  "pps = pps' \<Longrightarrow> data = data' \<Longrightarrow>
   (\<And>fd v. fd \<in> set pps' \<Longrightarrow> par (parser fd) v = par' (parser fd) v) \<Longrightarrow>
   class_parse_with par L create ct pps data = class_parse_with par' L create ct pps' data'"
  using foldE_parse_field_with_cong[of pps' par par' L _ "([], [])"]
  by (simp add: class_parse_with_def split: pyval.splits)

lemma size_parser_field: "size (parser fd) < size fd"
  by (cases fd) auto

lemma size_field_in:
  "fd \<in> set pps \<Longrightarrow> size (fd :: field_deserializer) \<le> size_list size pps"
  using size_list_estimation'[of fd pps "size fd" size] by simp

lemma size_parser_in:
  "p \<in> set ps \<Longrightarrow> size (p :: deserializer) \<le> size_list size ps"
  using size_list_estimation'[of p ps "size p" size] by simp

lemma size_parser_member:
  "p \<in> set ps \<Longrightarrow> size (p :: deserializer) < Suc (size_list size ps)"
  using size_parser_in[of p ps] by simp

lemma size_parser_zip:
  "(p, x) \<in> set (zip ps xs) \<Longrightarrow> size (p :: deserializer) < Suc (size_list size ps)"
  using size_parser_in[of p ps] by (auto dest: set_zip_leftD)

lemma size_parser_of_field:
  "fd \<in> set pps \<Longrightarrow> size (parser fd) < Suc (size_list size pps)"
  using size_field_in[of fd pps] size_parser_field[of fd] by simp

function parse :: "pylib \<Rightarrow> deserializer \<Rightarrow> pyval \<Rightarrow> error + pyval" where
  "parse L NoneDeserializer data =
     (if data \<noteq> VNone then
        Inl (JsonTypeError [Txt ''`None` type expects JSON `null` but instead received: '', Obj data])
      else Inr VNone)"
| "parse L BoolDeserializer data =
     (case data of
        VBool b \<Rightarrow> Inr (VBool b)
      | _ \<Rightarrow> Inl (JsonTypeError
               [Txt ''`bool` type expects JSON `boolean` data but instead received: '', Obj data]))"
| "parse L IntDeserializer data =
     (case data of
        VInt i \<Rightarrow> Inr (VInt i)
      | VBool b \<Rightarrow> Inr (VInt (if b then 1 else 0))
      | _ \<Rightarrow> Inl (JsonTypeError
               [Txt ''`int` type expects integer data as JSON `number` but instead received: '',
                Obj data]))"
| "parse L FloatDeserializer data =
     (case data of
        VFloat r \<Rightarrow> Inr (VFloat r)
      | VInt i \<Rightarrow> Inr (VFloat (of_int i))
      | VBool b \<Rightarrow> Inr (VFloat (if b then 1 else 0))
      | _ \<Rightarrow> Inl (JsonTypeError
               [Txt ''`int` type expects data as JSON `number` but instead received: '', Obj data]))"
| "parse L StringDeserializer data =
     (case data of
        VStr s \<Rightarrow> Inr (VStr s)
      | _ \<Rightarrow> Inl (JsonTypeError
               [Txt ''`str` type expects JSON `string` data but instead received: '', Obj data]))"
| "parse L BytesDeserializer data =
     (case data of
        VStr s \<Rightarrow> (case b64decode L s of Inl e \<Rightarrow> Inl e | Inr bs \<Rightarrow> Inr (VBytes bs))
      | _ \<Rightarrow> Inl (JsonTypeError
               [Txt ''`bytes` type expects JSON `string` data but instead received: '', Obj data]))"
| "parse L DateTimeDeserializer data =
     (case data of
        VStr s \<Rightarrow>
          (let s' = (if endswith s ''Z'' then drop_last 1 s @ ''+00:00'' else s)
           in case datetime_fromisoformat L s' of
                Inl e \<Rightarrow> Inl e
              | Inr (d, t) \<Rightarrow>
                  if tzinfo t = None then
                    Inl (JsonValueError
                      [Txt ''timestamp lacks explicit time zone designator: '', Str s'])
                  else Inr (VDateTime d t))
      | _ \<Rightarrow> Inl (JsonTypeError
               [Txt ''`datetime` type expects JSON `string` data but instead received: '', Obj data]))"
| "parse L DateDeserializer data =
     (case data of
        VStr s \<Rightarrow> (case date_fromisoformat L s of Inl e \<Rightarrow> Inl e | Inr d \<Rightarrow> Inr (VDate d))
      | _ \<Rightarrow> Inl (JsonTypeError
               [Txt ''`date` type expects JSON `string` data but instead received: '', Obj data]))"
| "parse L TimeDeserializer data =
     (case data of
        VStr s \<Rightarrow> (case time_fromisoformat L s of Inl e \<Rightarrow> Inl e | Inr t \<Rightarrow> Inr (VTime t))
      | _ \<Rightarrow> Inl (JsonTypeError
               [Txt ''`time` type expects JSON `string` data but instead received: '', Obj data]))"
| "parse L UUIDDeserializer data =
     (case data of
        VStr s \<Rightarrow> (case uuid_parse L s of Inl e \<Rightarrow> Inl e | Inr u \<Rightarrow> Inr (VUUID u))
      | _ \<Rightarrow> Inl (JsonTypeError
               [Txt ''`UUID` type expects JSON `string` data but instead received: '', Obj data]))"
| "parse L (ListDeserializer item_type item_parser) data =
     (case data of
        VList items \<Rightarrow>
          (case mapE (\<lambda>item. parse L item_parser item) items of
             Inl e \<Rightarrow> Inl e
           | Inr xs \<Rightarrow> Inr (VList xs))
      | _ \<Rightarrow> Inl (JsonTypeError
               [Txt ''type `List['', Ty item_type,
                Txt '']` expects JSON `array` data but instead received: '', Obj data]))"
| "parse L (DictDeserializer key_type value_type value_parser) data =
     (case data of
        VDict kvs \<Rightarrow>
          (case mapE (\<lambda>(key, v).
                   case call_type L key_type key of
                     Inl e \<Rightarrow> Inl e
                   | Inr k \<Rightarrow>
                       (case parse L value_parser v of
                          Inl e \<Rightarrow> Inl e
                        | Inr x \<Rightarrow> Inr (k, x))) kvs of
             Inl e \<Rightarrow> Inl e
           | Inr ps \<Rightarrow> Inr (VDict (dict_of ps)))
      | _ \<Rightarrow> Inl (JsonTypeError
               [Txt ''`type `Dict['', Ty key_type, Txt '', '', Ty value_type,
                Txt '']` expects JSON `object` data but instead received: '', Obj data]))"
| "parse L (SetDeserializer member_type member_parser) data =
     (case data of
        VList items \<Rightarrow>
          (case mapE (\<lambda>item. parse L member_parser item) items of
             Inl e \<Rightarrow> Inl e
           | Inr xs \<Rightarrow> Inr (VSet (set_of xs)))
      | _ \<Rightarrow> Inl (JsonTypeError
               [Txt ''type `Set['', Ty member_type,
                Txt '']` expects JSON `array` data but instead received: '', Obj data]))"
| "parse L (TupleDeserializer item_types item_parsers) data =
     (case data of
        VList items \<Rightarrow>
          if length items \<noteq> length item_parsers then
            Inl (JsonValueError
              [Txt ''type `Tuple['', Tys item_types, Txt '']` expects a JSON `array` of length '',
               Num (length item_parsers), Txt '' but received length '', Num (length items)])
          else
            (case mapE (\<lambda>(item_parser, item). parse L item_parser item)
                    (zip item_parsers items) of
               Inl e \<Rightarrow> Inl e
             | Inr xs \<Rightarrow> Inr (VTuple xs))
      | _ \<Rightarrow> Inl (JsonTypeError
               [Txt ''type `Tuple['', Tys item_types,
                Txt '']` expects JSON `array` data but instead received: '', Obj data]))"
| "parse L (UnionDeserializer member_types member_parsers) data =
     union_loop (\<lambda>member_parser. parse L member_parser data) member_parsers
       (JsonKeyError [Txt ''type `Union['', Tys member_types,
                      Txt '']` could not be instantiated from: '', Obj data])"
| "parse L (EnumDeserializer enum_type) data = call_type L enum_type data"
| "parse L (CustomDeserializer converter) data = call_from_json L converter data"
| "parse L (NamedTupleDeserializer class_type property_parsers) data =
     class_parse_with (parse L) L create_named_tuple class_type property_parsers data"
| "parse L (DataclassDeserializer class_type property_parsers) data =
     class_parse_with (parse L) L create_instance class_type property_parsers data"
| "parse L (TypedClassDeserializer class_type property_parsers) data =
     class_parse_with (parse L) L create_instance class_type property_parsers data"
  by pat_completeness auto
termination
  by (relation "measure (\<lambda>(L, d, v). size d)")
     (auto intro: size_parser_zip size_parser_of_field size_parser_member)

text \<open>parse_field, as the source names it.\<close>

definition parse_field ::
  "pylib \<Rightarrow> field_deserializer \<Rightarrow> (pyval \<times> pyval) list \<Rightarrow> error + pyval" where
  "parse_field L fd data = parse_field_with (parse L) L fd data"

text \<open>json_to_object of the typed engine: build the deserializer of the type and apply it.\<close>

definition deserialize :: "pylib \<Rightarrow> pytype \<Rightarrow> pyval \<Rightarrow> error + pyval" where
  "deserialize L t data =
     (case create_deserializer t of Inl e \<Rightarrow> Inl e | Inr p \<Rightarrow> parse L p data)"

section \<open>Facts about the loops\<close>

lemma mapE_length: "mapE f xs = Inr ys \<Longrightarrow> length ys = length xs"
  by (induction xs arbitrary: ys) (auto split: sum.splits)

lemma mapE_nth: "mapE f xs = Inr ys \<Longrightarrow> i < length xs \<Longrightarrow> f (xs ! i) = Inr (ys ! i)"
proof (induction xs arbitrary: ys i)
  case Nil
  then show ?case by simp
next
  case (Cons x xs)
  then obtain y ys' where y: "f x = Inr y" "mapE f xs = Inr ys'" "ys = y # ys'"
    by (auto split: sum.splits)
  show ?case
  proof (cases i)
    case 0
    then show ?thesis using y by simp
  next
    case (Suc k)
    then show ?thesis using Cons.IH[OF y(2), of k] Cons.prems(2) y(3) by simp
  qed
qed

section \<open>An example library\<close>

text \<open>
  A runtime for the examples below: base64 knows the two bytes of the test suite,
  fromisoformat two timestamps (one with the offset +00:00, one naive), every other
  text is refused; the hooks and factories are fixed.
\<close>

definition test_lib :: pylib where
  "test_lib = \<lparr>
     b64encode = (\<lambda>bs. if bs = [65, 78] then ''QU4='' else []),
     b64decode = (\<lambda>s. if s = ''QU4='' then Inr [65, 78] else Inl (ValueError [Txt ''Only base64 data is allowed''])),
     datetime_fromisoformat = (\<lambda>s.
        if s = ''1989-10-23T01:45:50+00:00'' then
          Inr (\<lparr>year = 1989, month = 10, day = 23\<rparr>,
               \<lparr>hour = 1, minute = 45, second = 50, microsecond = 0, tzinfo = Some 0\<rparr>)
        else if s = ''1989-10-23T01:45:50'' then
          Inr (\<lparr>year = 1989, month = 10, day = 23\<rparr>,
               \<lparr>hour = 1, minute = 45, second = 50, microsecond = 0, tzinfo = None\<rparr>)
        else Inl (ValueError [Txt ''Invalid isoformat string: '', Str s])),
     date_fromisoformat = (\<lambda>s. Inl (ValueError [Txt ''Invalid isoformat string: '', Str s])),
     time_fromisoformat = (\<lambda>s. Inl (ValueError [Txt ''Invalid isoformat string: '', Str s])),
     uuid_parse = (\<lambda>s. Inl (ValueError [Txt ''badly formed hexadecimal UUID string''])),
     py_str = (\<lambda>v. []),
     call_to_json = (\<lambda>hook obj. Inr (VStr ''custom'')),
     call_from_json = (\<lambda>hook data. Inr data),
     call_factory = (\<lambda>factory. VList []) \<rparr>"

lemmas inspect_defs =
  required_type_of_def is_type_optional_def unwrap_annotated_type_def unwrap_optional_type_def
  unwrap_optional_type_inner_def make_union_def python_field_to_json_property_def
  get_annotation_Alias_def Let_def

section \<open>Union disambiguation\<close>

lemma union_loop_first_value:
  assumes "i < length ps" "\<forall>j<i. \<exists>e. f (ps ! j) = Inl e \<and> caught_by_union e" "f (ps ! i) = Inr v"
  shows "union_loop f ps nm = Inr v"
  using assms
proof (induction ps arbitrary: i)
  case Nil
  then show ?case by simp
next
  case (Cons p ps)
  show ?case
  proof (cases i)
    case 0
    then show ?thesis using Cons.prems by simp
  next
    case (Suc k)
    have "\<exists>e. f p = Inl e \<and> caught_by_union e" using Cons.prems(2) Suc by force
    moreover have "union_loop f ps nm = Inr v"
    proof (rule Cons.IH[of k])
      show "k < length ps" using Cons.prems(1) Suc by simp
      show "\<forall>j<k. \<exists>e. f (ps ! j) = Inl e \<and> caught_by_union e"
        using Cons.prems(2) Suc by force
      show "f (ps ! k) = Inr v" using Cons.prems(3) Suc by simp
    qed
    ultimately show ?thesis by auto
  qed
qed

lemma union_loop_first_error:
  assumes "i < length ps" "\<forall>j<i. \<exists>e. f (ps ! j) = Inl e \<and> caught_by_union e"
    "f (ps ! i) = Inl e" "\<not> caught_by_union e"
  shows "union_loop f ps nm = Inl e"
  using assms
proof (induction ps arbitrary: i)
  case Nil
  then show ?case by simp
next
  case (Cons p ps)
  show ?case
  proof (cases i)
    case 0
    then show ?thesis using Cons.prems by simp
  next
    case (Suc k)
    have "\<exists>e. f p = Inl e \<and> caught_by_union e" using Cons.prems(2) Suc by force
    moreover have "union_loop f ps nm = Inl e"
    proof (rule Cons.IH[of k])
      show "k < length ps" using Cons.prems(1) Suc by simp
      show "\<forall>j<k. \<exists>e. f (ps ! j) = Inl e \<and> caught_by_union e"
        using Cons.prems(2) Suc by force
      show "f (ps ! k) = Inl e" using Cons.prems(3) Suc by simp
      show "\<not> caught_by_union e" by (rule Cons.prems(4))
    qed
    ultimately show ?thesis by auto
  qed
qed

lemma union_loop_no_match:
  assumes "\<forall>j<length ps. \<exists>e. f (ps ! j) = Inl e \<and> caught_by_union e"
  shows "union_loop f ps nm = Inl nm"
  using assms
proof (induction ps)
  case Nil
  then show ?case by simp
next
  case (Cons p ps)
  have "\<exists>e. f p = Inl e \<and> caught_by_union e" using Cons.prems by force
  moreover have "union_loop f ps nm = Inl nm"
    by (rule Cons.IH) (use Cons.prems in force)
  ultimately show ?case by auto
qed

text \<open>
  Claim C2. The deserializer built for Union[T1..Tn] holds the deserializers of
  T1..Tn in declared order. On any input it returns the value of the first member that
  parses, provided every member before it failed with JsonKeyError or JsonTypeError
  (the shape failures: missing or unrecognized field, wrong JSON kind); a member that
  fails with any other exception ends the trial with that exception; and when every
  member fails with a shape failure the result is one JsonKeyError whose message names
  all member types and the input.
\<close>

theorem union_ordered_trial:
  assumes cd: "create_deserializer (TUnion member_types) = Inr D"
  shows "\<exists>ps. D = UnionDeserializer member_types ps
      \<and> length ps = length member_types
      \<and> (\<forall>i<length member_types. create_deserializer (member_types ! i) = Inr (ps ! i))
      \<and> (\<forall>i v. i < length ps
            \<and> (\<forall>j<i. \<exists>e. parse L (ps ! j) data = Inl e \<and> caught_by_union e)
            \<and> parse L (ps ! i) data = Inr v
            \<longrightarrow> parse L D data = Inr v)
      \<and> (\<forall>i e. i < length ps
            \<and> (\<forall>j<i. \<exists>e'. parse L (ps ! j) data = Inl e' \<and> caught_by_union e')
            \<and> parse L (ps ! i) data = Inl e \<and> \<not> caught_by_union e
            \<longrightarrow> parse L D data = Inl e)
      \<and> ((\<forall>j<length ps. \<exists>e. parse L (ps ! j) data = Inl e \<and> caught_by_union e)
            \<longrightarrow> parse L D data
                = Inl (JsonKeyError [Txt ''type `Union['', Tys member_types,
                         Txt '']` could not be instantiated from: '', Obj data]))
      \<and> (\<forall>e. caught_by_union e
            \<longleftrightarrow> (\<exists>m. e = JsonKeyError m) \<or> (\<exists>m. e = JsonTypeError m))"
proof -
  obtain ps where ps: "mapE create_deserializer member_types = Inr ps"
      "D = UnionDeserializer member_types ps"
    using cd by (auto split: sum.splits)
  have len: "length ps = length member_types" using mapE_length[OF ps(1)] .
  have nth: "\<forall>i<length member_types. create_deserializer (member_types ! i) = Inr (ps ! i)"
    using mapE_nth[OF ps(1)] by simp
  have caught: "\<forall>e. caught_by_union e
            \<longleftrightarrow> (\<exists>m. e = JsonKeyError m) \<or> (\<exists>m. e = JsonTypeError m)"
    by (auto simp: caught_by_union_def split: error.splits)
  show ?thesis
    using ps(2) len nth caught
      union_loop_first_value[of _ ps "\<lambda>member_parser. parse L member_parser data"]
      union_loop_first_error[of _ ps "\<lambda>member_parser. parse L member_parser data"]
      union_loop_no_match[of ps "\<lambda>member_parser. parse L member_parser data"]
    by (intro exI[of _ ps]) (simp, blast)
qed


theorem union_ordered_trial_witness:
  "parse test_lib (UnionDeserializer [TInt, TStr] [IntDeserializer, StringDeserializer])
      (VStr ''a string'') = Inr (VStr ''a string'')
   \<and> parse test_lib (UnionDeserializer [TInt, TStr] [IntDeserializer, StringDeserializer])
      (VFloat 10.23)
     = Inl (JsonKeyError [Txt ''type `Union['', Tys [TInt, TStr],
              Txt '']` could not be instantiated from: '', Obj (VFloat 10.23)])
   \<and> parse test_lib
        (UnionDeserializer [TTuple [TInt, TInt], TList TInt]
           [TupleDeserializer [TInt, TInt] [IntDeserializer, IntDeserializer],
            ListDeserializer TInt IntDeserializer])
        (VList [VInt 1])
     = Inl (JsonValueError
         [Txt ''type `Tuple['', Tys [TInt, TInt], Txt '']` expects a JSON `array` of length '',
          Num 2, Txt '' but received length '', Num 1])"
proof -
  let ?D = "UnionDeserializer [TInt, TStr] [IntDeserializer, StringDeserializer]"
  let ?E = "UnionDeserializer [TTuple [TInt, TInt], TList TInt]
           [TupleDeserializer [TInt, TInt] [IntDeserializer, IntDeserializer],
            ListDeserializer TInt IntDeserializer]"
  have cd: "create_deserializer (TUnion [TInt, TStr]) = Inr ?D" by simp
  have ce: "create_deserializer (TUnion [TTuple [TInt, TInt], TList TInt]) = Inr ?E" by simp
  have a: "parse test_lib ?D (VStr ''a string'') = Inr (VStr ''a string'')"
  proof -
    from union_ordered_trial[OF cd, of test_lib "VStr ''a string''"]
    obtain ps where ps: "?D = UnionDeserializer [TInt, TStr] ps"
      and first: "\<forall>i v. i < length ps
            \<and> (\<forall>j<i. \<exists>e. parse test_lib (ps ! j) (VStr ''a string'') = Inl e \<and> caught_by_union e)
            \<and> parse test_lib (ps ! i) (VStr ''a string'') = Inr v
            \<longrightarrow> parse test_lib ?D (VStr ''a string'') = Inr v"
      by blast
    have eq: "ps = [IntDeserializer, StringDeserializer]" using ps by simp
    show ?thesis
      using first[rule_format, of 1 "VStr ''a string''"]
      by (simp add: eq caught_by_union_def)
  qed
  have b: "parse test_lib ?D (VFloat 10.23)
     = Inl (JsonKeyError [Txt ''type `Union['', Tys [TInt, TStr],
              Txt '']` could not be instantiated from: '', Obj (VFloat 10.23)])"
  proof -
    from union_ordered_trial[OF cd, of test_lib "VFloat 10.23"]
    obtain ps where ps: "?D = UnionDeserializer [TInt, TStr] ps"
      and none: "(\<forall>j<length ps. \<exists>e. parse test_lib (ps ! j) (VFloat 10.23) = Inl e \<and> caught_by_union e)
            \<longrightarrow> parse test_lib ?D (VFloat 10.23)
                = Inl (JsonKeyError [Txt ''type `Union['', Tys [TInt, TStr],
                         Txt '']` could not be instantiated from: '', Obj (VFloat 10.23)])"
      by blast
    have eq: "ps = [IntDeserializer, StringDeserializer]" using ps by simp
    have "\<forall>j<length ps. \<exists>e. parse test_lib (ps ! j) (VFloat 10.23) = Inl e \<and> caught_by_union e"
      by (simp add: eq caught_by_union_def less_Suc_eq)
    then show ?thesis using none by blast
  qed
  have c: "parse test_lib ?E (VList [VInt 1])
     = Inl (JsonValueError
         [Txt ''type `Tuple['', Tys [TInt, TInt], Txt '']` expects a JSON `array` of length '',
          Num 2, Txt '' but received length '', Num 1])"
  proof -
    from union_ordered_trial[OF ce, of test_lib "VList [VInt 1]"]
    obtain ps where ps: "?E = UnionDeserializer [TTuple [TInt, TInt], TList TInt] ps"
      and err: "\<forall>i e. i < length ps
            \<and> (\<forall>j<i. \<exists>e'. parse test_lib (ps ! j) (VList [VInt 1]) = Inl e' \<and> caught_by_union e')
            \<and> parse test_lib (ps ! i) (VList [VInt 1]) = Inl e \<and> \<not> caught_by_union e
            \<longrightarrow> parse test_lib ?E (VList [VInt 1]) = Inl e"
      by blast
    have eq: "ps = [TupleDeserializer [TInt, TInt] [IntDeserializer, IntDeserializer],
            ListDeserializer TInt IntDeserializer]" using ps by simp
    show ?thesis
      using err[rule_format, of 0]
      by (simp add: eq caught_by_union_def)
  qed
  show ?thesis using a b c by blast
qed

section \<open>Strict object parsing\<close>

lemma foldE_fields_names:
  "foldE (\<lambda>pp (fv, pr). case parse_field_with par L pp od of
                           Inl e \<Rightarrow> Inl e
                         | Inr v \<Rightarrow> Inr (attr_set fv (field_name pp) v, pr @ [property_name pp]))
         pps (fv0, pr0) = Inr (fv, pr)
   \<Longrightarrow> pr = pr0 @ map property_name pps"
proof (induction pps arbitrary: fv0 pr0)
  case Nil
  then show ?case by simp
next
  case (Cons pp pps)
  then obtain v where v: "parse_field_with par L pp od = Inr v"
    by (auto split: sum.splits)
  have "pr = (pr0 @ [property_name pp]) @ map property_name pps"
    by (rule Cons.IH[of "attr_set fv0 (field_name pp) v"]) (use Cons.prems v in simp)
  then show ?case by simp
qed

lemma foldE_fields_total:
  "\<forall>fd\<in>set pps. \<exists>v. parse_field_with par L fd od = Inr v \<Longrightarrow>
   \<exists>fv. foldE (\<lambda>pp (fv, pr). case parse_field_with par L pp od of
                           Inl e \<Rightarrow> Inl e
                         | Inr v \<Rightarrow> Inr (attr_set fv (field_name pp) v, pr @ [property_name pp]))
         pps (fv0, pr0) = Inr (fv, pr0 @ map property_name pps)"
proof (induction pps arbitrary: fv0 pr0)
  case Nil
  then show ?case by simp
next
  case (Cons pp pps)
  then obtain v where v: "parse_field_with par L pp od = Inr v" by auto
  have "\<forall>fd\<in>set pps. \<exists>v. parse_field_with par L fd od = Inr v" using Cons.prems by simp
  from Cons.IH[OF this, of "attr_set fv0 (field_name pp) v" "pr0 @ [property_name pp]"]
  show ?case using v by simp
qed

lemma class_parse_with_unrecognized:
  assumes "unassigned_names (map property_name pps) od \<noteq> []"
  shows "class_parse_with par L create ct pps (VDict od) \<noteq> Inr v"
    and "\<forall>fd\<in>set pps. \<exists>v. parse_field_with par L fd od = Inr v \<Longrightarrow>
         class_parse_with par L create ct pps (VDict od)
         = Inl (JsonKeyError [Txt ''unrecognized fields in JSON object: '',
             Obj (VList (unassigned_names (map property_name pps) od))])"
proof -
  show "class_parse_with par L create ct pps (VDict od) \<noteq> Inr v"
    using assms foldE_fields_names[of par L od pps "[]" "[]"]
    by (auto simp: class_parse_with_def Let_def split: sum.splits prod.splits)
next
  assume "\<forall>fd\<in>set pps. \<exists>v. parse_field_with par L fd od = Inr v"
  from foldE_fields_total[OF this, of "[]" "[]"]
  show "class_parse_with par L create ct pps (VDict od)
         = Inl (JsonKeyError [Txt ''unrecognized fields in JSON object: '',
             Obj (VList (unassigned_names (map property_name pps) od))])"
    using assms by (auto simp: class_parse_with_def Let_def)
qed

text \<open>
  Claim C3, amended. For every class deserializer (named tuple, dataclass, annotated
  class) and every JSON object with at least one key that is the property name of none
  of its fields, parsing never returns a value; and when every field of the record
  parses from the object, the exception is a JsonKeyError whose message lists all the
  unrecognized keys, in the order of the object. (When a field fails to parse, that
  field's exception is raised first and the unrecognized keys are not reported.)
\<close>

theorem unrecognized_fields_refused:
  assumes node: "D = NamedTupleDeserializer ct pps \<or> D = DataclassDeserializer ct pps
               \<or> D = TypedClassDeserializer ct pps"
    and unrecognized: "unassigned_names (map property_name pps) object_data \<noteq> []"
  shows "(\<forall>v. parse L D (VDict object_data) \<noteq> Inr v)
       \<and> ((\<forall>fd\<in>set pps. \<exists>v. parse_field L fd object_data = Inr v) \<longrightarrow>
           parse L D (VDict object_data)
           = Inl (JsonKeyError [Txt ''unrecognized fields in JSON object: '',
               Obj (VList (unassigned_names (map property_name pps) object_data))]))"
  using node class_parse_with_unrecognized[OF unrecognized, of "parse L" L]
  by (auto simp: parse_field_def)


theorem unrecognized_fields_refused_witness:
  "parse test_lib
     (DataclassDeserializer
        (TClass (PyClass ''OptionalValueWrapper'' (DataClass False)
                   [(''value'', TUnion [TInt, TNoneType], NoDefault)] None None))
        [OptionalFieldDeserializer ''value'' ''value'' IntDeserializer])
     (VDict [(VStr ''value'', VInt 23), (VStr ''extra'', VInt 42), (VStr ''more'', VNone)])
   = Inl (JsonKeyError [Txt ''unrecognized fields in JSON object: '',
                        Obj (VList [VStr ''extra'', VStr ''more''])])"
proof -
  let ?ct = "TClass (PyClass ''OptionalValueWrapper'' (DataClass False)
                   [(''value'', TUnion [TInt, TNoneType], NoDefault)] None None)"
  let ?pps = "[OptionalFieldDeserializer ''value'' ''value'' IntDeserializer]"
  let ?od = "[(VStr ''value'', VInt 23), (VStr ''extra'', VInt 42), (VStr ''more'', VNone)]"
  have u: "unassigned_names (map property_name ?pps) ?od = [VStr ''extra'', VStr ''more'']"
    by (simp add: unassigned_names_def)
  have f: "\<forall>fd\<in>set ?pps. \<exists>v. parse_field test_lib fd ?od = Inr v"
    by (simp add: parse_field_def parse_field_with_def dict_get_default_def py_eq_def)
  show ?thesis
    using unrecognized_fields_refused[of "DataclassDeserializer ?ct ?pps" ?ct ?pps ?od test_lib] u f
    by simp
qed

text \<open>
  The claim as stated fails where a field does not parse: the field's own exception comes
  first. A dataclass with one field \<^verbatim>\<open>pair: Tuple[int, int]\<close> given
  \<^verbatim>\<open>{"pair": [1], "extra": 42}\<close> raises the JsonValueError of the tuple
  parser (a semantic failure), and the unrecognized key \<^verbatim>\<open>extra\<close> is not reported.
\<close>

theorem strictness_counterexample:
  "create_deserializer
     (TClass (PyClass ''PairWrapper'' (DataClass False) [(''pair'', TTuple [TInt, TInt], NoDefault)] None None))
   = Inr (DataclassDeserializer
       (TClass (PyClass ''PairWrapper'' (DataClass False) [(''pair'', TTuple [TInt, TInt], NoDefault)] None None))
       [RequiredFieldDeserializer ''pair'' ''pair''
          (TupleDeserializer [TInt, TInt] [IntDeserializer, IntDeserializer])])
   \<and> parse test_lib
       (DataclassDeserializer
         (TClass (PyClass ''PairWrapper'' (DataClass False) [(''pair'', TTuple [TInt, TInt], NoDefault)] None None))
         [RequiredFieldDeserializer ''pair'' ''pair''
            (TupleDeserializer [TInt, TInt] [IntDeserializer, IntDeserializer])])
       (VDict [(VStr ''pair'', VList [VInt 1]), (VStr ''extra'', VInt 42)])
     = Inl (JsonValueError
         [Txt ''type `Tuple['', Tys [TInt, TInt], Txt '']` expects a JSON `array` of length '',
          Num 2, Txt '' but received length '', Num 1])"
  by (simp add: inspect_defs class_parse_with_def parse_field_with_def py_eq_def)


section \<open>Null and absent properties\<close>

definition dataclass_field_parser ::
  "string \<times> pytype \<times> pyval default_src \<Rightarrow> error + field_deserializer" where
  "dataclass_field_parser = (\<lambda>(field_name, field_type, d).
                             case required_type_of field_type of
                               Inl e \<Rightarrow> Inl e
                             | Inr required_type \<Rightarrow>
                                 (case create_deserializer required_type of
                                    Inl e \<Rightarrow> Inl e
                                  | Inr p \<Rightarrow>
                                      (let pn = python_field_to_json_property field_name (Some field_type)
                                       in Inr (case d of
                                                 DefaultValue dv \<Rightarrow>
                                                   DefaultFieldDeserializer pn field_name p dv
                                               | DefaultFactory f \<Rightarrow>
                                                   DefaultFactoryFieldDeserializer pn field_name p f
                                               | NoDefault \<Rightarrow>
                                                   if is_type_optional field_type
                                                   then OptionalFieldDeserializer pn field_name p
                                                   else RequiredFieldDeserializer pn field_name p))))"

lemma create_deserializer_dataclass:
  assumes "create_deserializer (TClass (PyClass n (DataClass fz) h tj fj)) = Inr (DataclassDeserializer ct pps)"
  shows "mapE dataclass_field_parser h = Inr pps \<and> ct = TClass (PyClass n (DataClass fz) h tj fj) \<and> fj = None"
  using assms by (auto simp: dataclass_field_parser_def split: option.splits sum.splits)

text \<open>
  Claim C10. For every field of a dataclass that has a default value or a default
  factory, or whose type is optional, an input object in which the field's property is
  null and one in which it is absent give the same field value: the declared default
  (what the factory returns; None for a bare optional field). This holds whatever the
  field's inner parser does, so the null never reaches it.
\<close>

theorem null_property_is_absent:
  assumes cd: "create_deserializer (TClass (PyClass n (DataClass fz) h tj fj))
                 = Inr (DataclassDeserializer ct pps)"
    and i: "i < length h"
    and hi: "h ! i = (f, t, d)"
    and fld: "d \<noteq> NoDefault \<or> is_type_optional t"
    and null: "dict_get data (VStr (python_field_to_json_property f (Some t))) = Some VNone
             \<or> dict_get data (VStr (python_field_to_json_property f (Some t))) = None"
  shows "parse_field_with par L (pps ! i) data
         = Inr (case d of DefaultValue dv \<Rightarrow> dv
                        | DefaultFactory g \<Rightarrow> call_factory L g
                        | NoDefault \<Rightarrow> VNone)"
proof -
  have m: "mapE dataclass_field_parser h = Inr pps"
    using create_deserializer_dataclass[OF cd] by simp
  have "dataclass_field_parser (f, t, d) = Inr (pps ! i)"
    using mapE_nth[OF m i] hi by simp
  then obtain p where p0: "(let pn = python_field_to_json_property f (Some t)
       in case d of
         DefaultValue dv \<Rightarrow> DefaultFieldDeserializer pn f p dv
       | DefaultFactory g \<Rightarrow> DefaultFactoryFieldDeserializer pn f p g
       | NoDefault \<Rightarrow> if is_type_optional t then OptionalFieldDeserializer pn f p
                      else RequiredFieldDeserializer pn f p) = pps ! i"
    by (auto simp: dataclass_field_parser_def Let_def split: sum.splits)
  note p = p0[symmetric]
  have v: "dict_get_default data (VStr (python_field_to_json_property f (Some t))) = VNone"
    using null by (auto simp: dict_get_default_def)
  show ?thesis
    using fld v by (cases d) (auto simp: p parse_field_with_def Let_def)
qed


theorem null_property_is_absent_witness:
  "create_deserializer
     (TClass (PyClass ''D'' (DataClass False) [(''x'', TUnion [TInt, TNoneType], DefaultValue (VInt 5))] None None))
   = Inr (DataclassDeserializer
       (TClass (PyClass ''D'' (DataClass False) [(''x'', TUnion [TInt, TNoneType], DefaultValue (VInt 5))] None None))
       [DefaultFieldDeserializer ''x'' ''x'' IntDeserializer (VInt 5)])
   \<and> parse_field_with (parse test_lib) test_lib
        (DefaultFieldDeserializer ''x'' ''x'' IntDeserializer (VInt 5)) [(VStr ''x'', VNone)]
      = Inr (VInt 5)
   \<and> parse_field_with (parse test_lib) test_lib
        (DefaultFieldDeserializer ''x'' ''x'' IntDeserializer (VInt 5)) []
      = Inr (VInt 5)"
proof -
  let ?R = "TClass (PyClass ''D'' (DataClass False) [(''x'', TUnion [TInt, TNoneType], DefaultValue (VInt 5))] None None)"
  have cd: "create_deserializer ?R
      = Inr (DataclassDeserializer ?R [DefaultFieldDeserializer ''x'' ''x'' IntDeserializer (VInt 5)])"
    by (simp add: inspect_defs)
  have a: "parse_field_with (parse test_lib) test_lib
        ([DefaultFieldDeserializer ''x'' ''x'' IntDeserializer (VInt 5)] ! 0) [(VStr ''x'', VNone)]
      = Inr (VInt 5)"
    using null_property_is_absent[OF cd, of 0 "''x''" "TUnion [TInt, TNoneType]" "DefaultValue (VInt 5)"
        "[(VStr ''x'', VNone)]" "parse test_lib" test_lib]
    by (simp add: inspect_defs py_eq_def)
  have b: "parse_field_with (parse test_lib) test_lib
        ([DefaultFieldDeserializer ''x'' ''x'' IntDeserializer (VInt 5)] ! 0) []
      = Inr (VInt 5)"
    using null_property_is_absent[OF cd, of 0 "''x''" "TUnion [TInt, TNoneType]" "DefaultValue (VInt 5)"
        "[]" "parse test_lib" test_lib]
    by (simp add: inspect_defs)
  show ?thesis using cd a b by simp
qed


section \<open>Timestamps\<close>

lemma endswith_append: "endswith (s @ suf) suf"
  by (simp add: endswith_def)

lemma drop_last_offset: "drop_last 6 (s @ ''+00:00'') = s"
  by (simp add: drop_last_def)

lemma drop_last_Z: "drop_last (Suc 0) (s @ ''Z'') = s"
  by (simp add: drop_last_def)

lemma not_endswith_last:
  assumes "suf \<noteq> []" "last s \<noteq> last suf" "s \<noteq> []"
  shows "\<not> endswith s suf"
proof
  assume e: "endswith s suf"
  then have l: "length suf \<le> length s" and d: "drop (length s - length suf) s = suf"
    by (auto simp: endswith_def)
  have "length s - length suf < length s" using l assms(1,3) by (cases suf) auto
  then have "last (drop (length s - length suf) s) = last s" by (rule last_drop)
  then show False using d assms(2) by simp
qed

lemma format_offset_utc: "format_offset (Some 0) = ''+00:00''"
  by (simp add: format_offset_def zpad_def dec.simps digit_def)

lemma datetime_isoformat_utc:
  "tzinfo t = Some 0 \<Longrightarrow>
   datetime_isoformat d t = (date_isoformat d @ ''T'' @ format_time t) @ ''+00:00''"
  by (simp add: datetime_isoformat_def time_isoformat_def format_offset_utc)

lemma generate_datetime_utc:
  assumes "tzinfo t = Some 0"
  shows "generate L DateTimeSerializer (VDateTime d t)
         = Inr (VStr ((date_isoformat d @ ''T'' @ format_time t) @ ''Z''))"
proof -
  let ?p = "date_isoformat d @ ''T'' @ format_time t"
  have iso: "datetime_isoformat d t = ?p @ ''+00:00''"
    using datetime_isoformat_utc[OF assms] .
  have e: "endswith (?p @ ''+00:00'') ''+00:00''" by (rule endswith_append)
  have dl: "drop_last 6 (?p @ ''+00:00'') = ?p"
    by (rule drop_last_offset)
  show ?thesis
    using assms e dl by (simp add: tzinfo_of_def isoformat_def iso del: append_assoc)
qed

lemma parse_datetime_Z:
  "parse L DateTimeDeserializer (VStr (s @ ''Z''))
   = parse L DateTimeDeserializer (VStr (s @ ''+00:00''))"
proof -
  have a: "endswith (s @ ''Z'') ''Z''" by (rule endswith_append)
  have b: "drop_last (Suc 0) (s @ ''Z'') = s" by (rule drop_last_Z)
  have c: "\<not> endswith (s @ ''+00:00'') ''Z''"
    by (rule not_endswith_last) auto
  show ?thesis by (simp add: a b c Let_def)
qed

lemma parse_datetime_offset:
  assumes "datetime_fromisoformat L (s @ ''+00:00'') = Inr (d, t)" "tzinfo t \<noteq> None"
  shows "parse L DateTimeDeserializer (VStr (s @ ''+00:00'')) = Inr (VDateTime d t)"
proof -
  have c: "\<not> endswith (s @ ''+00:00'') ''Z''"
    by (rule not_endswith_last) auto
  show ?thesis using assms by (simp add: c Let_def)
qed


text \<open>
  Claim C5. A datetime whose offset is UTC is serialized to a text that ends in Z and
  not in +00:00. A text ending in Z parses exactly as the same text with +00:00 in
  place of the Z, and when the ISO parser reads the +00:00 text as an aware datetime
  both parse to that datetime. A naive datetime is refused by the serializer, and a
  text that the ISO parser reads as a naive datetime is refused by the deserializer,
  both with a JsonValueError.
\<close>

theorem timestamp_contract:
  "(tzinfo t = Some 0 \<longrightarrow>
      (\<exists>s. object_to_json L (VDateTime d t) = Inr (VStr (s @ ''Z''))
           \<and> \<not> endswith (s @ ''Z'') ''+00:00''))
   \<and> deserialize L TDateTime (VStr (s @ ''Z'')) = deserialize L TDateTime (VStr (s @ ''+00:00''))
   \<and> (datetime_fromisoformat L (s @ ''+00:00'') = Inr (d', t') \<and> tzinfo t' \<noteq> None \<longrightarrow>
        deserialize L TDateTime (VStr (s @ ''Z'')) = Inr (VDateTime d' t')
      \<and> deserialize L TDateTime (VStr (s @ ''+00:00'')) = Inr (VDateTime d' t'))
   \<and> (tzinfo t = None \<longrightarrow>
        object_to_json L (VDateTime d t)
        = Inl (JsonValueError [Txt ''timestamp lacks explicit time zone designator: '',
                               Obj (VDateTime d t)]))
   \<and> (\<not> endswith s0 ''Z'' \<and> datetime_fromisoformat L s0 = Inr (d', t') \<and> tzinfo t' = None \<longrightarrow>
        deserialize L TDateTime (VStr s0)
        = Inl (JsonValueError [Txt ''timestamp lacks explicit time zone designator: '', Str s0]))"
proof -
  have ser: "object_to_json L (VDateTime d t) = generate L DateTimeSerializer (VDateTime d t)"
    by (simp add: object_to_json_def object_to_json_with_def)
  have de: "deserialize L TDateTime x = parse L DateTimeDeserializer x" for x
    by (simp add: deserialize_def)
  have 1: "tzinfo t = Some 0 \<longrightarrow>
      (\<exists>s. object_to_json L (VDateTime d t) = Inr (VStr (s @ ''Z''))
           \<and> \<not> endswith (s @ ''Z'') ''+00:00'')"
  proof
    assume u: "tzinfo t = Some 0"
    have "\<not> endswith ((date_isoformat d @ ''T'' @ format_time t) @ ''Z'') ''+00:00''"
      by (rule not_endswith_last) auto
    then show "\<exists>s. object_to_json L (VDateTime d t) = Inr (VStr (s @ ''Z''))
           \<and> \<not> endswith (s @ ''Z'') ''+00:00''"
      using generate_datetime_utc[OF u, of L d] ser by metis
  qed
  have 2: "deserialize L TDateTime (VStr (s @ ''Z'')) = deserialize L TDateTime (VStr (s @ ''+00:00''))"
    by (simp only: de parse_datetime_Z)
  have 3: "datetime_fromisoformat L (s @ ''+00:00'') = Inr (d', t') \<and> tzinfo t' \<noteq> None \<longrightarrow>
        deserialize L TDateTime (VStr (s @ ''Z'')) = Inr (VDateTime d' t')
      \<and> deserialize L TDateTime (VStr (s @ ''+00:00'')) = Inr (VDateTime d' t')"
    using parse_datetime_offset[of L s d' t'] 2 by (auto simp only: de)
  have 4: "tzinfo t = None \<longrightarrow>
        object_to_json L (VDateTime d t)
        = Inl (JsonValueError [Txt ''timestamp lacks explicit time zone designator: '',
                               Obj (VDateTime d t)])"
    by (simp add: ser tzinfo_of_def)
  have 5: "\<not> endswith s0 ''Z'' \<and> datetime_fromisoformat L s0 = Inr (d', t') \<and> tzinfo t' = None \<longrightarrow>
        deserialize L TDateTime (VStr s0)
        = Inl (JsonValueError [Txt ''timestamp lacks explicit time zone designator: '', Str s0])"
    by (simp add: de Let_def)
  show ?thesis using 1 2 3 4 5 by blast
qed

theorem timestamp_contract_witness:
  "(\<exists>s. object_to_json test_lib
          (VDateTime \<lparr>year = 1989, month = 10, day = 23\<rparr>
             \<lparr>hour = 1, minute = 45, second = 50, microsecond = 0, tzinfo = Some 0\<rparr>)
        = Inr (VStr (s @ ''Z'')) \<and> \<not> endswith (s @ ''Z'') ''+00:00'')
   \<and> deserialize test_lib TDateTime (VStr ''1989-10-23T01:45:50Z'')
     = Inr (VDateTime \<lparr>year = 1989, month = 10, day = 23\<rparr>
             \<lparr>hour = 1, minute = 45, second = 50, microsecond = 0, tzinfo = Some 0\<rparr>)
   \<and> deserialize test_lib TDateTime (VStr ''1989-10-23T01:45:50+00:00'')
     = Inr (VDateTime \<lparr>year = 1989, month = 10, day = 23\<rparr>
             \<lparr>hour = 1, minute = 45, second = 50, microsecond = 0, tzinfo = Some 0\<rparr>)
   \<and> object_to_json test_lib
        (VDateTime \<lparr>year = 1989, month = 10, day = 23\<rparr>
           \<lparr>hour = 1, minute = 45, second = 50, microsecond = 0, tzinfo = None\<rparr>)
     = Inl (JsonValueError [Txt ''timestamp lacks explicit time zone designator: '',
          Obj (VDateTime \<lparr>year = 1989, month = 10, day = 23\<rparr>
                 \<lparr>hour = 1, minute = 45, second = 50, microsecond = 0, tzinfo = None\<rparr>)])
   \<and> deserialize test_lib TDateTime (VStr ''1989-10-23T01:45:50'')
     = Inl (JsonValueError [Txt ''timestamp lacks explicit time zone designator: '',
                            Str ''1989-10-23T01:45:50''])"
proof -
  let ?d = "\<lparr>year = 1989, month = 10, day = 23\<rparr>"
  let ?utc = "\<lparr>hour = 1, minute = 45, second = 50, microsecond = 0, tzinfo = Some 0\<rparr>"
  let ?naive = "\<lparr>hour = 1, minute = 45, second = 50, microsecond = 0, tzinfo = None\<rparr>"
  have a: "\<exists>s. object_to_json test_lib (VDateTime ?d ?utc) = Inr (VStr (s @ ''Z''))
             \<and> \<not> endswith (s @ ''Z'') ''+00:00''"
    using timestamp_contract[of ?utc test_lib ?d "''1989-10-23T01:45:50''" ?d ?utc
        "''1989-10-23T01:45:50''"]
    by simp
  have b: "deserialize test_lib TDateTime (VStr ''1989-10-23T01:45:50Z'')
         = Inr (VDateTime ?d ?utc)
      \<and> deserialize test_lib TDateTime (VStr ''1989-10-23T01:45:50+00:00'')
         = Inr (VDateTime ?d ?utc)"
    using timestamp_contract[of ?utc test_lib ?d "''1989-10-23T01:45:50''" ?d ?utc
        "''1989-10-23T01:45:50''"]
    by (simp add: test_lib_def)
  have c: "object_to_json test_lib (VDateTime ?d ?naive)
     = Inl (JsonValueError [Txt ''timestamp lacks explicit time zone designator: '',
          Obj (VDateTime ?d ?naive)])
     \<and> deserialize test_lib TDateTime (VStr ''1989-10-23T01:45:50'')
     = Inl (JsonValueError [Txt ''timestamp lacks explicit time zone designator: '',
                            Str ''1989-10-23T01:45:50''])"
    using timestamp_contract[of ?naive test_lib ?d "''1989-10-23T01:45:50''" ?d ?naive
        "''1989-10-23T01:45:50''"]
    by (simp add: test_lib_def endswith_def)
  show ?thesis using a b c by blast
qed


section \<open>Times of day\<close>

lemma time_parse_passes_text_through:
  "deserialize L TTime (VStr s)
   = (case time_fromisoformat L s of Inl e \<Rightarrow> Inl e | Inr t \<Rightarrow> Inr (VTime t))"
  by (simp add: deserialize_def)

text \<open>
  Claim C9. The time 06:15:30 with the UTC offset is written as 06:15:30+00:00: the time
  serializer returns the ISO text as it is, where the datetime serializer replaces a
  final +00:00 by Z. (Reading likewise hands the text to the ISO time parser as it is,
  where the datetime deserializer first replaces a final Z by +00:00.)
\<close>

theorem time_serialized_without_Z:
  "object_to_json test_lib
     (VTime \<lparr>hour = 6, minute = 15, second = 30, microsecond = 0, tzinfo = Some 0\<rparr>)
   = Inr (VStr ''06:15:30+00:00'')
   \<and> \<not> endswith ''06:15:30+00:00'' ''Z''"
  by (simp add: object_to_json_def object_to_json_with_def isoformat_def time_isoformat_def
      format_time_def format_offset_def zpad_def dec.simps digit_def endswith_def)


section \<open>Named tuples with optional fields\<close>

text \<open>
  Claim C4. The serializer built for a typed named tuple leaves out a field that is
  None, as the serializers of dataclasses and annotated classes do; but the named tuple
  deserializer makes every field required, also one whose type is optional. For
  \<^verbatim>\<open>class OptionalTuple(NamedTuple): value: Optional[int]\<close> the value
  \<^verbatim>\<open>OptionalTuple(None)\<close> is written as the empty object, and reading the empty
  object raises a JsonKeyError for the missing property.
\<close>

theorem named_tuple_optional_field_required:
  "create_deserializer
     (TClass (PyClass ''OptionalTuple'' (NamedTupleClass [''value''])
                [(''value'', TUnion [TInt, TNoneType], NoDefault)] None None))
   = Inr (NamedTupleDeserializer
       (TClass (PyClass ''OptionalTuple'' (NamedTupleClass [''value''])
                  [(''value'', TUnion [TInt, TNoneType], NoDefault)] None None))
       [RequiredFieldDeserializer ''value'' ''value''
          (UnionDeserializer [TInt, TNoneType] [IntDeserializer, NoneDeserializer])])
   \<and> object_to_json test_lib
       (VObject (PyClass ''OptionalTuple'' (NamedTupleClass [''value''])
                  [(''value'', TUnion [TInt, TNoneType], NoDefault)] None None)
          [(''value'', VNone)])
     = Inr (VDict [])
   \<and> deserialize test_lib
       (TClass (PyClass ''OptionalTuple'' (NamedTupleClass [''value''])
                  [(''value'', TUnion [TInt, TNoneType], NoDefault)] None None))
       (VDict [])
     = Inl (JsonKeyError [Txt ''missing required property `'', Str ''value'',
                          Txt ''` from JSON object: '', Obj (VDict [])])"
  by (simp add: inspect_defs object_to_json_def object_to_json_with_def deserialize_def
      typed_class_generate_with_def generate_field_with_def getattr_def
      class_parse_with_def parse_field_with_def)


section \<open>Custom hooks on enumerations and named tuples\<close>

text \<open>
  Claim C6. The serializer factory looks for a \<^verbatim>\<open>to_json\<close> hook before any structural
  kind, while the deserializer factory recognises enumerations and named tuples before it
  looks for a \<^verbatim>\<open>from_json\<close> hook. For an enumeration and for a named tuple that carry
  both hooks the serializer is the custom one and the deserializer is the structural one.
\<close>

theorem enum_from_json_hook_ignored:
  "create_serializer
     (TClass (PyClass ''Side'' (EnumClass [(''LEFT'', VStr ''L''), (''RIGHT'', VStr ''R'')]) []
                (Some 0) (Some 1)))
   = Inr (CustomSerializer 0)
   \<and> create_deserializer
     (TClass (PyClass ''Side'' (EnumClass [(''LEFT'', VStr ''L''), (''RIGHT'', VStr ''R'')]) []
                (Some 0) (Some 1)))
   = Inr (EnumDeserializer
       (TClass (PyClass ''Side'' (EnumClass [(''LEFT'', VStr ''L''), (''RIGHT'', VStr ''R'')]) []
                  (Some 0) (Some 1))))
   \<and> create_serializer
     (TClass (PyClass ''Point'' (NamedTupleClass [''x'']) [(''x'', TInt, NoDefault)]
                (Some 0) (Some 1)))
   = Inr (CustomSerializer 0)
   \<and> create_deserializer
     (TClass (PyClass ''Point'' (NamedTupleClass [''x'']) [(''x'', TInt, NoDefault)]
                (Some 0) (Some 1)))
   = Inr (NamedTupleDeserializer
       (TClass (PyClass ''Point'' (NamedTupleClass [''x'']) [(''x'', TInt, NoDefault)]
                  (Some 0) (Some 1)))
       [RequiredFieldDeserializer ''x'' ''x'' IntDeserializer])"
  by simp


section \<open>Literal types\<close>

text \<open>
  Claim C7. For \<^verbatim>\<open>Literal["val1", "val2", "val3"]\<close>, whose values are all strings, the
  serializer factory builds a literal serializer, and the deserializer factory raises
  a TypeError: it has no case for literal types.
\<close>

theorem literal_deserializer_rejected:
  "create_serializer (TLiteral [VStr ''val1'', VStr ''val2'', VStr ''val3''])
   = Inr (LiteralSerializer StringSerializer)
   \<and> create_deserializer (TLiteral [VStr ''val1'', VStr ''val2'', VStr ''val3''])
   = Inl (TypeError [Txt ''unable to de-serialize unrecognized type: '',
                     Ty (TLiteral [VStr ''val1'', VStr ''val2'', VStr ''val3''])])"
  by (simp add: uniq_def)


section \<open>Enumerations as dictionary keys\<close>

text \<open>
  Claim C8. For \<^verbatim>\<open>Dict[Suit, int]\<close>, where the members of the enumeration Suit have
  integer values, the serializer factory raises at construction time, and the
  deserializer factory returns a dictionary deserializer: its key check builds the
  error message and does not raise it.
\<close>

theorem enum_dict_key_not_checked:
  "create_serializer
     (TDict (TClass (PyClass ''Suit'' (EnumClass [(''Diamonds'', VInt 1), (''Hearts'', VInt 2)])
                      [] None None)) TInt)
   = Inl (JsonTypeError
       [Txt ''invalid enumeration key type, expected `enum.Enum` with string values''])
   \<and> create_deserializer
     (TDict (TClass (PyClass ''Suit'' (EnumClass [(''Diamonds'', VInt 1), (''Hearts'', VInt 2)])
                      [] None None)) TInt)
   = Inr (DictDeserializer
       (TClass (PyClass ''Suit'' (EnumClass [(''Diamonds'', VInt 1), (''Hearts'', VInt 2)])
                  [] None None)) TInt IntDeserializer)"
  by (simp add: issubclass_Enum_def enum_value_types_def enum_members_def class_members_def
      uniq_def check_key_type_def)


section \<open>Round trip of records\<close>

fun fs_field_name :: "field_serializer \<Rightarrow> string" where
  "fs_field_name (FieldSerializer fn pn g) = fn"

fun fs_property_name :: "field_serializer \<Rightarrow> string" where
  "fs_property_name (FieldSerializer fn pn g) = pn"

fun fs_generator :: "field_serializer \<Rightarrow> serializer" where
  "fs_generator (FieldSerializer fn pn g) = g"

lemma py_eq_VStr [simp]: "py_eq k (VStr p) = (k = VStr p)" "py_eq (VStr p) k = (k = VStr p)"
  by (cases k; auto simp: py_eq_def)+

lemma dict_get_dict_set_str:
  "dict_get (dict_set d (VStr p) v) k = (if k = VStr p then Some v else dict_get d k)"
  by (induction d) auto

lemma keys_dict_set_mem:
  "(a, b) \<in> set (dict_set d k v) \<Longrightarrow> a = k \<or> a \<in> fst ` set d"
  by (induction d) (force split: if_splits)+

lemma keys_dict_set: "fst ` set (dict_set d k v) \<subseteq> insert k (fst ` set d)"
  using keys_dict_set_mem by fastforce

lemma generate_field_with_result:
  assumes "getattr obj (fs_field_name pg) = Inr x" "x = VNone \<or> gen (fs_generator pg) x = Inr j"
  shows "generate_field_with gen pg obj d
         = Inr (if x = VNone then d else dict_set d (VStr (fs_property_name pg)) j)"
  using assms by (cases pg) (auto simp: generate_field_with_def)

lemma generate_fields_result:
  assumes "distinct (map fs_property_name pgs)"
    and "\<forall>pg\<in>set pgs. \<exists>x. getattr obj (fs_field_name pg) = Inr x
            \<and> (x = VNone \<or> (\<exists>j. gen (fs_generator pg) x = Inr j))"
  shows "\<exists>d. foldE (\<lambda>pg d. generate_field_with gen pg obj d) pgs d0 = Inr d
     \<and> fst ` set d \<subseteq> fst ` set d0 \<union> VStr ` fs_property_name ` set pgs
     \<and> (\<forall>k. k \<notin> VStr ` fs_property_name ` set pgs \<longrightarrow> dict_get d k = dict_get d0 k)
     \<and> (\<forall>pg\<in>set pgs. \<forall>x. getattr obj (fs_field_name pg) = Inr x \<longrightarrow>
           dict_get d (VStr (fs_property_name pg))
           = (if x = VNone then dict_get d0 (VStr (fs_property_name pg))
              else Some (projr (gen (fs_generator pg) x))))"
  using assms
proof (induction pgs arbitrary: d0)
  case Nil
  then show ?case by simp
next
  case (Cons pg pgs)
  obtain x where x: "getattr obj (fs_field_name pg) = Inr x"
      "x = VNone \<or> (\<exists>j. gen (fs_generator pg) x = Inr j)"
    using Cons.prems(2) by auto
  define j where "j = projr (gen (fs_generator pg) x)"
  have xj: "x = VNone \<or> gen (fs_generator pg) x = Inr j" using x(2) j_def by auto
  define d1 where "d1 = (if x = VNone then d0 else dict_set d0 (VStr (fs_property_name pg)) j)"
  have step: "generate_field_with gen pg obj d0 = Inr d1"
    using generate_field_with_result[of obj pg x gen j d0] x(1) xj d1_def by simp
  have dist: "distinct (map fs_property_name pgs)" "fs_property_name pg \<notin> fs_property_name ` set pgs"
    using Cons.prems(1) by auto
  have rest: "\<forall>pg\<in>set pgs. \<exists>x. getattr obj (fs_field_name pg) = Inr x
            \<and> (x = VNone \<or> (\<exists>j. gen (fs_generator pg) x = Inr j))"
    using Cons.prems(2) by simp
  from Cons.IH[OF dist(1) rest, of d1]
  obtain d where d: "foldE (\<lambda>pg d. generate_field_with gen pg obj d) pgs d1 = Inr d"
     "fst ` set d \<subseteq> fst ` set d1 \<union> VStr ` fs_property_name ` set pgs"
     "\<forall>k. k \<notin> VStr ` fs_property_name ` set pgs \<longrightarrow> dict_get d k = dict_get d1 k"
     "\<forall>pg\<in>set pgs. \<forall>x. getattr obj (fs_field_name pg) = Inr x \<longrightarrow>
           dict_get d (VStr (fs_property_name pg))
           = (if x = VNone then dict_get d1 (VStr (fs_property_name pg))
              else Some (projr (gen (fs_generator pg) x)))"
    by blast
  have keys1: "fst ` set d1 \<subseteq> insert (VStr (fs_property_name pg)) (fst ` set d0)"
    using keys_dict_set[of d0 "VStr (fs_property_name pg)" j] by (auto simp: d1_def)
  have get1: "dict_get d1 k = (if k = VStr (fs_property_name pg) \<and> x \<noteq> VNone then Some j
                               else dict_get d0 k)" for k
    by (simp add: d1_def dict_get_dict_set_str)
  have a: "foldE (\<lambda>pg d. generate_field_with gen pg obj d) (pg # pgs) d0 = Inr d"
    using step d(1) by simp
  have b: "fst ` set d \<subseteq> fst ` set d0 \<union> VStr ` fs_property_name ` set (pg # pgs)"
    using d(2) keys1 by auto
  have c: "\<forall>k. k \<notin> VStr ` fs_property_name ` set (pg # pgs) \<longrightarrow> dict_get d k = dict_get d0 k"
    using d(3) get1 by auto
  have e: "\<forall>pg'\<in>set (pg # pgs). \<forall>x'. getattr obj (fs_field_name pg') = Inr x' \<longrightarrow>
           dict_get d (VStr (fs_property_name pg'))
           = (if x' = VNone then dict_get d0 (VStr (fs_property_name pg'))
              else Some (projr (gen (fs_generator pg') x')))"
  proof (intro ballI allI impI)
    fix pg' x'
    assume mem: "pg' \<in> set (pg # pgs)" and g: "getattr obj (fs_field_name pg') = Inr x'"
    show "dict_get d (VStr (fs_property_name pg'))
           = (if x' = VNone then dict_get d0 (VStr (fs_property_name pg'))
              else Some (projr (gen (fs_generator pg') x')))"
    proof (cases "pg' \<in> set pgs")
      case True
      then have ne: "fs_property_name pg' \<noteq> fs_property_name pg" using dist(2) by (metis imageI)
      show ?thesis using d(4) True g get1[of "VStr (fs_property_name pg')"] ne by auto
    next
      case False
      then have eq: "pg' = pg" using mem by simp
      then have xx: "x' = x" using g x(1) by simp
      have "VStr (fs_property_name pg) \<notin> VStr ` fs_property_name ` set pgs"
        using dist(2) by auto
      then have "dict_get d (VStr (fs_property_name pg)) = dict_get d1 (VStr (fs_property_name pg))"
        using d(3) by blast
      then show ?thesis using eq xx get1[of "VStr (fs_property_name pg)"] j_def by simp
    qed
  qed
  show ?case using a b c e by blast
qed


lemma parse_fields_result:
  assumes "\<forall>fd\<in>set pps. \<exists>x. parse_field_with par L fd od = Inr x"
  shows "foldE (\<lambda>pp (fv, pr). case parse_field_with par L pp od of
                           Inl e \<Rightarrow> Inl e
                         | Inr v \<Rightarrow> Inr (attr_set fv (field_name pp) v, pr @ [property_name pp]))
         pps (fv0, pr0)
       = Inr (foldl (\<lambda>a fd. attr_set a (field_name fd) (projr (parse_field_with par L fd od))) fv0 pps,
              pr0 @ map property_name pps)"
  using assms
proof (induction pps arbitrary: fv0 pr0)
  case Nil
  then show ?case by simp
next
  case (Cons pp pps)
  then obtain x where x: "parse_field_with par L pp od = Inr x" by auto
  have rest: "\<forall>fd\<in>set pps. \<exists>x. parse_field_with par L fd od = Inr x" using Cons.prems by simp
  show ?case using Cons.IH[OF rest, of "attr_set fv0 (field_name pp) x" "pr0 @ [property_name pp]"] x
    by simp
qed

lemma attr_set_append: "n \<notin> fst ` set a \<Longrightarrow> attr_set a n v = a @ [(n, v)]"
  by (induction a) auto

lemma foldl_attr_set_distinct:
  assumes "distinct (map fst kvs)" "fst ` set a0 \<inter> fst ` set kvs = {}"
  shows "foldl (\<lambda>a (n, v). attr_set a n v) a0 kvs = a0 @ kvs"
  using assms
proof (induction kvs arbitrary: a0)
  case Nil
  then show ?case by simp
next
  case (Cons kv kvs)
  obtain n v where kv: "kv = (n, v)" by (cases kv)
  have n: "n \<notin> fst ` set a0" using Cons.prems(2) kv by auto
  have d: "distinct (map fst kvs)" "n \<notin> fst ` set kvs" using Cons.prems(1) kv by auto
  have "fst ` set (a0 @ [(n, v)]) \<inter> fst ` set kvs = {}"
    using Cons.prems(2) d(2) kv by auto
  from Cons.IH[OF d(1) this] show ?case using kv attr_set_append[OF n] by simp
qed

lemma foldl_attr_set_fields:
  "foldl (\<lambda>a fd. attr_set a (field_name fd) (F fd)) a0 pps
   = foldl (\<lambda>a (n, v). attr_set a n v) a0 (map (\<lambda>fd. (field_name fd, F fd)) pps)"
  by (induction pps arbitrary: a0) auto

lemma unassigned_names_empty:
  "fst ` set od \<subseteq> VStr ` set names \<Longrightarrow> unassigned_names names od = []"
  by (auto simp: unassigned_names_def filter_empty_conv)

lemma class_parse_with_result:
  assumes ok: "\<forall>fd\<in>set pps. \<exists>x. parse_field_with par L fd od = Inr x"
    and keys: "fst ` set od \<subseteq> VStr ` property_name ` set pps"
    and names: "distinct (map field_name pps)"
  shows "class_parse_with par L create ct pps (VDict od)
         = create ct (map (\<lambda>fd. (field_name fd, projr (parse_field_with par L fd od))) pps)"
proof -
  have u: "unassigned_names (map property_name pps) od = []"
    using keys by (intro unassigned_names_empty) simp
  have d: "distinct (map fst (map (\<lambda>fd. (field_name fd, projr (parse_field_with par L fd od))) pps))"
    using names by (simp add: comp_def)
  have fv: "foldl (\<lambda>a fd. attr_set a (field_name fd) (projr (parse_field_with par L fd od))) [] pps
      = map (\<lambda>fd. (field_name fd, projr (parse_field_with par L fd od))) pps"
    using foldl_attr_set_distinct[OF d, of "[]"]
    by (simp add: foldl_attr_set_fields)
  show ?thesis
    using parse_fields_result[OF ok, of "[]" "[]"] u fv
    by (simp add: class_parse_with_def)
qed

lemma create_instance_distinct:
  "distinct (map fst attrs) \<Longrightarrow> \<not> is_frozen c \<Longrightarrow>
   create_instance (TClass c) attrs = Inr (VObject c attrs)"
  using foldl_attr_set_distinct[of attrs "[]"]
  by (cases attrs) (auto simp: create_instance_def)


definition field_serializer_of ::
  "string \<times> pytype \<times> pyval default_src \<Rightarrow> error + field_serializer" where
  "field_serializer_of = (\<lambda>(field_name, field_type, d).
     case create_serializer field_type of
       Inl e \<Rightarrow> Inl e
     | Inr g \<Rightarrow>
         Inr (FieldSerializer field_name
               (python_field_to_json_property field_name (Some field_type)) g))"

definition typed_class_field_parser ::
  "string \<times> pytype \<times> pyval default_src \<Rightarrow> error + field_deserializer" where
  "typed_class_field_parser = (\<lambda>(field_name, field_type, d).
     case required_type_of field_type of
       Inl e \<Rightarrow> Inl e
     | Inr required_type \<Rightarrow>
         (case create_deserializer required_type of
            Inl e \<Rightarrow> Inl e
          | Inr p \<Rightarrow>
              (let pn = python_field_to_json_property field_name (Some field_type)
               in Inr (if is_type_optional field_type
                       then OptionalFieldDeserializer pn field_name p
                       else RequiredFieldDeserializer pn field_name p))))"

definition declared_default :: "pyval class_kind \<Rightarrow> pyval default_src \<Rightarrow> pyval default_src" where
  "declared_default k d = (case k of DataClass fz \<Rightarrow> d | _ \<Rightarrow> NoDefault)"

definition null_restored :: "pylib \<Rightarrow> pyval class_kind \<Rightarrow> pytype \<Rightarrow> pyval default_src \<Rightarrow> bool" where
  "null_restored L k t d =
     (case declared_default k d of
        DefaultValue dv \<Rightarrow> dv = VNone
      | DefaultFactory fa \<Rightarrow> call_factory L fa = VNone
      | NoDefault \<Rightarrow> is_type_optional t)"

definition field_codec_round_trips :: "pylib \<Rightarrow> pytype \<Rightarrow> pyval \<Rightarrow> bool" where
  "field_codec_round_trips L t x =
     (case create_serializer t of
        Inl e \<Rightarrow> False
      | Inr g \<Rightarrow>
          (case required_type_of t of
             Inl e \<Rightarrow> False
           | Inr r \<Rightarrow>
               (case create_deserializer r of
                  Inl e \<Rightarrow> False
                | Inr p \<Rightarrow>
                    (case generate L g x of
                       Inl e \<Rightarrow> False
                     | Inr j \<Rightarrow> j \<noteq> VNone \<and> parse L p j = Inr x))))"

definition field_round_trips ::
  "pylib \<Rightarrow> pyval class_kind \<Rightarrow> string \<times> pytype \<times> pyval default_src \<Rightarrow> pyval \<Rightarrow> bool" where
  "field_round_trips L k fld x =
     (case fld of (f, t, d) \<Rightarrow>
        if x = VNone then null_restored L k t d else field_codec_round_trips L t x)"

lemma create_serializer_record:
  assumes "k = DataClass False \<or> (k = PlainClass \<and> h \<noteq> [])"
    and "create_serializer (TClass (PyClass n k h None fj)) = Inr S"
  shows "\<exists>pgs. mapE field_serializer_of h = Inr pgs
           \<and> (S = DataclassSerializer pgs \<or> S = TypedClassSerializer pgs)"
  using assms by (auto simp: field_serializer_of_def split: sum.splits)

lemma create_deserializer_record:
  assumes "k = DataClass False \<or> k = PlainClass"
    and "create_deserializer (TClass (PyClass n k h tj None)) = Inr D"
  shows "\<exists>pps. mapE (if k = DataClass False then dataclass_field_parser else typed_class_field_parser) h = Inr pps
           \<and> (D = DataclassDeserializer (TClass (PyClass n k h tj None)) pps
              \<or> D = TypedClassDeserializer (TClass (PyClass n k h tj None)) pps)"
  using assms
  by (auto simp: dataclass_field_parser_def typed_class_field_parser_def split: sum.splits)

lemma record_field_parser_shape:
  assumes "(if k = DataClass False then dataclass_field_parser else typed_class_field_parser) (f, t, d) = Inr fd"
    and "k = DataClass False \<or> k = PlainClass"
  shows "\<exists>r p. required_type_of t = Inr r \<and> create_deserializer r = Inr p
     \<and> fd = (case declared_default k d of
               DefaultValue dv \<Rightarrow>
                 DefaultFieldDeserializer (python_field_to_json_property f (Some t)) f p dv
             | DefaultFactory fa \<Rightarrow>
                 DefaultFactoryFieldDeserializer (python_field_to_json_property f (Some t)) f p fa
             | NoDefault \<Rightarrow>
                 if is_type_optional t
                 then OptionalFieldDeserializer (python_field_to_json_property f (Some t)) f p
                 else RequiredFieldDeserializer (python_field_to_json_property f (Some t)) f p)"
  using assms
  by (auto simp: dataclass_field_parser_def typed_class_field_parser_def declared_default_def Let_def
           split: sum.splits if_splits)

lemma attr_get_nth:
  "distinct (map fst a) \<Longrightarrow> i < length a \<Longrightarrow> attr_get a (fst (a ! i)) = Some (snd (a ! i))"
proof (induction a arbitrary: i)
  case Nil
  then show ?case by simp
next
  case (Cons kv a)
  obtain n v where kv: "kv = (n, v)" by (cases kv)
  show ?case
  proof (cases i)
    case 0
    then show ?thesis using kv by simp
  next
    case (Suc m)
    then have m: "m < length a" using Cons.prems(2) by simp
    then have "fst (a ! m) \<in> fst ` set a" by (metis imageI nth_mem)
    then have "n \<noteq> fst (a ! m)" using Cons.prems(1) kv by auto
    then show ?thesis using Cons.IH[of m] Cons.prems(1) m Suc kv by simp
  qed
qed


definition external_name :: "string \<times> pytype \<times> pyval default_src \<Rightarrow> string" where
  "external_name = (\<lambda>(f, t, d). python_field_to_json_property f (Some t))"

text \<open>
  The round trip of one record, field by field: it holds when every field that is None is
  restored as None and every other field value round-trips through the codecs of its
  field, to a JSON value other than null.
\<close>

lemma record_round_trip_fields:
  assumes kind: "k = DataClass False \<or> (k = PlainClass \<and> h \<noteq> [])"
    and S: "create_serializer (TClass (PyClass n k h None None)) = Inr S"
    and D: "create_deserializer (TClass (PyClass n k h None None)) = Inr D"
    and names: "distinct (map fst h)"
    and pnames: "distinct (map external_name h)"
    and attrs: "map fst attrs = map fst h"
    and fields: "\<forall>i<length h. field_round_trips L k (h ! i) (snd (attrs ! i))"
  shows "\<exists>j. generate L S (VObject (PyClass n k h None None) attrs) = Inr j
           \<and> parse L D j = Inr (VObject (PyClass n k h None None) attrs)"
proof -
  let ?c = "PyClass n k h None None"
  let ?v = "VObject ?c attrs"
  let ?fp = "if k = DataClass False then dataclass_field_parser else typed_class_field_parser"
  have k2: "k = DataClass False \<or> k = PlainClass" using kind by auto
  obtain pgs where pgs: "mapE field_serializer_of h = Inr pgs"
      and Sshape: "S = DataclassSerializer pgs \<or> S = TypedClassSerializer pgs"
    using create_serializer_record[OF kind S] by blast
  obtain pps where pps: "mapE ?fp h = Inr pps"
      and Dshape: "D = DataclassDeserializer (TClass ?c) pps \<or> D = TypedClassDeserializer (TClass ?c) pps"
    using create_deserializer_record[OF k2 D] by blast
  have len: "length pgs = length h" "length pps = length h" "length attrs = length h"
    using mapE_length[OF pgs] mapE_length[OF pps] attrs by (auto dest: map_eq_imp_length_eq)
  have dattrs: "distinct (map fst attrs)" using names attrs by simp
  have pg_i: "\<exists>g. pgs ! i = FieldSerializer f (python_field_to_json_property f (Some t)) g
                \<and> create_serializer t = Inr g"
    if "i < length h" "h ! i = (f, t, d)" for i f t d
  proof -
    have "field_serializer_of (f, t, d) = Inr (pgs ! i)" using mapE_nth[OF pgs that(1)] that(2) by simp
    then show ?thesis by (auto simp: field_serializer_of_def split: sum.splits)
  qed
  have pp_i: "\<exists>r p. required_type_of t = Inr r \<and> create_deserializer r = Inr p
     \<and> pps ! i = (case declared_default k d of
               DefaultValue dv \<Rightarrow>
                 DefaultFieldDeserializer (python_field_to_json_property f (Some t)) f p dv
             | DefaultFactory fa \<Rightarrow>
                 DefaultFactoryFieldDeserializer (python_field_to_json_property f (Some t)) f p fa
             | NoDefault \<Rightarrow>
                 if is_type_optional t
                 then OptionalFieldDeserializer (python_field_to_json_property f (Some t)) f p
                 else RequiredFieldDeserializer (python_field_to_json_property f (Some t)) f p)"
    if "i < length h" "h ! i = (f, t, d)" for i f t d
  proof -
    have "?fp (f, t, d) = Inr (pps ! i)" using mapE_nth[OF pps that(1)] that(2) by simp
    from record_field_parser_shape[OF this k2] show ?thesis .
  qed
  have pp_names: "property_name (pps ! i) = external_name (h ! i) \<and> field_name (pps ! i) = fst (h ! i)"
    if i: "i < length h" for i
  proof -
    obtain f t d where hi: "h ! i = (f, t, d)" by (cases "h ! i")
    obtain r p where "pps ! i = (case declared_default k d of
               DefaultValue dv \<Rightarrow>
                 DefaultFieldDeserializer (python_field_to_json_property f (Some t)) f p dv
             | DefaultFactory fa \<Rightarrow>
                 DefaultFactoryFieldDeserializer (python_field_to_json_property f (Some t)) f p fa
             | NoDefault \<Rightarrow>
                 if is_type_optional t
                 then OptionalFieldDeserializer (python_field_to_json_property f (Some t)) f p
                 else RequiredFieldDeserializer (python_field_to_json_property f (Some t)) f p)"
      using pp_i[OF i hi] by blast
    then show ?thesis using hi
      by (cases "declared_default k d") (auto simp: external_name_def)
  qed
  have pg_names: "fs_property_name (pgs ! i) = external_name (h ! i)
                  \<and> fs_field_name (pgs ! i) = fst (h ! i)"
    if "i < length h" for i
  proof -
    obtain f t d where hi: "h ! i = (f, t, d)" by (cases "h ! i")
    show ?thesis using pg_i[OF that hi] hi by (auto simp: external_name_def)
  qed
  have get_i: "getattr ?v (fst (h ! i)) = Inr (snd (attrs ! i))" if "i < length h" for i
  proof -
    have "fst (attrs ! i) = fst (h ! i)"
      using attrs that len(3) by (metis nth_map)
    then show ?thesis using attr_get_nth[OF dattrs, of i] that len(3) by (simp add: getattr_def)
  qed
  have pg_pnames: "map fs_property_name pgs = map external_name h"
    by (rule nth_equalityI) (use len pg_names in auto)
  have pp_pnames: "map property_name pps = map external_name h"
    by (rule nth_equalityI) (use len pp_names in auto)
  have pp_fnames: "map field_name pps = map fst h"
    by (rule nth_equalityI) (use len pp_names in auto)
  have ser_ok: "\<forall>pg\<in>set pgs. \<exists>x. getattr ?v (fs_field_name pg) = Inr x
            \<and> (x = VNone \<or> (\<exists>j. generate L (fs_generator pg) x = Inr j))"
  proof
    fix pg assume "pg \<in> set pgs"
    then obtain i where i: "i < length h" "pg = pgs ! i" using len(1) by (metis in_set_conv_nth)
    obtain f t d where hi: "h ! i = (f, t, d)" by (cases "h ! i")
    obtain g where g: "pgs ! i = FieldSerializer f (python_field_to_json_property f (Some t)) g"
        "create_serializer t = Inr g"
      using pg_i[OF i(1) hi] by blast
    have "field_round_trips L k (f, t, d) (snd (attrs ! i))" using fields i(1) hi by auto
    then have "snd (attrs ! i) = VNone \<or> (\<exists>j. generate L g (snd (attrs ! i)) = Inr j)"
      using g(2)
      by (auto simp: field_round_trips_def field_codec_round_trips_def split: sum.splits if_splits)
    then show "\<exists>x. getattr ?v (fs_field_name pg) = Inr x
            \<and> (x = VNone \<or> (\<exists>j. generate L (fs_generator pg) x = Inr j))"
      using get_i[OF i(1)] i(2) g(1) hi by auto
  qed
  have dpg: "distinct (map fs_property_name pgs)" using pnames pg_pnames by simp
  from generate_fields_result[OF dpg ser_ok, of "[]"]
  obtain od where od: "foldE (\<lambda>pg d. generate_field_with (generate L) pg ?v d) pgs [] = Inr od"
     and od_keys: "fst ` set od \<subseteq> VStr ` fs_property_name ` set pgs"
     and od_get: "\<forall>pg\<in>set pgs. \<forall>x. getattr ?v (fs_field_name pg) = Inr x \<longrightarrow>
           dict_get od (VStr (fs_property_name pg))
           = (if x = VNone then None else Some (projr (generate L (fs_generator pg) x)))"
    by auto
  have gen: "generate L S ?v = Inr (VDict od)"
    using Sshape od by (auto simp: typed_class_generate_with_def)
  have field_i: "parse_field_with (parse L) L (pps ! i) od = Inr (snd (attrs ! i))"
    if i: "i < length h" for i
  proof -
    obtain f t d where hi: "h ! i = (f, t, d)" by (cases "h ! i")
    let ?p = "python_field_to_json_property f (Some t)"
    obtain g where g: "pgs ! i = FieldSerializer f ?p g" "create_serializer t = Inr g"
      using pg_i[OF i hi] by auto
    obtain r p where rp: "required_type_of t = Inr r" "create_deserializer r = Inr p"
      and shape: "pps ! i = (case declared_default k d of
               DefaultValue dv \<Rightarrow> DefaultFieldDeserializer ?p f p dv
             | DefaultFactory fa \<Rightarrow> DefaultFactoryFieldDeserializer ?p f p fa
             | NoDefault \<Rightarrow>
                 if is_type_optional t
                 then OptionalFieldDeserializer ?p f p
                 else RequiredFieldDeserializer ?p f p)"
      using pp_i[OF i hi] by auto
    have mem: "pgs ! i \<in> set pgs" using i len(1) by simp
    have look: "dict_get od (VStr ?p)
           = (if snd (attrs ! i) = VNone then None
              else Some (projr (generate L g (snd (attrs ! i)))))"
      using od_get[rule_format, OF mem, of "snd (attrs ! i)"] get_i[OF i] g(1) hi by simp
    have frt: "field_round_trips L k (f, t, d) (snd (attrs ! i))" using fields i hi by auto
    show ?thesis
    proof (cases "snd (attrs ! i) = VNone")
      case True
      then have nr: "null_restored L k t d" using frt by (simp add: field_round_trips_def)
      have "dict_get_default od (VStr ?p) = VNone"
        using look True by (simp add: dict_get_default_def)
      then show ?thesis using nr True shape look
        by (cases "declared_default k d")
           (auto simp: null_restored_def parse_field_with_def Let_def)
    next
      case False
      then have "field_codec_round_trips L t (snd (attrs ! i))"
        using frt by (simp add: field_round_trips_def)
      then obtain j where j: "generate L g (snd (attrs ! i)) = Inr j" "j \<noteq> VNone"
          "parse L p j = Inr (snd (attrs ! i))"
        using g(2) rp by (auto simp: field_codec_round_trips_def split: sum.splits)
      have l: "dict_get od (VStr ?p) = Some j" using look False j(1) by simp
      then have "dict_get_default od (VStr ?p) = j" by (simp add: dict_get_default_def)
      then show ?thesis using l j(2,3) shape
        by (cases "declared_default k d") (auto simp: parse_field_with_def Let_def)
    qed
  qed
  have par_ok: "\<forall>fd\<in>set pps. \<exists>x. parse_field_with (parse L) L fd od = Inr x"
  proof
    fix fd assume "fd \<in> set pps"
    then obtain i where "i < length h" "fd = pps ! i" using len(2) by (metis in_set_conv_nth)
    then show "\<exists>x. parse_field_with (parse L) L fd od = Inr x" using field_i by auto
  qed
  have keys: "fst ` set od \<subseteq> VStr ` property_name ` set pps"
  proof -
    have "set (map fs_property_name pgs) = set (map property_name pps)"
      using pg_pnames pp_pnames by simp
    then have "fs_property_name ` set pgs = property_name ` set pps" by simp
    then show ?thesis using od_keys by simp
  qed
  have dfn: "distinct (map field_name pps)" using names pp_fnames by simp
  have vals: "map (\<lambda>fd. (field_name fd, projr (parse_field_with (parse L) L fd od))) pps = attrs"
  proof (rule nth_equalityI)
    show "length (map (\<lambda>fd. (field_name fd, projr (parse_field_with (parse L) L fd od))) pps)
          = length attrs"
      using len by simp
  next
    fix i assume "i < length (map (\<lambda>fd. (field_name fd, projr (parse_field_with (parse L) L fd od))) pps)"
    then have i: "i < length h" using len by simp
    have "fst (attrs ! i) = fst (h ! i)" using attrs i len(3) by (metis nth_map)
    then show "map (\<lambda>fd. (field_name fd, projr (parse_field_with (parse L) L fd od))) pps ! i
               = attrs ! i"
      using i len(2) field_i[OF i] pp_names[OF i] by (simp add: prod_eq_iff)
  qed
  have "class_parse_with (parse L) L create_instance (TClass ?c) pps (VDict od)
        = create_instance (TClass ?c) attrs"
    using class_parse_with_result[OF par_ok keys dfn, of create_instance "TClass ?c"] vals by simp
  then have "parse L D (VDict od) = Inr ?v"
    using Dshape create_instance_distinct[OF dattrs, of ?c] kind by auto
  then show ?thesis using gen by blast
qed

subsection \<open>Named tuples, field by field\<close>

text \<open>
  The field parser that NamedTupleDeserializer builds: every field is required, under
  its own name, with the deserializer of the field's whole type.
\<close>

definition named_tuple_field_parser ::
  "string \<times> pytype \<times> pyval default_src \<Rightarrow> error + field_deserializer" where
  "named_tuple_field_parser = (\<lambda>(field_name, field_type, d).
     case create_deserializer field_type of
       Inl e \<Rightarrow> Inl e
     | Inr p \<Rightarrow> Inr (RequiredFieldDeserializer field_name field_name p))"

text \<open>
  A field of a named tuple round-trips: its value is not None, its property name is its
  own name, and the codecs of its type write the value and parse it back.
\<close>

definition tuple_field_round_trips ::
  "pylib \<Rightarrow> string \<times> pytype \<times> pyval default_src \<Rightarrow> pyval \<Rightarrow> bool" where
  "tuple_field_round_trips L fld x =
     (case fld of (f, t, d) \<Rightarrow>
        x \<noteq> VNone \<and> python_field_to_json_property f (Some t) = f
        \<and> (case create_serializer t of
             Inl e \<Rightarrow> False
           | Inr g \<Rightarrow>
               (case create_deserializer t of
                  Inl e \<Rightarrow> False
                | Inr p \<Rightarrow>
                    (case generate L g x of
                       Inl e \<Rightarrow> False
                     | Inr j \<Rightarrow> parse L p j = Inr x))))"

lemma create_serializer_named_tuple:
  assumes "h \<noteq> []"
    and "create_serializer (TClass (PyClass n (NamedTupleClass fs) h None fj)) = Inr S"
  shows "\<exists>pgs. mapE field_serializer_of h = Inr pgs \<and> S = TypedNamedTupleSerializer pgs"
  using assms by (auto simp: field_serializer_of_def split: sum.splits)

lemma create_deserializer_named_tuple:
  assumes "create_deserializer (TClass (PyClass n (NamedTupleClass fs) h tj fj)) = Inr D"
  shows "\<exists>pps. mapE named_tuple_field_parser h = Inr pps
           \<and> D = NamedTupleDeserializer (TClass (PyClass n (NamedTupleClass fs) h tj fj)) pps"
  using assms by (auto simp: named_tuple_field_parser_def split: sum.splits)

lemma create_named_tuple_distinct:
  assumes "distinct (map fst attrs)"
  shows "create_named_tuple (TClass (PyClass n (NamedTupleClass (map fst attrs)) h tj fj)) attrs
         = Inr (VObject (PyClass n (NamedTupleClass (map fst attrs)) h tj fj) attrs)"
proof -
  have "map (\<lambda>f. (f, case attr_get attrs f of Some v \<Rightarrow> v | None \<Rightarrow> VNone)) (map fst attrs) = attrs"
  proof (rule nth_equalityI)
    show "length (map (\<lambda>f. (f, case attr_get attrs f of Some v \<Rightarrow> v | None \<Rightarrow> VNone))
                    (map fst attrs)) = length attrs"
      by simp
  next
    fix i
    assume "i < length (map (\<lambda>f. (f, case attr_get attrs f of Some v \<Rightarrow> v | None \<Rightarrow> VNone))
                          (map fst attrs))"
    then have i: "i < length attrs" by simp
    show "map (\<lambda>f. (f, case attr_get attrs f of Some v \<Rightarrow> v | None \<Rightarrow> VNone)) (map fst attrs) ! i
          = attrs ! i"
      using attr_get_nth[OF assms i] i by (simp add: prod_eq_iff)
  qed
  then show ?thesis by (simp add: create_named_tuple_def)
qed

lemma named_tuple_round_trip_fields:
  assumes nonempty: "h \<noteq> []"
    and S: "create_serializer (TClass (PyClass n (NamedTupleClass (map fst h)) h None None)) = Inr S"
    and D: "create_deserializer (TClass (PyClass n (NamedTupleClass (map fst h)) h None None)) = Inr D"
    and names: "distinct (map fst h)"
    and attrs: "map fst attrs = map fst h"
    and fields: "\<forall>i<length h. tuple_field_round_trips L (h ! i) (snd (attrs ! i))"
  shows "\<exists>j. generate L S (VObject (PyClass n (NamedTupleClass (map fst h)) h None None) attrs) = Inr j
           \<and> j \<noteq> VNone
           \<and> parse L D j = Inr (VObject (PyClass n (NamedTupleClass (map fst h)) h None None) attrs)"
proof -
  let ?c = "PyClass n (NamedTupleClass (map fst h)) h None None"
  let ?v = "VObject ?c attrs"
  obtain pgs where pgs: "mapE field_serializer_of h = Inr pgs"
      and Sshape: "S = TypedNamedTupleSerializer pgs"
    using create_serializer_named_tuple[OF nonempty S] by blast
  obtain pps where pps: "mapE named_tuple_field_parser h = Inr pps"
      and Dshape: "D = NamedTupleDeserializer (TClass ?c) pps"
    using create_deserializer_named_tuple[OF D] by blast
  have len: "length pgs = length h" "length pps = length h" "length attrs = length h"
    using mapE_length[OF pgs] mapE_length[OF pps] attrs by (auto dest: map_eq_imp_length_eq)
  have dattrs: "distinct (map fst attrs)" using names attrs by simp
  have fld_i: "snd (attrs ! i) \<noteq> VNone \<and> python_field_to_json_property f (Some t) = f
      \<and> (\<exists>g p j. create_serializer t = Inr g \<and> create_deserializer t = Inr p
             \<and> generate L g (snd (attrs ! i)) = Inr j \<and> parse L p j = Inr (snd (attrs ! i)))"
    if "i < length h" "h ! i = (f, t, d)" for i f t d
  proof -
    have "tuple_field_round_trips L (f, t, d) (snd (attrs ! i))"
      using fields[rule_format, OF that(1)] that(2) by simp
    then show ?thesis by (auto simp: tuple_field_round_trips_def split: sum.splits)
  qed
  have pg_i: "pgs ! i = FieldSerializer f f (projr (create_serializer t))
              \<and> create_serializer t = Inr (projr (create_serializer t))"
    if "i < length h" "h ! i = (f, t, d)" for i f t d
  proof -
    have "field_serializer_of (f, t, d) = Inr (pgs ! i)" using mapE_nth[OF pgs that(1)] that(2) by simp
    then show ?thesis using fld_i[OF that]
      by (auto simp: field_serializer_of_def split: sum.splits)
  qed
  have pp_i: "pps ! i = RequiredFieldDeserializer f f (projr (create_deserializer t))
              \<and> create_deserializer t = Inr (projr (create_deserializer t))"
    if "i < length h" "h ! i = (f, t, d)" for i f t d
  proof -
    have "named_tuple_field_parser (f, t, d) = Inr (pps ! i)"
      using mapE_nth[OF pps that(1)] that(2) by simp
    then show ?thesis by (auto simp: named_tuple_field_parser_def split: sum.splits)
  qed
  have pp_names: "property_name (pps ! i) = fst (h ! i) \<and> field_name (pps ! i) = fst (h ! i)"
    if i: "i < length h" for i
  proof -
    obtain f t d where hi: "h ! i = (f, t, d)" by (cases "h ! i")
    show ?thesis using pp_i[OF i hi] hi by simp
  qed
  have pg_names: "fs_property_name (pgs ! i) = fst (h ! i) \<and> fs_field_name (pgs ! i) = fst (h ! i)"
    if i: "i < length h" for i
  proof -
    obtain f t d where hi: "h ! i = (f, t, d)" by (cases "h ! i")
    show ?thesis using pg_i[OF i hi] hi by simp
  qed
  have get_i: "getattr ?v (fst (h ! i)) = Inr (snd (attrs ! i))" if "i < length h" for i
  proof -
    have "fst (attrs ! i) = fst (h ! i)"
      using attrs that len(3) by (metis nth_map)
    then show ?thesis using attr_get_nth[OF dattrs, of i] that len(3) by (simp add: getattr_def)
  qed
  have pg_pnames: "map fs_property_name pgs = map fst h"
    by (rule nth_equalityI) (use len pg_names in auto)
  have pp_pnames: "map property_name pps = map fst h"
    by (rule nth_equalityI) (use len pp_names in auto)
  have pp_fnames: "map field_name pps = map fst h"
    by (rule nth_equalityI) (use len pp_names in auto)
  have ser_ok: "\<forall>pg\<in>set pgs. \<exists>x. getattr ?v (fs_field_name pg) = Inr x
            \<and> (x = VNone \<or> (\<exists>j. generate L (fs_generator pg) x = Inr j))"
  proof
    fix pg assume "pg \<in> set pgs"
    then obtain i where i: "i < length h" "pg = pgs ! i" using len(1) by (metis in_set_conv_nth)
    obtain f t d where hi: "h ! i = (f, t, d)" by (cases "h ! i")
    have "\<exists>j. generate L (fs_generator (pgs ! i)) (snd (attrs ! i)) = Inr j"
      using pg_i[OF i(1) hi] fld_i[OF i(1) hi] by auto
    then show "\<exists>x. getattr ?v (fs_field_name pg) = Inr x
            \<and> (x = VNone \<or> (\<exists>j. generate L (fs_generator pg) x = Inr j))"
      using get_i[OF i(1)] i(2) pg_names[OF i(1)] by auto
  qed
  have dpg: "distinct (map fs_property_name pgs)" using names pg_pnames by simp
  from generate_fields_result[OF dpg ser_ok, of "[]"]
  obtain od where od: "foldE (\<lambda>pg d. generate_field_with (generate L) pg ?v d) pgs [] = Inr od"
     and od_keys: "fst ` set od \<subseteq> VStr ` fs_property_name ` set pgs"
     and od_get: "\<forall>pg\<in>set pgs. \<forall>x. getattr ?v (fs_field_name pg) = Inr x \<longrightarrow>
           dict_get od (VStr (fs_property_name pg))
           = (if x = VNone then None else Some (projr (generate L (fs_generator pg) x)))"
    by auto
  have gen: "generate L S ?v = Inr (VDict od)"
    using Sshape od by (auto simp: typed_class_generate_with_def)
  have field_i: "parse_field_with (parse L) L (pps ! i) od = Inr (snd (attrs ! i))"
    if i: "i < length h" for i
  proof -
    obtain f t d where hi: "h ! i = (f, t, d)" by (cases "h ! i")
    obtain g p j where gpj: "create_serializer t = Inr g" "create_deserializer t = Inr p"
        "generate L g (snd (attrs ! i)) = Inr j" "parse L p j = Inr (snd (attrs ! i))"
        and nn: "snd (attrs ! i) \<noteq> VNone"
      using fld_i[OF i hi] by blast
    have pgi: "pgs ! i = FieldSerializer f f g" using pg_i[OF i hi] gpj(1) by simp
    have ppi: "pps ! i = RequiredFieldDeserializer f f p" using pp_i[OF i hi] gpj(2) by simp
    have mem: "pgs ! i \<in> set pgs" using i len(1) by simp
    have look: "dict_get od (VStr f) = Some j"
      using od_get[rule_format, OF mem, of "snd (attrs ! i)"] get_i[OF i] pgi hi nn gpj(3) by simp
    show ?thesis using look ppi gpj(4) by (simp add: parse_field_with_def)
  qed
  have par_ok: "\<forall>fd\<in>set pps. \<exists>x. parse_field_with (parse L) L fd od = Inr x"
  proof
    fix fd assume "fd \<in> set pps"
    then obtain i where "i < length h" "fd = pps ! i" using len(2) by (metis in_set_conv_nth)
    then show "\<exists>x. parse_field_with (parse L) L fd od = Inr x" using field_i by auto
  qed
  have keys: "fst ` set od \<subseteq> VStr ` property_name ` set pps"
  proof -
    have "set (map fs_property_name pgs) = set (map property_name pps)"
      using pg_pnames pp_pnames by simp
    then have "fs_property_name ` set pgs = property_name ` set pps" by simp
    then show ?thesis using od_keys by simp
  qed
  have dfn: "distinct (map field_name pps)" using names pp_fnames by simp
  have vals: "map (\<lambda>fd. (field_name fd, projr (parse_field_with (parse L) L fd od))) pps = attrs"
  proof (rule nth_equalityI)
    show "length (map (\<lambda>fd. (field_name fd, projr (parse_field_with (parse L) L fd od))) pps)
          = length attrs"
      using len by simp
  next
    fix i assume "i < length (map (\<lambda>fd. (field_name fd, projr (parse_field_with (parse L) L fd od))) pps)"
    then have i: "i < length h" using len by simp
    have "fst (attrs ! i) = fst (h ! i)" using attrs i len(3) by (metis nth_map)
    then show "map (\<lambda>fd. (field_name fd, projr (parse_field_with (parse L) L fd od))) pps ! i
               = attrs ! i"
      using i len(2) field_i[OF i] pp_names[OF i] by (simp add: prod_eq_iff)
  qed
  have "class_parse_with (parse L) L create_named_tuple (TClass ?c) pps (VDict od)
        = create_named_tuple (TClass ?c) attrs"
    using class_parse_with_result[OF par_ok keys dfn, of create_named_tuple "TClass ?c"] vals by simp
  moreover have "create_named_tuple (TClass ?c) attrs = Inr ?v"
    using create_named_tuple_distinct[OF dattrs, of n h None None] attrs by simp
  ultimately have "parse L D (VDict od) = Inr ?v"
    using Dshape by simp
  then show ?thesis using gen by blast
qed

text \<open>
  The deserializer of an optional type given a JSON value other than null: the parser of
  None refuses it with a JsonTypeError, which the union loop catches, and the parser of
  the one other member decides.
\<close>

lemma union_loop_optional:
  assumes "filter (\<lambda>item. item \<noteq> TNoneType) args = [a]"
    and "mapE create_deserializer args = Inr ps"
    and "create_deserializer a = Inr p" "parse L p j = Inr x" "j \<noteq> VNone"
  shows "union_loop (\<lambda>member_parser. parse L member_parser j) ps no_match = Inr x"
  using assms(1,2)
proof (induction args arbitrary: ps)
  case Nil
  then show ?case by simp
next
  case (Cons b args)
  obtain q qs where q: "create_deserializer b = Inr q" "mapE create_deserializer args = Inr qs"
      "ps = q # qs"
    using Cons.prems(2) by (auto split: sum.splits)
  show ?case
  proof (cases "b = TNoneType")
    case True
    then have "filter (\<lambda>item. item \<noteq> TNoneType) args = [a]" using Cons.prems(1) by simp
    from Cons.IH[OF this q(2)] show ?thesis
      using True q assms(5) by (simp add: caught_by_union_def)
  next
    case False
    then have "b = a" using Cons.prems(1) by simp
    then show ?thesis using q assms(3,4) by simp
  qed
qed

subsection \<open>Values that round-trip\<close>

definition is_named_tuple_kind :: "pyval class_kind \<Rightarrow> bool" where
  "is_named_tuple_kind k = (case k of NamedTupleClass fs \<Rightarrow> True | _ \<Rightarrow> False)"

text \<open>Both factories return a codec for the type.\<close>

definition codecs_exist :: "pytype \<Rightarrow> bool" where
  "codecs_exist t = (\<not> isl (create_serializer t) \<and> \<not> isl (create_deserializer t))"

text \<open>
  The values of a type that the round trip is proved for.
  A scalar is a value of bool, int, float or str; of bytes, datetime (aware), date, time
  or UUID when the standard library reads back what it has printed; or an enumeration
  member that the lookup by value finds, with a value other than None.
  A list or a set holds such values of its item type, a set without repetition; a tuple
  holds one such value for each of its item types; a dictionary has distinct str keys and
  such values of its value type.
  An instance of a dataclass that is not frozen, of an annotated class or of a typed
  named tuple, without hooks, holds exactly the fields of its class, under distinct names
  and property names. A field that is None is restored as None by the field's
  deserializer, which a named tuple never does; any other field holds such a value of
  the field's required type, in a named tuple under the field's own name.
\<close>

function plain_value :: "pylib \<Rightarrow> pytype \<Rightarrow> pyval \<Rightarrow> bool" where
  "plain_value L t (VBool b) = (t = TBool)"
| "plain_value L t (VInt i) = (t = TInt)"
| "plain_value L t (VFloat r) = (t = TFloat)"
| "plain_value L t (VStr s) = (t = TStr)"
| "plain_value L t (VBytes bs) = (t = TBytes \<and> b64decode L (b64encode L bs) = Inr bs)"
| "plain_value L t (VDateTime d tm) =
     (t = TDateTime \<and> tzinfo tm \<noteq> None
      \<and> datetime_fromisoformat L (datetime_isoformat d tm) = Inr (d, tm))"
| "plain_value L t (VDate d) = (t = TDate \<and> date_fromisoformat L (date_isoformat d) = Inr d)"
| "plain_value L t (VTime tm) = (t = TTime \<and> time_fromisoformat L (time_isoformat tm) = Inr tm)"
| "plain_value L t (VUUID u) = (t = TUUID \<and> uuid_parse L (py_str L (VUUID u)) = Inr u)"
| "plain_value L t (VEnum c name v) =
     (t = TClass c \<and> v \<noteq> VNone
      \<and> (case c of
           PyClass n k h tj fj \<Rightarrow>
             tj = None
             \<and> (case k of EnumClass ms \<Rightarrow> find_member ms v = Some (name, v) | _ \<Rightarrow> False)))"
| "plain_value L t (VList xs) =
     (case t of
        TList u \<Rightarrow> codecs_exist u \<and> (\<forall>x\<in>set xs. plain_value L u x)
      | _ \<Rightarrow> False)"
| "plain_value L t (VSet xs) =
     (case t of
        TSet u \<Rightarrow> codecs_exist u \<and> set_of xs = xs \<and> (\<forall>x\<in>set xs. plain_value L u x)
      | _ \<Rightarrow> False)"
| "plain_value L t (VTuple xs) =
     (case t of
        TTuple ts \<Rightarrow>
          length ts = length xs \<and> (\<forall>i<length xs. plain_value L (ts ! i) (xs ! i))
      | _ \<Rightarrow> False)"
| "plain_value L t (VDict kvs) =
     (case t of
        TDict kt u \<Rightarrow>
          kt = TStr \<and> codecs_exist u \<and> distinct (map fst kvs)
          \<and> (\<forall>kv\<in>set kvs. type_of (fst kv) = TStr \<and> plain_value L u (snd kv))
      | _ \<Rightarrow> False)"
| "plain_value L t (VObject c attrs) =
     (t = TClass c \<and> codecs_exist (TClass c)
      \<and> (case c of
           PyClass n k h tj fj \<Rightarrow>
             tj = None \<and> fj = None
             \<and> (k = DataClass False \<or> (k = PlainClass \<and> h \<noteq> [])
                  \<or> (k = NamedTupleClass (map fst h) \<and> h \<noteq> []))
             \<and> distinct (map fst h) \<and> distinct (map external_name h)
             \<and> map fst attrs = map fst h
             \<and> (\<forall>i<length attrs.
                   if snd (attrs ! i) = VNone
                   then \<not> is_named_tuple_kind k
                        \<and> null_restored L k (fst (snd (h ! i))) (snd (snd (h ! i)))
                   else (is_named_tuple_kind k \<longrightarrow> external_name (h ! i) = fst (h ! i))
                        \<and> (case required_type_of (fst (snd (h ! i))) of
                               Inl e \<Rightarrow> False
                             | Inr r \<Rightarrow>
                                 plain_value L (unwrap_annotated_type r) (snd (attrs ! i))))))"
| "plain_value L t VNone = False"
| "plain_value L t VFunction = False"
| "plain_value L t VModule = False"
| "plain_value L t VMethod = False"
| "plain_value L t (VType u) = False"
  by pat_completeness auto

lemma size_attr_nth:
  assumes "i < length attrs"
  shows "size (snd (attrs ! i) :: pyval) \<le> size_list (size_prod (\<lambda>x. 0) size) attrs"
proof -
  have "attrs ! i \<in> set attrs" using assms by simp
  then have "(fst (attrs ! i), snd (attrs ! i)) \<in> set attrs" by simp
  from size_in_attrs[OF this] show ?thesis by simp
qed

lemma size_item_nth:
  assumes "i < length xs"
  shows "size (xs ! i :: pyval) \<le> size_list size xs"
  using size_in_values[of "xs ! i" xs] assms by simp

lemma size_dict_value:
  assumes "kv \<in> set (kvs :: (pyval \<times> pyval) list)"
  shows "size (snd kv) \<le> size_list (size_prod size size) kvs"
  using size_in_items[of "fst kv" "snd kv" kvs] assms by simp

termination plain_value
proof (relation "measure (\<lambda>(L, t, x). size x)", goal_cases)
  case 1
  show ?case by simp
next
  case 2
  then show ?case using size_in_values by fastforce
next
  case 3
  then show ?case using size_in_values by fastforce
next
  case 4
  from size_item_nth[OF 4(2)] show ?case by simp
next
  case 5
  from size_dict_value[OF 5(2)] show ?case by simp
next
  case 6
  from size_attr_nth[OF 6(2)] show ?case by simp
qed

lemma create_deserializer_unwrap:
  "create_deserializer (unwrap_annotated_type r) = create_deserializer r"
  by (cases r) (simp_all add: unwrap_annotated_type_def)

lemma create_serializer_unwrap:
  "create_serializer (unwrap_annotated_type r) = create_serializer r"
  by (cases r) (simp_all add: unwrap_annotated_type_def)

lemma create_serializer_optional:
  "is_type_optional t \<Longrightarrow> create_serializer t = Inr UnionSerializer"
  using create_serializer_unwrap[of t]
  by (auto simp: is_type_optional_def split: pytype.splits)

lemma codecs_existD:
  "codecs_exist t \<Longrightarrow> \<exists>g p. create_serializer t = Inr g \<and> create_deserializer t = Inr p"
  by (cases "create_serializer t"; cases "create_deserializer t") (auto simp: codecs_exist_def)

lemma digit_not_Z: "digit (n mod 10) \<noteq> CHR ''Z''"
proof -
  have "k < 10 \<Longrightarrow> digit k \<noteq> CHR ''Z''" for k
    by (auto simp: digit_def numeral_eq_Suc less_Suc_eq)
  then show ?thesis by simp
qed

lemma dec_last: "dec n \<noteq> [] \<and> last (dec n) = digit (n mod 10)"
  by (subst (1 2) dec.simps) simp

lemma zpad_last: "zpad w n \<noteq> [] \<and> last (zpad w n) \<noteq> CHR ''Z''"
  using dec_last[of n] digit_not_Z[of n] by (simp add: zpad_def)

lemma format_offset_last:
  "format_offset (Some us) \<noteq> [] \<and> last (format_offset (Some us)) \<noteq> CHR ''Z''"
  using zpad_last by (simp add: format_offset_def Let_def)

lemma datetime_isoformat_no_Z:
  assumes "tzinfo tm \<noteq> None"
  shows "\<not> endswith (datetime_isoformat d tm) ''Z''"
proof -
  obtain us where us: "tzinfo tm = Some us" using assms by auto
  have "datetime_isoformat d tm \<noteq> []"
    by (simp add: datetime_isoformat_def)
  moreover have "last (datetime_isoformat d tm) \<noteq> last ''Z''"
    using format_offset_last[of us] us by (simp add: datetime_isoformat_def time_isoformat_def)
  ultimately show ?thesis by (intro not_endswith_last) simp_all
qed

lemma endswith_offset:
  assumes "endswith s ''+00:00''"
  shows "drop_last 6 s @ ''+00:00'' = s"
proof -
  have l: "length ''+00:00'' = 6" by simp
  have "drop (length s - 6) s = ''+00:00''"
    using assms unfolding endswith_def l by simp
  then have "take (length s - 6) s @ ''+00:00'' = s"
    by (metis append_take_drop_id)
  then show ?thesis by (simp only: drop_last_def)
qed

lemma datetime_round_trip:
  assumes aware: "tzinfo tm \<noteq> None"
    and inv: "datetime_fromisoformat L (datetime_isoformat d tm) = Inr (d, tm)"
  shows "\<exists>j. generate L DateTimeSerializer (VDateTime d tm) = Inr j \<and> j \<noteq> VNone
            \<and> parse L DateTimeDeserializer j = Inr (VDateTime d tm)"
proof -
  let ?fmt = "datetime_isoformat d tm"
  have noZ: "\<not> endswith ?fmt ''Z''" using aware by (rule datetime_isoformat_no_Z)
  have reparse: "parse L DateTimeDeserializer (VStr ?fmt) = Inr (VDateTime d tm)"
    using noZ inv aware by (simp add: Let_def)
  obtain us where us: "tzinfo tm = Some us" using aware by auto
  show ?thesis
  proof (cases "endswith ?fmt ''+00:00''")
    case True
    have "drop_last 6 ?fmt @ ''+00:00'' = ?fmt"
      using True by (rule endswith_offset)
    then have "parse L DateTimeDeserializer (VStr (drop_last 6 ?fmt @ ''Z''))
               = parse L DateTimeDeserializer (VStr ?fmt)"
      using parse_datetime_Z[of L "drop_last 6 ?fmt"] by simp
    then show ?thesis using True us reparse by (simp add: tzinfo_of_def isoformat_def)
  next
    case False
    then show ?thesis using us reparse by (simp add: tzinfo_of_def isoformat_def)
  qed
qed

lemma generate_record_not_none:
  assumes "S = DataclassSerializer pgs \<or> S = TypedClassSerializer pgs" "generate L S v = Inr j"
  shows "j \<noteq> VNone"
  using assms by (auto simp: typed_class_generate_with_def split: sum.splits)


lemma mapE_map: "\<forall>x\<in>set xs. f x = Inr (h x) \<Longrightarrow> mapE f xs = Inr (map h xs)"
  by (induction xs) auto

lemma mapE_map_inv: "\<forall>x\<in>set xs. g (h x) = Inr x \<Longrightarrow> mapE g (map h xs) = Inr xs"
  by (induction xs) auto

lemma mapE_zip_map:
  "length as = length xs \<Longrightarrow> \<forall>i<length xs. f (as ! i) (xs ! i) = Inr (h (xs ! i)) \<Longrightarrow>
   mapE (\<lambda>(a, x). f a x) (zip as xs) = Inr (map h xs)"
proof (induction as xs rule: list_induct2)
  case Nil
  then show ?case by simp
next
  case (Cons a as x xs)
  have "f a x = Inr (h x)" using Cons.prems by auto
  moreover have "\<forall>i<length xs. f (as ! i) (xs ! i) = Inr (h (xs ! i))"
    using Cons.prems by auto
  ultimately show ?case using Cons.IH by simp
qed

lemma mapE_zip_map_inv:
  "length ps = length xs \<Longrightarrow> \<forall>i<length xs. g (ps ! i) (h (xs ! i)) = Inr (xs ! i) \<Longrightarrow>
   mapE (\<lambda>(p, j). g p j) (zip ps (map h xs)) = Inr xs"
proof (induction ps xs rule: list_induct2)
  case Nil
  then show ?case by simp
next
  case (Cons p ps x xs)
  have "g p (h x) = Inr x" using Cons.prems by auto
  moreover have "\<forall>i<length xs. g (ps ! i) (h (xs ! i)) = Inr (xs ! i)"
    using Cons.prems by auto
  ultimately show ?case using Cons.IH by simp
qed

lemma mapE_nth_map:
  "\<forall>i<length ts. f (ts ! i) = Inr (k (ts ! i)) \<Longrightarrow> mapE f ts = Inr (map k ts)"
  by (rule mapE_map) (metis in_set_conv_nth)

lemma dict_set_new_str:
  "type_of k = TStr \<Longrightarrow> k \<notin> fst ` set d \<Longrightarrow> dict_set d k v = d @ [(k, v)]"
proof (induction d)
  case Nil
  then show ?case by simp
next
  case (Cons kv d)
  obtain s where "k = VStr s" using Cons.prems(1) by (cases k) auto
  then show ?case using Cons by (cases kv) auto
qed

lemma foldl_dict_set_distinct:
  assumes "distinct (map fst kvs)" "\<forall>kv\<in>set kvs. type_of (fst kv) = TStr"
    "fst ` set d0 \<inter> fst ` set kvs = {}"
  shows "foldl (\<lambda>d (k, v). dict_set d k v) d0 kvs = d0 @ kvs"
  using assms
proof (induction kvs arbitrary: d0)
  case Nil
  then show ?case by simp
next
  case (Cons kv kvs)
  obtain k v where kv: "kv = (k, v)" by (cases kv)
  have k: "type_of k = TStr" "k \<notin> fst ` set d0" using Cons.prems kv by auto
  have d: "distinct (map fst kvs)" "k \<notin> fst ` set kvs" using Cons.prems(1) kv by auto
  have r: "\<forall>kv\<in>set kvs. type_of (fst kv) = TStr" using Cons.prems(2) by simp
  have "fst ` set (d0 @ [(k, v)]) \<inter> fst ` set kvs = {}"
    using Cons.prems(3) d(2) kv by auto
  from Cons.IH[OF d(1) r this] show ?case using kv dict_set_new_str[OF k] by simp
qed

lemma dict_of_str_keys:
  "distinct (map fst kvs) \<Longrightarrow> \<forall>kv\<in>set kvs. type_of (fst kv) = TStr \<Longrightarrow> dict_of kvs = kvs"
  using foldl_dict_set_distinct[of kvs "[]"] by (simp add: dict_of_def)

lemma dyn_unfold:
  "create_serializer (type_of x) = Inr g \<Longrightarrow>
   object_to_json_with (generate L) x = generate L g x"
  by (simp add: object_to_json_with_def)

lemma str_key: "type_of k = TStr \<Longrightarrow> \<not> is_enum_instance k \<and> VStr (str_of L k) = k"
  by (cases k) (auto simp: is_enum_instance_def str_of_def)

lemma plain_value_not_union: "\<not> plain_value L (TUnion ms) x"
  by (cases x) auto

lemma optional_parser:
  assumes opt: "is_type_optional ft"
    and r: "required_type_of ft = Inr r"
    and nu: "\<forall>ms. unwrap_annotated_type r \<noteq> TUnion ms"
    and p: "create_deserializer (unwrap_annotated_type r) = Inr p"
    and j: "parse L p j = Inr x" "j \<noteq> VNone"
    and pt: "create_deserializer ft = Inr pt"
  shows "parse L pt j = Inr x"
proof -
  obtain args where args: "unwrap_annotated_type ft = TUnion args"
    using opt by (auto simp: is_type_optional_def split: pytype.splits)
  let ?fl = "filter (\<lambda>item. item \<noteq> TNoneType) args"
  have "create_deserializer (TUnion args) = Inr pt"
    using pt create_deserializer_unwrap[of ft] args by simp
  then obtain ps where ps: "mapE create_deserializer args = Inr ps"
      and ptu: "pt = UnionDeserializer args ps"
    by (auto split: sum.splits)
  have "\<exists>u'. make_union ?fl = Inr u' \<and> create_deserializer u' = Inr p \<and> (\<forall>ms. u' \<noteq> TUnion ms)"
  proof (cases "\<exists>u m. ft = TAnnotated u m")
    case True
    then obtain u m where ft: "ft = TAnnotated u m" by blast
    then have u: "u = TUnion args" using args by (simp add: unwrap_annotated_type_def)
    obtain u' where u': "make_union ?fl = Inr u'" "r = TAnnotated u' m"
      using r opt ft u
      by (auto simp: required_type_of_def unwrap_optional_type_def unwrap_optional_type_inner_def
               split: sum.splits)
    have "unwrap_annotated_type r = u'" using u'(2) by (simp add: unwrap_annotated_type_def)
    then show ?thesis using u'(1) p nu by auto
  next
    case False
    then have ft: "ft = TUnion args" using args
      by (cases ft) (auto simp: unwrap_annotated_type_def)
    have mu: "make_union ?fl = Inr r"
      using r opt ft
      by (auto simp: required_type_of_def unwrap_optional_type_def unwrap_optional_type_inner_def)
    have "create_deserializer r = Inr p" using p by (simp add: create_deserializer_unwrap)
    moreover have "\<forall>ms. r \<noteq> TUnion ms"
      using nu by (auto simp: unwrap_annotated_type_def)
    ultimately show ?thesis using mu by blast
  qed
  then obtain u' where u': "make_union ?fl = Inr u'" "create_deserializer u' = Inr p"
      "\<forall>ms. u' \<noteq> TUnion ms"
    by blast
  have "?fl = [u']"
    using u'(1,3) by (auto simp: make_union_def split: list.splits)
  from union_loop_optional[OF this ps u'(2) j]
  show ?thesis using ptu by simp
qed

text \<open>
  Every such value is written by the serializer of its type, and by the serializer that
  its own class selects, to the same JSON value, which is not null and from which the
  deserializer of the type parses the value back.
\<close>

lemma plain_value_round_trip:
  "plain_value L t x \<Longrightarrow>
   \<exists>g p j. create_serializer t = Inr g \<and> create_deserializer t = Inr p
     \<and> generate L g x = Inr j \<and> object_to_json_with (generate L) x = Inr j
     \<and> j \<noteq> VNone \<and> parse L p j = Inr x"
proof (induction L t x rule: plain_value.induct)
  case (6 L t d tm)
  then show ?case using datetime_round_trip[of tm L d] by (auto simp: object_to_json_with_def)
next
  case (10 L t c name v)
  obtain n k h tj fj where c: "c = PyClass n k h tj fj" by (cases c)
  from "10.prems" c obtain ms where "t = TClass c" "v \<noteq> VNone" "tj = None" "k = EnumClass ms"
      "find_member ms v = Some (name, v)"
    by (cases k) auto
  then show ?case using c by (simp add: getattr_def call_type_def object_to_json_with_def)
next
  case (11 L t xs)
  define h where "h = (\<lambda>x. projr (object_to_json_with (generate L) x))"
  from "11.prems" obtain u where t: "t = TList u" and ce: "codecs_exist u"
      and items: "\<forall>x\<in>set xs. plain_value L u x"
    by (cases t) auto
  obtain g p where gp: "create_serializer u = Inr g" "create_deserializer u = Inr p"
    using codecs_existD[OF ce] by blast
  have each: "generate L g x = Inr (h x) \<and> object_to_json_with (generate L) x = Inr (h x)
              \<and> parse L p (h x) = Inr x" if x: "x \<in> set xs" for x
    using "11.IH"[OF t x] items x gp by (auto simp: h_def)
  have m1: "mapE (\<lambda>item. generate L g item) xs = Inr (map h xs)"
    by (rule mapE_map) (use each in blast)
  have m2: "mapE (\<lambda>item. object_to_json_with (generate L) item) xs = Inr (map h xs)"
    by (rule mapE_map) (use each in blast)
  have m3: "mapE (\<lambda>item. parse L p item) (map h xs) = Inr xs"
    by (rule mapE_map_inv) (use each in blast)
  have dyn: "object_to_json_with (generate L) (VList xs) = Inr (VList (map h xs))"
    using dyn_unfold[of "VList xs" UntypedListSerializer L] m2 by (simp add: iter_of_def)
  show ?case using t gp m1 m3 dyn by (simp add: iter_of_def)
next
  case (12 L t xs)
  define h where "h = (\<lambda>x. projr (object_to_json_with (generate L) x))"
  from "12.prems" obtain u where t: "t = TSet u" and ce: "codecs_exist u"
      and canon: "set_of xs = xs"
      and items: "\<forall>x\<in>set xs. plain_value L u x"
    by (cases t) auto
  obtain g p where gp: "create_serializer u = Inr g" "create_deserializer u = Inr p"
    using codecs_existD[OF ce] by blast
  have each: "generate L g x = Inr (h x) \<and> object_to_json_with (generate L) x = Inr (h x)
              \<and> parse L p (h x) = Inr x" if x: "x \<in> set xs" for x
    using "12.IH"[OF t x] items x gp by (auto simp: h_def)
  have m1: "mapE (\<lambda>item. generate L g item) xs = Inr (map h xs)"
    by (rule mapE_map) (use each in blast)
  have m2: "mapE (\<lambda>item. object_to_json_with (generate L) item) xs = Inr (map h xs)"
    by (rule mapE_map) (use each in blast)
  have m3: "mapE (\<lambda>item. parse L p item) (map h xs) = Inr xs"
    by (rule mapE_map_inv) (use each in blast)
  have dyn: "object_to_json_with (generate L) (VSet xs) = Inr (VList (map h xs))"
    using dyn_unfold[of "VSet xs" UntypedSetSerializer L] m2 by (simp add: iter_of_def)
  show ?case using t gp m1 m3 dyn canon by (simp add: iter_of_def)
next
  case (13 L t xs)
  define h where "h = (\<lambda>x. projr (object_to_json_with (generate L) x))"
  define G where "G = (\<lambda>u. projr (create_serializer u))"
  define P where "P = (\<lambda>u. projr (create_deserializer u))"
  from "13.prems" obtain ts where t: "t = TTuple ts" and len: "length ts = length xs"
      and items: "\<forall>i<length xs. plain_value L (ts ! i) (xs ! i)"
    by (cases t) auto
  have each: "create_serializer (ts ! i) = Inr (G (ts ! i))
              \<and> create_deserializer (ts ! i) = Inr (P (ts ! i))
              \<and> generate L (G (ts ! i)) (xs ! i) = Inr (h (xs ! i))
              \<and> object_to_json_with (generate L) (xs ! i) = Inr (h (xs ! i))
              \<and> parse L (P (ts ! i)) (h (xs ! i)) = Inr (xs ! i)" if i: "i < length xs" for i
    using "13.IH"[OF t i] items i by (auto simp: h_def G_def P_def)
  have gs: "mapE create_serializer ts = Inr (map G ts)"
    by (rule mapE_nth_map) (use each len in auto)
  have ps: "mapE create_deserializer ts = Inr (map P ts)"
    by (rule mapE_nth_map) (use each len in auto)
  have m1: "mapE (\<lambda>(item_generator, item). generate L item_generator item) (zip (map G ts) xs)
            = Inr (map h xs)"
    by (rule mapE_zip_map) (use each len in auto)
  have m2: "mapE (\<lambda>item. object_to_json_with (generate L) item) xs = Inr (map h xs)"
    by (rule mapE_map) (metis each in_set_conv_nth)
  have m3: "mapE (\<lambda>(item_parser, item). parse L item_parser item) (zip (map P ts) (map h xs))
            = Inr xs"
    by (rule mapE_zip_map_inv) (use each len in auto)
  have dyn: "object_to_json_with (generate L) (VTuple xs) = Inr (VList (map h xs))"
    using dyn_unfold[of "VTuple xs" UntypedTupleSerializer L] m2 by (simp add: iter_of_def)
  show ?case using t gs ps m1 m3 dyn len by (simp add: iter_of_def)
next
  case (14 L t kvs)
  define h where "h = (\<lambda>x. projr (object_to_json_with (generate L) x))"
  
  let ?js = "map (\<lambda>kv. (fst kv, h (snd kv))) kvs"
  from "14.prems" obtain kt u where t0: "t = TDict kt u" and kt: "kt = TStr"
      and ce: "codecs_exist u" and dist: "distinct (map fst kvs)"
      and keys: "\<forall>kv\<in>set kvs. type_of (fst kv) = TStr"
      and items: "\<forall>kv\<in>set kvs. plain_value L u (snd kv)"
    by (cases t) auto
  obtain g p where gp: "create_serializer u = Inr g" "create_deserializer u = Inr p"
    using codecs_existD[OF ce] by blast
  have each: "generate L g (snd kv) = Inr (h (snd kv))
              \<and> object_to_json_with (generate L) (snd kv) = Inr (h (snd kv))
              \<and> parse L p (h (snd kv)) = Inr (snd kv)" if kv: "kv \<in> set kvs" for kv
    using "14.IH"[OF t0 kv] items kv gp by (auto simp: h_def)
  have m1: "mapE (\<lambda>(key, v). case generate L g v of Inl e \<Rightarrow> Inl e | Inr j \<Rightarrow> Inr (key, j)) kvs
            = Inr ?js"
    by (rule mapE_map) (use each in \<open>auto simp: case_prod_beta\<close>)
  have m2: "mapE (\<lambda>(key, v). case object_to_json_with (generate L) v of
                     Inl e \<Rightarrow> Inl e
                   | Inr j \<Rightarrow> Inr (VStr (str_of L key), j)) kvs
            = Inr ?js"
    by (rule mapE_map) (use each keys str_key in \<open>auto simp: case_prod_beta\<close>)
  have m3: "mapE (\<lambda>(key, v). case call_type L TStr key of
                     Inl e \<Rightarrow> Inl e
                   | Inr k \<Rightarrow> (case parse L p v of Inl e \<Rightarrow> Inl e | Inr x \<Rightarrow> Inr (k, x)))
               ?js = Inr kvs"
    by (rule mapE_map_inv)
       (use each keys str_key in \<open>auto simp: case_prod_beta call_type_def\<close>)
  have jdist: "distinct (map fst ?js)" using dist by (simp add: comp_def)
  have jkeys: "\<forall>kv\<in>set ?js. type_of (fst kv) = TStr" using keys by auto
  have d1: "dict_of ?js = ?js" using dict_of_str_keys[OF jdist jkeys] .
  have d2: "dict_of kvs = kvs" using dict_of_str_keys[OF dist keys] .
  have noenum: "\<not> (kvs \<noteq> [] \<and> is_enum_instance (fst (hd kvs)))"
    using keys str_key by (cases kvs) auto
  have dyn: "object_to_json_with (generate L) (VDict kvs) = Inr (VDict ?js)"
    using dyn_unfold[of "VDict kvs" UntypedDictSerializer L] m2 d1 noenum by simp
  have ck: "check_key_type TStr u = Inr ()" by (simp add: check_key_type_def)
  show ?case using t0 kt gp m1 m3 dyn d1 d2 ck by (simp add: items_of_def)
next
  case (15 L t c attrs)
  obtain n k h tj fj where c: "c = PyClass n k h tj fj" by (cases c)
  from "15.prems" c have t: "t = TClass c" and ce: "codecs_exist (TClass c)"
      and hooks: "tj = None" "fj = None"
      and kind3: "k = DataClass False \<or> (k = PlainClass \<and> h \<noteq> [])
                  \<or> (k = NamedTupleClass (map fst h) \<and> h \<noteq> [])"
      and names: "distinct (map fst h)" and pnames: "distinct (map external_name h)"
      and attrs: "map fst attrs = map fst h"
      and flds: "\<forall>i<length attrs.
                   if snd (attrs ! i) = VNone
                   then \<not> is_named_tuple_kind k
                        \<and> null_restored L k (fst (snd (h ! i))) (snd (snd (h ! i)))
                   else (is_named_tuple_kind k \<longrightarrow> external_name (h ! i) = fst (h ! i))
                        \<and> (case required_type_of (fst (snd (h ! i))) of
                               Inl e \<Rightarrow> False
                             | Inr r \<Rightarrow>
                                 plain_value L (unwrap_annotated_type r) (snd (attrs ! i)))"
    by auto
  have len: "length attrs = length h" using attrs by (rule map_eq_imp_length_eq)
  obtain S D where S: "create_serializer (TClass (PyClass n k h None None)) = Inr S"
      and D: "create_deserializer (TClass (PyClass n k h None None)) = Inr D"
    using codecs_existD[OF ce] c hooks by auto
  have present: "\<exists>r g p j gt. required_type_of ft = Inr r
        \<and> plain_value L (unwrap_annotated_type r) (snd (attrs ! i))
        \<and> create_serializer (unwrap_annotated_type r) = Inr g
        \<and> create_deserializer (unwrap_annotated_type r) = Inr p
        \<and> create_deserializer r = Inr p
        \<and> create_serializer ft = Inr gt
        \<and> generate L gt (snd (attrs ! i)) = Inr j \<and> j \<noteq> VNone
        \<and> parse L p j = Inr (snd (attrs ! i))"
    if i: "i < length h" and hi: "h ! i = (f, ft, d)" and nn: "snd (attrs ! i) \<noteq> VNone"
    for i f ft d
  proof -
    have ia: "i < length attrs" using i len by simp
    have "case required_type_of ft of
            Inl e \<Rightarrow> False
          | Inr r \<Rightarrow> plain_value L (unwrap_annotated_type r) (snd (attrs ! i))"
      using flds[rule_format, OF ia] nn hi by (auto split: sum.splits)
    then obtain r where r: "required_type_of ft = Inr r"
        and pv: "plain_value L (unwrap_annotated_type r) (snd (attrs ! i))"
      by (cases "required_type_of ft") auto
    have r': "required_type_of (fst (snd (h ! i))) = Inr r" using r hi by simp
    from "15.IH"[OF c ia nn r' pv]
    obtain g p j where gpj: "create_serializer (unwrap_annotated_type r) = Inr g"
        "create_deserializer (unwrap_annotated_type r) = Inr p"
        "generate L g (snd (attrs ! i)) = Inr j"
        "object_to_json_with (generate L) (snd (attrs ! i)) = Inr j" "j \<noteq> VNone"
        "parse L p j = Inr (snd (attrs ! i))"
      by blast
    have p: "create_deserializer r = Inr p"
      using gpj(2) by (simp add: create_deserializer_unwrap)
    have "\<exists>gt. create_serializer ft = Inr gt \<and> generate L gt (snd (attrs ! i)) = Inr j"
    proof (cases "is_type_optional ft")
      case True
      then have "create_serializer ft = Inr UnionSerializer"
        by (rule create_serializer_optional)
      moreover have "generate L UnionSerializer (snd (attrs ! i)) = Inr j"
        using gpj(4) by simp
      ultimately show ?thesis by blast
    next
      case False
      then have "r = ft" using r by (simp add: required_type_of_def)
      then have "create_serializer ft = Inr g"
        using gpj(1) by (simp add: create_serializer_unwrap)
      then show ?thesis using gpj(3) by blast
    qed
    then show ?thesis using r pv gpj p by blast
  qed
  have "\<exists>j. generate L S (VObject (PyClass n k h None None) attrs) = Inr j \<and> j \<noteq> VNone
           \<and> parse L D j = Inr (VObject (PyClass n k h None None) attrs)"
  proof (cases "is_named_tuple_kind k")
    case False
    then have kind: "k = DataClass False \<or> (k = PlainClass \<and> h \<noteq> [])"
      using kind3 by (auto simp: is_named_tuple_kind_def)
    have fields: "\<forall>i<length h. field_round_trips L k (h ! i) (snd (attrs ! i))"
    proof (intro allI impI)
      fix i assume i: "i < length h"
      then have ia: "i < length attrs" using len by simp
      obtain f ft d where hi: "h ! i = (f, ft, d)" by (cases "h ! i")
      show "field_round_trips L k (h ! i) (snd (attrs ! i))"
      proof (cases "snd (attrs ! i) = VNone")
        case True
        then show ?thesis using flds ia hi by (auto simp: field_round_trips_def)
      next
        case nn: False
        from present[OF i hi nn] show ?thesis using nn hi
          by (auto simp: field_round_trips_def field_codec_round_trips_def)
      qed
    qed
    from record_round_trip_fields[OF kind S D names pnames attrs fields]
    obtain j where j: "generate L S (VObject (PyClass n k h None None) attrs) = Inr j"
        "parse L D j = Inr (VObject (PyClass n k h None None) attrs)"
      by blast
    obtain pgs where "S = DataclassSerializer pgs \<or> S = TypedClassSerializer pgs"
      using create_serializer_record[OF kind S] by blast
    from generate_record_not_none[OF this j(1)] have "j \<noteq> VNone" .
    then show ?thesis using j by blast
  next
    case True
    then have k: "k = NamedTupleClass (map fst h)" and ne: "h \<noteq> []"
      using kind3 by (auto simp: is_named_tuple_kind_def)
    obtain pps where pps: "mapE named_tuple_field_parser h = Inr pps"
      using create_deserializer_named_tuple[of n "map fst h" h None None D] D k by auto
    have fields: "\<forall>i<length h. tuple_field_round_trips L (h ! i) (snd (attrs ! i))"
    proof (intro allI impI)
      fix i assume i: "i < length h"
      then have ia: "i < length attrs" using len by simp
      obtain f ft d where hi: "h ! i = (f, ft, d)" by (cases "h ! i")
      have nn: "snd (attrs ! i) \<noteq> VNone" using flds[rule_format, OF ia] True by auto
      have same_name: "python_field_to_json_property f (Some ft) = f"
        using flds[rule_format, OF ia] True nn hi by (auto simp: external_name_def)
      from present[OF i hi nn]
      obtain r g p j gt where x: "required_type_of ft = Inr r"
          "plain_value L (unwrap_annotated_type r) (snd (attrs ! i))"
          "create_deserializer (unwrap_annotated_type r) = Inr p"
          "create_deserializer r = Inr p"
          "create_serializer ft = Inr gt"
          "generate L gt (snd (attrs ! i)) = Inr j" "j \<noteq> VNone"
          "parse L p j = Inr (snd (attrs ! i))"
        by blast
      have "named_tuple_field_parser (f, ft, d) = Inr (pps ! i)"
        using mapE_nth[OF pps i] hi by simp
      then obtain pt where pt: "create_deserializer ft = Inr pt"
        by (auto simp: named_tuple_field_parser_def split: sum.splits)
      have "parse L pt j = Inr (snd (attrs ! i))"
      proof (cases "is_type_optional ft")
        case opt: True
        have nu: "\<forall>ms. unwrap_annotated_type r \<noteq> TUnion ms"
          using x(2) plain_value_not_union by metis
        from optional_parser[OF opt x(1) nu x(3) x(8) x(7) pt] show ?thesis .
      next
        case False
        then have "r = ft" using x(1) by (simp add: required_type_of_def)
        then show ?thesis using x(4) x(8) pt by simp
      qed
      then show "tuple_field_round_trips L (h ! i) (snd (attrs ! i))"
        using hi nn same_name x(5,6) pt by (simp add: tuple_field_round_trips_def)
    qed
    from named_tuple_round_trip_fields[OF ne _ _ names attrs fields, of n S D] S D k
    show ?thesis by simp
  qed
  then obtain j where j: "generate L S (VObject (PyClass n k h None None) attrs) = Inr j"
      "j \<noteq> VNone" "parse L D j = Inr (VObject (PyClass n k h None None) attrs)"
    by blast
  have "object_to_json_with (generate L) (VObject (PyClass n k h None None) attrs) = Inr j"
    using dyn_unfold[of "VObject (PyClass n k h None None) attrs" S L] S j(1) by simp
  then show ?case using t c hooks S D j by auto
qed (simp_all add: isoformat_def str_of_def object_to_json_with_def)

text \<open>
  Claim C1, amended. Let R be a dataclass that is not frozen, an annotated class or a
  typed named tuple, without custom hooks, and v an instance of R such that every field
  of v that is None has a default that is None (dataclass), or has no default and an
  optional type (dataclass, annotated class), and every other field holds a value of the
  field's type as above: a scalar, a list, set, tuple or dictionary, or again such an
  instance. Then the serializer and the deserializer for R exist, the serializer writes
  v, and the deserializer parses what was written back to v.
\<close>

theorem record_round_trip:
  assumes "plain_value L (TClass R) (VObject R attrs)"
  shows "\<exists>S D j. create_serializer (TClass R) = Inr S
           \<and> create_deserializer (TClass R) = Inr D
           \<and> generate L S (VObject R attrs) = Inr j
           \<and> parse L D j = Inr (VObject R attrs)"
  using plain_value_round_trip[OF assms] by blast


theorem record_round_trip_witness:
  "(\<exists>S D j.
     create_serializer (TClass (PyClass ''Sample'' (DataClass False)
          [(''count'', TInt, DefaultValue (VInt 23)),
           (''note'', TUnion [TStr, TNoneType], NoDefault),
           (''tag'', TAnnotated (TUnion [TStr, TNoneType]) [Alias ''label''], DefaultValue VNone),
           (''inner'', TClass (PyClass ''Inner'' PlainClass [(''value'', TInt, NoDefault)] None None),
              NoDefault),
           (''items'', TList TStr, DefaultFactory 0),
           (''pair'', TTuple [TInt, TStr], NoDefault),
           (''names'', TSet TStr, NoDefault),
           (''table'', TDict TStr TInt, NoDefault),
           (''extra'', TUnion [TList TInt, TNoneType], NoDefault),
           (''point'', TClass (PyClass ''Point'' (NamedTupleClass [''x'', ''y''])
                [(''x'', TInt, NoDefault), (''y'', TUnion [TInt, TNoneType], NoDefault)] None None), NoDefault)]
          None None)) = Inr S
     \<and> create_deserializer (TClass (PyClass ''Sample'' (DataClass False)
          [(''count'', TInt, DefaultValue (VInt 23)),
           (''note'', TUnion [TStr, TNoneType], NoDefault),
           (''tag'', TAnnotated (TUnion [TStr, TNoneType]) [Alias ''label''], DefaultValue VNone),
           (''inner'', TClass (PyClass ''Inner'' PlainClass [(''value'', TInt, NoDefault)] None None),
              NoDefault),
           (''items'', TList TStr, DefaultFactory 0),
           (''pair'', TTuple [TInt, TStr], NoDefault),
           (''names'', TSet TStr, NoDefault),
           (''table'', TDict TStr TInt, NoDefault),
           (''extra'', TUnion [TList TInt, TNoneType], NoDefault),
           (''point'', TClass (PyClass ''Point'' (NamedTupleClass [''x'', ''y''])
                [(''x'', TInt, NoDefault), (''y'', TUnion [TInt, TNoneType], NoDefault)] None None), NoDefault)]
          None None)) = Inr D
     \<and> generate test_lib S (VObject (PyClass ''Sample'' (DataClass False)
          [(''count'', TInt, DefaultValue (VInt 23)),
           (''note'', TUnion [TStr, TNoneType], NoDefault),
           (''tag'', TAnnotated (TUnion [TStr, TNoneType]) [Alias ''label''], DefaultValue VNone),
           (''inner'', TClass (PyClass ''Inner'' PlainClass [(''value'', TInt, NoDefault)] None None),
              NoDefault),
           (''items'', TList TStr, DefaultFactory 0),
           (''pair'', TTuple [TInt, TStr], NoDefault),
           (''names'', TSet TStr, NoDefault),
           (''table'', TDict TStr TInt, NoDefault),
           (''extra'', TUnion [TList TInt, TNoneType], NoDefault),
           (''point'', TClass (PyClass ''Point'' (NamedTupleClass [''x'', ''y''])
                [(''x'', TInt, NoDefault), (''y'', TUnion [TInt, TNoneType], NoDefault)] None None), NoDefault)]
          None None)
        [(''count'', VInt 42), (''note'', VNone), (''tag'', VStr ''t''),
         (''inner'', VObject (PyClass ''Inner'' PlainClass [(''value'', TInt, NoDefault)] None None)
                      [(''value'', VInt 7)]),
         (''items'', VList [VStr ''a'', VStr ''b'']),
         (''pair'', VTuple [VInt 1, VStr ''x'']),
         (''names'', VSet [VStr ''p'']),
         (''table'', VDict [(VStr ''k'', VInt 3)]),
         (''extra'', VList [VInt 5]),
         (''point'', VObject (PyClass ''Point'' (NamedTupleClass [''x'', ''y''])
                [(''x'', TInt, NoDefault), (''y'', TUnion [TInt, TNoneType], NoDefault)] None None)
                      [(''x'', VInt 1), (''y'', VInt 2)])]) = Inr j
     \<and> parse test_lib D j = Inr (VObject (PyClass ''Sample'' (DataClass False)
          [(''count'', TInt, DefaultValue (VInt 23)),
           (''note'', TUnion [TStr, TNoneType], NoDefault),
           (''tag'', TAnnotated (TUnion [TStr, TNoneType]) [Alias ''label''], DefaultValue VNone),
           (''inner'', TClass (PyClass ''Inner'' PlainClass [(''value'', TInt, NoDefault)] None None),
              NoDefault),
           (''items'', TList TStr, DefaultFactory 0),
           (''pair'', TTuple [TInt, TStr], NoDefault),
           (''names'', TSet TStr, NoDefault),
           (''table'', TDict TStr TInt, NoDefault),
           (''extra'', TUnion [TList TInt, TNoneType], NoDefault),
           (''point'', TClass (PyClass ''Point'' (NamedTupleClass [''x'', ''y''])
                [(''x'', TInt, NoDefault), (''y'', TUnion [TInt, TNoneType], NoDefault)] None None), NoDefault)]
          None None)
        [(''count'', VInt 42), (''note'', VNone), (''tag'', VStr ''t''),
         (''inner'', VObject (PyClass ''Inner'' PlainClass [(''value'', TInt, NoDefault)] None None)
                      [(''value'', VInt 7)]),
         (''items'', VList [VStr ''a'', VStr ''b'']),
         (''pair'', VTuple [VInt 1, VStr ''x'']),
         (''names'', VSet [VStr ''p'']),
         (''table'', VDict [(VStr ''k'', VInt 3)]),
         (''extra'', VList [VInt 5]),
         (''point'', VObject (PyClass ''Point'' (NamedTupleClass [''x'', ''y''])
                [(''x'', TInt, NoDefault), (''y'', TUnion [TInt, TNoneType], NoDefault)] None None)
                      [(''x'', VInt 1), (''y'', VInt 2)])]))
   \<and> object_to_json test_lib (VObject (PyClass ''Sample'' (DataClass False)
          [(''count'', TInt, DefaultValue (VInt 23)),
           (''note'', TUnion [TStr, TNoneType], NoDefault),
           (''tag'', TAnnotated (TUnion [TStr, TNoneType]) [Alias ''label''], DefaultValue VNone),
           (''inner'', TClass (PyClass ''Inner'' PlainClass [(''value'', TInt, NoDefault)] None None),
              NoDefault),
           (''items'', TList TStr, DefaultFactory 0),
           (''pair'', TTuple [TInt, TStr], NoDefault),
           (''names'', TSet TStr, NoDefault),
           (''table'', TDict TStr TInt, NoDefault),
           (''extra'', TUnion [TList TInt, TNoneType], NoDefault),
           (''point'', TClass (PyClass ''Point'' (NamedTupleClass [''x'', ''y''])
                [(''x'', TInt, NoDefault), (''y'', TUnion [TInt, TNoneType], NoDefault)] None None), NoDefault)]
          None None)
        [(''count'', VInt 42), (''note'', VNone), (''tag'', VStr ''t''),
         (''inner'', VObject (PyClass ''Inner'' PlainClass [(''value'', TInt, NoDefault)] None None)
                      [(''value'', VInt 7)]),
         (''items'', VList [VStr ''a'', VStr ''b'']),
         (''pair'', VTuple [VInt 1, VStr ''x'']),
         (''names'', VSet [VStr ''p'']),
         (''table'', VDict [(VStr ''k'', VInt 3)]),
         (''extra'', VList [VInt 5]),
         (''point'', VObject (PyClass ''Point'' (NamedTupleClass [''x'', ''y''])
                [(''x'', TInt, NoDefault), (''y'', TUnion [TInt, TNoneType], NoDefault)] None None)
                      [(''x'', VInt 1), (''y'', VInt 2)])])
     = Inr (VDict [(VStr ''count'', VInt 42), (VStr ''label'', VStr ''t''),
                   (VStr ''inner'', VDict [(VStr ''value'', VInt 7)]),
                   (VStr ''items'', VList [VStr ''a'', VStr ''b'']),
                   (VStr ''pair'', VList [VInt 1, VStr ''x'']),
                   (VStr ''names'', VList [VStr ''p'']),
                   (VStr ''table'', VDict [(VStr ''k'', VInt 3)]),
                   (VStr ''extra'', VList [VInt 5]),
                   (VStr ''point'', VDict [(VStr ''x'', VInt 1), (VStr ''y'', VInt 2)])])"
proof -
  let ?inner = "PyClass ''Inner'' PlainClass [(''value'', TInt, NoDefault)] None None"
  let ?R = "(PyClass ''Sample'' (DataClass False)
          [(''count'', TInt, DefaultValue (VInt 23)),
           (''note'', TUnion [TStr, TNoneType], NoDefault),
           (''tag'', TAnnotated (TUnion [TStr, TNoneType]) [Alias ''label''], DefaultValue VNone),
           (''inner'', TClass (PyClass ''Inner'' PlainClass [(''value'', TInt, NoDefault)] None None),
              NoDefault),
           (''items'', TList TStr, DefaultFactory 0),
           (''pair'', TTuple [TInt, TStr], NoDefault),
           (''names'', TSet TStr, NoDefault),
           (''table'', TDict TStr TInt, NoDefault),
           (''extra'', TUnion [TList TInt, TNoneType], NoDefault),
           (''point'', TClass (PyClass ''Point'' (NamedTupleClass [''x'', ''y''])
                [(''x'', TInt, NoDefault), (''y'', TUnion [TInt, TNoneType], NoDefault)] None None), NoDefault)]
          None None)"
  let ?attrs = "[(''count'', VInt 42), (''note'', VNone), (''tag'', VStr ''t''),
         (''inner'', VObject (PyClass ''Inner'' PlainClass [(''value'', TInt, NoDefault)] None None)
                      [(''value'', VInt 7)]),
         (''items'', VList [VStr ''a'', VStr ''b'']),
         (''pair'', VTuple [VInt 1, VStr ''x'']),
         (''names'', VSet [VStr ''p'']),
         (''table'', VDict [(VStr ''k'', VInt 3)]),
         (''extra'', VList [VInt 5]),
         (''point'', VObject (PyClass ''Point'' (NamedTupleClass [''x'', ''y''])
                [(''x'', TInt, NoDefault), (''y'', TUnion [TInt, TNoneType], NoDefault)] None None)
                      [(''x'', VInt 1), (''y'', VInt 2)])]"
  have inner: "plain_value test_lib (TClass ?inner) (VObject ?inner [(''value'', VInt 7)])"
    by (simp add: codecs_exist_def external_name_def inspect_defs is_named_tuple_kind_def)
  have point: "plain_value test_lib (TClass (PyClass ''Point'' (NamedTupleClass [''x'', ''y''])
                [(''x'', TInt, NoDefault), (''y'', TUnion [TInt, TNoneType], NoDefault)] None None))
      (VObject (PyClass ''Point'' (NamedTupleClass [''x'', ''y''])
                [(''x'', TInt, NoDefault), (''y'', TUnion [TInt, TNoneType], NoDefault)] None None)
         [(''x'', VInt 1), (''y'', VInt 2)])"
    by (simp add: codecs_exist_def external_name_def inspect_defs is_named_tuple_kind_def
        All_less_Suc)
  have "plain_value test_lib (TClass ?R) (VObject ?R ?attrs)"
    using inner point
    by (simp add: codecs_exist_def external_name_def inspect_defs null_restored_def
        declared_default_def All_less_Suc set_of_def check_key_type_def
        is_named_tuple_kind_def)
  from record_round_trip[OF this]
  have rt: "\<exists>S D j. create_serializer (TClass ?R) = Inr S
      \<and> create_deserializer (TClass ?R) = Inr D
      \<and> generate test_lib S (VObject ?R ?attrs) = Inr j
      \<and> parse test_lib D j = Inr (VObject ?R ?attrs)" .
  have js: "object_to_json test_lib (VObject ?R ?attrs)
     = Inr (VDict [(VStr ''count'', VInt 42), (VStr ''label'', VStr ''t''),
                   (VStr ''inner'', VDict [(VStr ''value'', VInt 7)]),
                   (VStr ''items'', VList [VStr ''a'', VStr ''b'']),
                   (VStr ''pair'', VList [VInt 1, VStr ''x'']),
                   (VStr ''names'', VList [VStr ''p'']),
                   (VStr ''table'', VDict [(VStr ''k'', VInt 3)]),
                   (VStr ''extra'', VList [VInt 5]),
                   (VStr ''point'', VDict [(VStr ''x'', VInt 1), (VStr ''y'', VInt 2)])])"
    by (simp add: inspect_defs object_to_json_def object_to_json_with_def
        typed_class_generate_with_def generate_field_with_def getattr_def iter_of_def
        items_of_def dict_of_def)
  show ?thesis using rt js by blast
qed

text \<open>
  The claim as stated fails for a field that holds None and is not restored as None.
  For \<^verbatim>\<open>@dataclass class D: x: Optional[int] = 5\<close> the value \<^verbatim>\<open>D(x=None)\<close> has no
  field without default; it is written as the empty object, and the empty object is
  read as \<^verbatim>\<open>D(x=5)\<close>. For the annotated class \<^verbatim>\<open>class P: x: int = None\<close> the
  value with x None is written as the empty object too, and reading the empty object
  raises a JsonKeyError: the deserializer of an annotated class knows no defaults.
\<close>

theorem round_trip_counterexample:
  "object_to_json test_lib
     (VObject (PyClass ''D'' (DataClass False) [(''x'', TUnion [TInt, TNoneType], DefaultValue (VInt 5))] None None)
        [(''x'', VNone)])
   = Inr (VDict [])
   \<and> deserialize test_lib
     (TClass (PyClass ''D'' (DataClass False) [(''x'', TUnion [TInt, TNoneType], DefaultValue (VInt 5))] None None))
     (VDict [])
   = Inr (VObject (PyClass ''D'' (DataClass False) [(''x'', TUnion [TInt, TNoneType], DefaultValue (VInt 5))] None None)
        [(''x'', VInt 5)])
   \<and> VObject (PyClass ''D'' (DataClass False) [(''x'', TUnion [TInt, TNoneType], DefaultValue (VInt 5))] None None)
        [(''x'', VInt 5)]
     \<noteq> VObject (PyClass ''D'' (DataClass False) [(''x'', TUnion [TInt, TNoneType], DefaultValue (VInt 5))] None None)
        [(''x'', VNone)]
   \<and> object_to_json test_lib
     (VObject (PyClass ''P'' PlainClass [(''x'', TInt, DefaultValue VNone)] None None) [(''x'', VNone)])
   = Inr (VDict [])
   \<and> deserialize test_lib
     (TClass (PyClass ''P'' PlainClass [(''x'', TInt, DefaultValue VNone)] None None)) (VDict [])
   = Inl (JsonKeyError [Txt ''missing required property `'', Str ''x'',
                        Txt ''` from JSON object: '', Obj (VDict [])])"
  by (simp add: inspect_defs object_to_json_def object_to_json_with_def deserialize_def
      typed_class_generate_with_def generate_field_with_def getattr_def
      class_parse_with_def parse_field_with_def dict_get_default_def unassigned_names_def
      create_instance_def)

text \<open>
  A frozen dataclass is not covered: every field parses, and the first setattr on the
  new instance raises.
\<close>

lemma frozen_dataclass_not_created:
  "deserialize test_lib
     (TClass (PyClass ''FrozenValueWrapper'' (DataClass True) [(''value'', TInt, NoDefault)] None None))
     (VDict [(VStr ''value'', VInt 42)])
   = Inl (FrozenInstanceError [Txt ''cannot assign to field '', Obj (VStr ''value'')])"
  by (simp add: inspect_defs deserialize_def class_parse_with_def parse_field_with_def
      unassigned_names_def create_instance_def)

end
